theory Spec2Isabelle
  imports Main "HOL-Library.Sublist"
begin

section \<open>release2chart: a shallow embedding of pkg/helm/releases.go and the command\<close>

text \<open>
  The program reads one Helm release record out of a Kubernetes secret, decodes it
  (base64, gzip, JSON), writes the chart's files into a temporary directory, runs Helm's
  packaging action on that directory and, if the release carries override values, writes
  them to \<^verbatim>\<open>values.yaml\<close> in the working directory.

  Go strings and byte slices are byte sequences: both are \<^typ>\<open>string\<close> here. Go's \<^verbatim>\<open>int\<close>
  is \<^typ>\<open>int\<close>; the only place where its 64-bit range matters is \<^verbatim>\<open>strconv.Atoi\<close>, which
  checks it. Everything the program calls in other packages is either a field of the
  environment record \<open>env\<close> (the cluster, gzip, JSON and YAML codecs, Helm's packaging
  action, the failures of the operating system) or a definition that follows the
  documented behaviour of the Go standard library (strconv, path/filepath, base64).
\<close>

subsection \<open>Errors and outcomes\<close>

text \<open>
  \<^verbatim>\<open>errors.New\<close> and \<^verbatim>\<open>errors.Errorf\<close> make an error from a message, \<^verbatim>\<open>errors.Wrap\<close> puts a
  context message around an error, \<^verbatim>\<open>strconv\<close> reports a \<^verbatim>\<open>NumError\<close> (function, input,
  reason). A Go function either returns normally, returns an error, or panics (a nil
  pointer dereference).
\<close>

datatype error = New string | Wrap error string | NumError string string string

fun Cause :: "error \<Rightarrow> error" where
  "Cause (Wrap e msg) = Cause e"
| "Cause e = e"

datatype 'a outcome = Ok 'a | Err error | Panic

subsection \<open>strconv\<close>

definition digit_char :: "nat \<Rightarrow> char" where
  "digit_char d = ''0123456789'' ! d"

fun FormatUint :: "nat \<Rightarrow> string" where
  "FormatUint n =
     (if n < 10 then [digit_char n] else FormatUint (n div 10) @ [digit_char (n mod 10)])"

definition Itoa :: "int \<Rightarrow> string" where
  "Itoa i = (if i < 0 then CHR ''-'' # FormatUint (nat (- i)) else FormatUint (nat i))"

definition is_digit :: "char \<Rightarrow> bool" where
  "is_digit c = (48 \<le> (of_char c :: nat) \<and> (of_char c :: nat) \<le> 57)"

definition digit_val :: "char \<Rightarrow> nat" where
  "digit_val c = of_char c - 48"

datatype scan = Value nat | Syntax | Range

text \<open>
  \<^verbatim>\<open>ParseUint(s, 10, 64)\<close>: the digits are read from the left; a byte that is not a
  decimal digit is a syntax error, an accumulated value above \<open>2^64 - 1\<close> a range error,
  whichever comes first.
\<close>

fun scan_digits :: "nat \<Rightarrow> string \<Rightarrow> scan" where
  "scan_digits n [] = Value n"
| "scan_digits n (c # cs) =
     (if \<not> is_digit c then Syntax
      else if n * 10 + digit_val c \<ge> 2 ^ 64 then Range
      else scan_digits (n * 10 + digit_val c) cs)"

text \<open>
  \<^verbatim>\<open>strconv.Atoi\<close>: an optional sign, then at least one digit, base 10 only; the value
  must fit a 64-bit signed integer.
\<close>

definition Atoi :: "string \<Rightarrow> error + int" where
  "Atoi s =
     (let neg = (s \<noteq> [] \<and> hd s = CHR ''-'');
          ds = (if s \<noteq> [] \<and> (hd s = CHR ''-'' \<or> hd s = CHR ''+'') then tl s else s)
      in if ds = [] then Inl (NumError ''Atoi'' s ''invalid syntax'')
         else case scan_digits 0 ds of
           Syntax \<Rightarrow> Inl (NumError ''Atoi'' s ''invalid syntax'')
         | Range \<Rightarrow> Inl (NumError ''Atoi'' s ''value out of range'')
         | Value n \<Rightarrow>
             if neg then
               (if n > 2 ^ 63 then Inl (NumError ''Atoi'' s ''value out of range'')
                else Inr (- int n))
             else
               (if n \<ge> 2 ^ 63 then Inl (NumError ''Atoi'' s ''value out of range'')
                else Inr (int n)))"

subsection \<open>The cluster\<close>

text \<open>
  A secret has labels and data; reading a missing key of a Go map gives the zero value
  (the empty string, the nil slice). The clientset lists the secrets of a namespace
  that match a label set; the call can fail. \<^verbatim>\<open>GetClientset\<close> is a function of this
  repository whose source is in another file: its result is a field of the environment.
\<close>

record secret =
  Labels :: "string \<rightharpoonup> string"
  SecretData :: "string \<rightharpoonup> string"

definition label :: "secret \<Rightarrow> string \<Rightarrow> string" where
  "label s k = (case Labels s k of None \<Rightarrow> [] | Some v \<Rightarrow> v)"

definition secret_data :: "secret \<Rightarrow> string \<Rightarrow> string" where
  "secret_data s k = (case SecretData s k of None \<Rightarrow> [] | Some v \<Rightarrow> v)"

type_synonym clientset = "string \<Rightarrow> (string \<times> string) list \<Rightarrow> error + secret list"

subsection \<open>path/filepath (Unix)\<close>

text \<open>
  \<^verbatim>\<open>filepath.Clean\<close> is lexical: it drops empty and \<^verbatim>\<open>.\<close> elements, lets \<^verbatim>\<open>..\<close> cancel the
  element before it, drops \<^verbatim>\<open>..\<close> at the start of a rooted path, and returns \<^verbatim>\<open>.\<close> for an
  empty result. The elements are kept on a stack, the last one first.
\<close>

fun split_sep :: "string \<Rightarrow> string list" where
  "split_sep [] = [[]]"
| "split_sep (c # cs) =
     (if c = CHR ''/'' then [] # split_sep cs
      else (case split_sep cs of [] \<Rightarrow> [[c]] | x # xs \<Rightarrow> (c # x) # xs))"

fun join_sep :: "string list \<Rightarrow> string" where
  "join_sep [] = []"
| "join_sep [x] = x"
| "join_sep (x # y # zs) = x @ CHR ''/'' # join_sep (y # zs)"

definition clean_step :: "bool \<Rightarrow> string list \<Rightarrow> string \<Rightarrow> string list" where
  "clean_step rooted st el =
     (if el = [] \<or> el = ''.'' then st
      else if el = ''..'' then
        (case st of
           [] \<Rightarrow> (if rooted then [] else [''..''])
         | t # ts \<Rightarrow> (if t = ''..'' then ''..'' # st else ts))
      else el # st)"

definition is_rooted :: "string \<Rightarrow> bool" where
  "is_rooted p = (p \<noteq> [] \<and> hd p = CHR ''/'')"

definition Clean :: "string \<Rightarrow> string" where
  "Clean p =
     (let body = join_sep (rev (foldl (clean_step (is_rooted p)) [] (split_sep p)))
      in if is_rooted p then CHR ''/'' # body else if body = [] then ''.'' else body)"

text \<open>
  \<^verbatim>\<open>filepath.Join\<close> of two elements: empty leading elements are ignored, the rest is joined
  with a slash and cleaned; the join of empty elements only is the empty string.
\<close>

definition Join :: "string \<Rightarrow> string \<Rightarrow> string" where
  "Join a b =
     (if a \<noteq> [] then Clean (a @ CHR ''/'' # b) else if b \<noteq> [] then Clean b else [])"

text \<open>\<^verbatim>\<open>filepath.Dir\<close>: everything up to the last slash, cleaned.\<close>

definition Dir :: "string \<Rightarrow> string" where
  "Dir p = Clean (rev (dropWhile (\<lambda>c. c \<noteq> CHR ''/'') (rev p)))"

text \<open>
  \<^verbatim>\<open>filepath.Base\<close>: the last element of the path, trailing slashes removed first;
  \<^verbatim>\<open>.\<close> for the empty path and \<^verbatim>\<open>/\<close> for a path of slashes only.
\<close>

definition Base :: "string \<Rightarrow> string" where
  "Base p =
     (if p = [] then ''.''
      else let q = rev (dropWhile (\<lambda>c. c = CHR ''/'') (rev p));
               r = rev (takeWhile (\<lambda>c. c \<noteq> CHR ''/'') (rev q))
           in if r = [] then ''/'' else r)"

subsection \<open>encoding/base64, the standard encoding\<close>

definition b64_char :: "nat \<Rightarrow> char" where
  "b64_char i = ''ABCDEFGHIJKLMNOPQRSTUVWXYZabcdefghijklmnopqrstuvwxyz0123456789+/'' ! i"

definition b64_val :: "char \<Rightarrow> nat option" where
  "b64_val c =
     (let n = (of_char c :: nat) in
      if 65 \<le> n \<and> n \<le> 90 then Some (n - 65)
      else if 97 \<le> n \<and> n \<le> 122 then Some (n - 71)
      else if 48 \<le> n \<and> n \<le> 57 then Some (n + 4)
      else if n = 43 then Some 62
      else if n = 47 then Some 63
      else None)"

definition byte :: "nat \<Rightarrow> char" where
  "byte n = char_of n"

text \<open>\<^verbatim>\<open>EncodeToString\<close>: three bytes become four characters, the last group is padded.\<close>

fun EncodeToString :: "string \<Rightarrow> string" where
  "EncodeToString [] = []"
| "EncodeToString [a] =
     (let x = (of_char a :: nat) in
      [b64_char (x div 4), b64_char ((x mod 4) * 16), CHR ''='', CHR ''=''])"
| "EncodeToString [a, b] =
     (let x = (of_char a :: nat); y = (of_char b :: nat) in
      [b64_char (x div 4), b64_char ((x mod 4) * 16 + y div 16),
       b64_char ((y mod 16) * 4), CHR ''=''])"
| "EncodeToString (a # b # c # rest) =
     (let x = (of_char a :: nat); y = (of_char b :: nat); z = (of_char c :: nat) in
      b64_char (x div 4) # b64_char ((x mod 4) * 16 + y div 16) #
      b64_char ((y mod 16) * 4 + z div 64) # b64_char (z mod 64) # EncodeToString rest)"

text \<open>
  \<^verbatim>\<open>Encoding.Decode\<close> on one buffer. A group of four characters gives three bytes; a
  padded group (\<^verbatim>\<open>xx==\<close> one byte, \<^verbatim>\<open>xxx=\<close> two bytes) ends the data: its bytes are still
  delivered, and input after it in the same buffer is an error. A character outside the
  alphabet, misplaced padding or an incomplete group is an error, and nothing of that
  group is delivered. The result is the bytes delivered and the error, if any (the
  input offset that Go's \<^verbatim>\<open>CorruptInputError\<close> carries is left out).
\<close>

type_synonym reader = "string \<times> error option"

definition CorruptInputError :: error where
  "CorruptInputError = New ''illegal base64 data''"

definition ErrUnexpectedEOF :: error where
  "ErrUnexpectedEOF = New ''unexpected EOF''"

fun decode_quanta :: "string \<Rightarrow> reader" where
  "decode_quanta [] = ([], None)"
| "decode_quanta (a # b # c # d # rest) =
     (case (b64_val a, b64_val b) of
        (Some x, Some y) \<Rightarrow>
          (if c = CHR ''='' then
             (if d = CHR ''=''
              then ([byte (x * 4 + y div 16)], if rest = [] then None else Some CorruptInputError)
              else ([], Some CorruptInputError))
           else
             (case b64_val c of
                None \<Rightarrow> ([], Some CorruptInputError)
              | Some z \<Rightarrow>
                  (if d = CHR ''='' then
                     ([byte (x * 4 + y div 16), byte ((y mod 16) * 16 + z div 4)],
                      if rest = [] then None else Some CorruptInputError)
                   else
                     (case b64_val d of
                        None \<Rightarrow> ([], Some CorruptInputError)
                      | Some w \<Rightarrow>
                          (byte (x * 4 + y div 16) # byte ((y mod 16) * 16 + z div 4) #
                           byte ((z mod 4) * 64 + w) # fst (decode_quanta rest),
                           snd (decode_quanta rest))))))
      | _ \<Rightarrow> ([], Some CorruptInputError))"
| "decode_quanta _ = ([], Some CorruptInputError)"

text \<open>
  The reader that \<^verbatim>\<open>base64.NewDecoder\<close> returns, read to its end. It keeps a buffer of 1024
  characters: while fewer than four characters are buffered and the source is not at its
  end, it reads as many bytes from the source as the buffer has room for and drops the
  carriage returns and line feeds among them; then it decodes the buffered groups of
  four with \<^verbatim>\<open>Decode\<close>, delivers the bytes and keeps the incomplete group for the next round.
  One to three characters left at the end of the source are an unexpected end of input.
  (The room asked for depends on the size of the consumer's read; the consumer here is
  the \<^verbatim>\<open>bufio.Reader\<close> of 4096 bytes that \<^verbatim>\<open>gzip.NewReader\<close> puts in front of it, for which
  it is the whole room of the buffer.) \<open>buf\<close> is the buffer, \<open>src\<close> what is left of the
  source.
\<close>

function b64_read :: "string \<Rightarrow> string \<Rightarrow> reader" where
  "b64_read buf src =
     (if length buf < 4 then
        (if src = [] then (if buf = [] then ([], None) else ([], Some ErrUnexpectedEOF))
         else b64_read
                (buf @ filter (\<lambda>c. (of_char c :: nat) \<noteq> 10 \<and> (of_char c :: nat) \<noteq> 13)
                         (take (1024 - length buf) src))
                (drop (1024 - length buf) src))
      else
        (case snd (decode_quanta (take (length buf div 4 * 4) buf)) of
           Some err \<Rightarrow> (fst (decode_quanta (take (length buf div 4 * 4) buf)), Some err)
         | None \<Rightarrow>
             (fst (decode_quanta (take (length buf div 4 * 4) buf)) @
              fst (b64_read (drop (length buf div 4 * 4) buf) src),
              snd (b64_read (drop (length buf div 4 * 4) buf) src))))"
  by pat_completeness auto
termination
  apply (relation "measure (\<lambda>(buf, src). 2 * length src + (if length buf < 4 then 0 else 1))")
  subgoal by simp
  subgoal for buf src by (cases src) (auto split: if_splits)
  subgoal for buf src by (simp add: minus_div_mult_eq_mod)
  subgoal for buf src by (simp add: minus_div_mult_eq_mod)
  done

declare b64_read.simps [simp del]

definition NewDecoder :: "string \<Rightarrow> reader" where
  "NewDecoder src = b64_read [] src"

subsection \<open>The file system\<close>

text \<open>
  Regular files are a map from paths to contents, directories a set of paths. Paths are
  compared as strings (no symbolic links, no relative name of an absolute path). A call
  fails when the environment says so (\<open>fault\<close>: permissions, a full disk) or when the
  path names the wrong kind of entry; otherwise it has its documented effect.
\<close>

record fs =
  files :: "string \<rightharpoonup> string"
  dirs :: "string set"

datatype syscall = SysTempDir | SysMkdirAll string | SysWriteFile string

definition inside :: "string \<Rightarrow> string \<Rightarrow> bool" where
  "inside d p = prefix (d @ ''/'') p"

text \<open>The directories \<^verbatim>\<open>os.MkdirAll\<close> makes sure of: the path and each of its parents.\<close>

fun dir_chain :: "string \<Rightarrow> string \<Rightarrow> string list" where
  "dir_chain pre [] = (if pre = [] then [] else [pre])"
| "dir_chain pre (c # cs) =
     (if c = CHR ''/'' \<and> pre \<noteq> [] then pre # dir_chain (pre @ [c]) cs
      else dir_chain (pre @ [c]) cs)"

definition MkdirAll :: "(syscall \<Rightarrow> error option) \<Rightarrow> fs \<Rightarrow> string \<Rightarrow> error + fs" where
  "MkdirAll flt s p =
     (case flt (SysMkdirAll p) of
        Some err \<Rightarrow> Inl err
      | None \<Rightarrow>
          if list_ex (\<lambda>q. files s q \<noteq> None) (dir_chain [] p)
          then Inl (New ''not a directory'')
          else Inr (s\<lparr>dirs := dirs s \<union> set (dir_chain [] p)\<rparr>))"

definition WriteFile :: "(syscall \<Rightarrow> error option) \<Rightarrow> fs \<Rightarrow> string \<Rightarrow> string \<Rightarrow> error + fs" where
  "WriteFile flt s p content =
     (case flt (SysWriteFile p) of
        Some err \<Rightarrow> Inl err
      | None \<Rightarrow>
          if p \<in> dirs s then Inl (New ''is a directory'')
          else Inr (s\<lparr>files := (files s)(p \<mapsto> content)\<rparr>))"

text \<open>
  \<^verbatim>\<open>os.RemoveAll\<close> removes the path and everything below it. The program ignores its
  result, and the model takes the removal to succeed.
\<close>

definition RemoveAll :: "fs \<Rightarrow> string \<Rightarrow> fs" where
  "RemoveAll s d =
     \<lparr>files = (\<lambda>p. if p = d \<or> inside d p then None else files s p),
      dirs = Set.filter (\<lambda>p. \<not> (p = d \<or> inside d p)) (dirs s)\<rparr>"

text \<open>
  \<^verbatim>\<open>ioutil.TempDir(dir, pattern)\<close>: in the system's temporary directory when \<open>dir\<close> is
  empty, it tries the pattern followed by random suffixes until a name does not exist
  yet, and creates that directory, which fails when a parent of it is not a directory.
  \<open>rnd\<close> is the sequence of suffixes drawn.
\<close>

definition TempDir ::
  "(syscall \<Rightarrow> error option) \<Rightarrow> string \<Rightarrow> string list \<Rightarrow> fs \<Rightarrow> string \<Rightarrow> string \<Rightarrow>
   error + (string \<times> fs)" where
  "TempDir flt tmpdir rnd s dir pattern =
     (case flt SysTempDir of
        Some err \<Rightarrow> Inl err
      | None \<Rightarrow>
          (case List.find (\<lambda>d. d \<notin> dirs s \<and> files s d = None)
                  (map (\<lambda>r. Join (if dir = [] then tmpdir else dir) (pattern @ r)) rnd) of
             None \<Rightarrow> Inl (New ''file exists'')
           | Some d \<Rightarrow>
               if list_all (\<lambda>q. q \<in> dirs s) (butlast (dir_chain [] d))
               then Inr (d, s\<lparr>dirs := insert d (dirs s)\<rparr>)
               else Inl (New ''no such file or directory'')))"

subsection \<open>The release record\<close>

text \<open>
  The types of Helm's \<^verbatim>\<open>release\<close> and \<^verbatim>\<open>chart\<close> packages, as far as the program reads them.
  Pointers can be nil: the release, its chart, the metadata and each entry of the file
  lists are options. The metadata struct and the values stored under the keys of the
  two value maps are only handed to the YAML encoder: they are type parameters.
  \<^verbatim>\<open>Schema\<close> is a byte slice, nil when the chart has no schema. The local struct
  \<^verbatim>\<open>chartFile\<close> of \<^verbatim>\<open>saveReleaseToFiles\<close> has the fields of \<^verbatim>\<open>chart.File\<close>.
\<close>

record File =
  Name :: string
  Data :: string

record ('m, 'v) chart =
  Metadata :: "'m option"
  Templates :: "File option list"
  Values :: "(string \<times> 'v) list"
  Schema :: "string option"
  Files :: "File option list"

record ('m, 'v) release =
  Chart :: "('m, 'v) chart option"
  Config :: "(string \<times> 'v) list"

subsection \<open>The environment\<close>

text \<open>
  \<^verbatim>\<open>gzip.NewReader\<close> fails on a bad header, \<^verbatim>\<open>ioutil.ReadAll\<close> of the gzip reader on bad
  data (or on an error of the reader below); otherwise the decompressed bytes come out.
  \<^verbatim>\<open>action.Package.Run\<close> takes the file system, the chart directory and the destination
  and gives an error or the path of the archive it wrote, and the file system after it.
\<close>

datatype gz_result = HeaderError error | ReadError error | Inflated string

record ('m, 'v) env =
  GetClientset :: "error + clientset"
  gunzip :: "reader \<Rightarrow> gz_result"
  json_Unmarshal :: "string \<Rightarrow> error + ('m, 'v) release option"
  yaml_Marshal_metadata :: "'m option \<Rightarrow> error + string"
  yaml_Marshal_values :: "(string \<times> 'v) list \<Rightarrow> error + string"
  package_Run :: "fs \<Rightarrow> string \<Rightarrow> string \<Rightarrow> (error + string) \<times> fs"
  fault :: "syscall \<Rightarrow> error option"
  TMPDIR :: string
  rand :: "string list"

text \<open>
  \<^verbatim>\<open>json.Marshal\<close> of a byte slice: a nil slice is \<^verbatim>\<open>null\<close>, any other slice the
  base64 text of its bytes in double quotes. It does not fail.
\<close>

definition json_Marshal_bytes :: "string option \<Rightarrow> error + string" where
  "json_Marshal_bytes b =
     Inr (case b of
            None \<Rightarrow> ''null''
          | Some bs \<Rightarrow> CHR 0x22 # EncodeToString bs @ [CHR 0x22])"

subsection \<open>pkg/helm/releases.go\<close>

fun scan_latest :: "int \<Rightarrow> secret list \<Rightarrow> int" where
  "scan_latest latestRevision [] = latestRevision"
| "scan_latest latestRevision (s # rest) =
     (case Atoi (label s ''version'') of
        Inl err \<Rightarrow> scan_latest latestRevision rest
      | Inr revision \<Rightarrow>
          scan_latest (if revision > latestRevision then revision else latestRevision) rest)"

definition FindLatestReleaseVersion :: "('m, 'v) env \<Rightarrow> string \<Rightarrow> string \<Rightarrow> error + int" where
  "FindLatestReleaseVersion e namespace releaseName =
     (case GetClientset e of
        Inl err \<Rightarrow> Inl (Wrap err ''get clientset'')
      | Inr clientSet \<Rightarrow>
          (case clientSet namespace [(''owner'', ''helm''), (''name'', releaseName)] of
             Inl err \<Rightarrow> Inl (Wrap err ''list secrets'')
           | Inr items \<Rightarrow> Inr (scan_latest 0 items)))"

definition helmReleaseFromReleaseData ::
  "('m, 'v) env \<Rightarrow> string \<Rightarrow> error + ('m, 'v) release option" where
  "helmReleaseFromReleaseData e d =
     (case gunzip e (NewDecoder d) of
        HeaderError err \<Rightarrow> Inl (Wrap err ''create gzip reader'')
      | ReadError err \<Rightarrow> Inl (Wrap err ''read from gzip reader'')
      | Inflated releaseData \<Rightarrow>
          (case json_Unmarshal e releaseData of
             Inl err \<Rightarrow> Inl (Wrap err ''unmarshal release data'')
           | Inr release \<Rightarrow> Inr release))"

text \<open>The last loop of \<^verbatim>\<open>saveReleaseToFiles\<close>: it stops at the first failure.\<close>

fun write_files ::
  "(syscall \<Rightarrow> error option) \<Rightarrow> fs \<Rightarrow> string \<Rightarrow> File list \<Rightarrow> unit outcome \<times> fs" where
  "write_files flt s destDir [] = (Ok (), s)"
| "write_files flt s destDir (chartFile # rest) =
     (case MkdirAll flt s (Dir (Join destDir (Name chartFile))) of
        Inl err \<Rightarrow>
          (Err (Wrap err (''create dir '' @ Dir (Join destDir (Name chartFile)))), s)
      | Inr s1 \<Rightarrow>
          (case WriteFile flt s1 (Join destDir (Name chartFile)) (Data chartFile) of
             Inl err \<Rightarrow> (Err (Wrap err (''write file '' @ Join destDir (Name chartFile))), s1)
           | Inr s2 \<Rightarrow> write_files flt s2 destDir rest))"

text \<open>
  \<^verbatim>\<open>saveReleaseToFiles\<close>: a nil release, a nil chart or a nil entry of a file list is a
  nil pointer dereference in the first two loops, before anything is written.
\<close>

definition saveReleaseToFiles ::
  "('m, 'v) env \<Rightarrow> fs \<Rightarrow> ('m, 'v) release option \<Rightarrow> string \<Rightarrow> unit outcome \<times> fs" where
  "saveReleaseToFiles e s release destDir =
     (case release of
        None \<Rightarrow> (Panic, s)
      | Some r \<Rightarrow>
     (case Chart r of
        None \<Rightarrow> (Panic, s)
      | Some c \<Rightarrow>
     (case those (Files c) of
        None \<Rightarrow> (Panic, s)
      | Some fs1 \<Rightarrow>
     (case those (Templates c) of
        None \<Rightarrow> (Panic, s)
      | Some fs2 \<Rightarrow>
     (case yaml_Marshal_metadata e (Metadata c) of
        Inl err \<Rightarrow> (Err (Wrap err ''marshal chart metadata''), s)
      | Inr chartMetadata \<Rightarrow>
     (case yaml_Marshal_values e (Values c) of
        Inl err \<Rightarrow> (Err (Wrap err ''marshal chart values''), s)
      | Inr chartValues \<Rightarrow>
     (case json_Marshal_bytes (Schema c) of
        Inl err \<Rightarrow> (Err (Wrap err ''marshal chart values schema''), s)
      | Inr chartValuesSchema \<Rightarrow>
          write_files (fault e) s destDir
            (fs1 @ fs2 @
             [\<lparr>Name = ''Chart.yaml'', Data = chartMetadata\<rparr>,
              \<lparr>Name = ''values.yaml'', Data = chartValues\<rparr>,
              \<lparr>Name = ''values.schema.json'', Data = chartValuesSchema\<rparr>]))))))))"

text \<open>
  The part of \<^verbatim>\<open>ConvertReleaseVersion\<close> that runs after \<^verbatim>\<open>defer os.RemoveAll(releaseDir)\<close>:
  saving, packaging and the values file.
\<close>

definition convert_in_dir ::
  "('m, 'v) env \<Rightarrow> fs \<Rightarrow> ('m, 'v) release option \<Rightarrow> string \<Rightarrow> string \<Rightarrow>
   (string \<times> string) outcome \<times> fs" where
  "convert_in_dir e s helmRelease releaseDir dstDir =
     (case saveReleaseToFiles e s helmRelease releaseDir of
        (Panic, s1) \<Rightarrow> (Panic, s1)
      | (Err err, s1) \<Rightarrow> (Err (Wrap err ''save release to files''), s1)
      | (Ok u, s1) \<Rightarrow>
          (case package_Run e s1 releaseDir dstDir of
             (Inl err, s2) \<Rightarrow> (Err (Wrap err ''package client run''), s2)
           | (Inr chartFile, s2) \<Rightarrow>
               (case helmRelease of
                  None \<Rightarrow> (Panic, s2)
                | Some r \<Rightarrow>
                    if length (Config r) \<noteq> 0 then
                      (case yaml_Marshal_values e (Config r) of
                         Inl err \<Rightarrow> (Err (Wrap err ''marshal config data''), s2)
                       | Inr configData \<Rightarrow>
                           (case WriteFile (fault e) s2 (Join dstDir ''values.yaml'') configData of
                              Inl err \<Rightarrow> (Err (Wrap err ''write values file''), s2)
                            | Inr s3 \<Rightarrow>
                                (Ok (Base chartFile, Base (Join dstDir ''values.yaml'')), s3)))
                    else (Ok (Base chartFile, Base []), s2))))"

definition ConvertReleaseVersion ::
  "('m, 'v) env \<Rightarrow> fs \<Rightarrow> string \<Rightarrow> string \<Rightarrow> int \<Rightarrow> (string \<times> string) outcome \<times> fs" where
  "ConvertReleaseVersion e s namespace releaseName revision =
     (case GetClientset e of
        Inl err \<Rightarrow> (Err (Wrap err ''get clientset''), s)
      | Inr clientSet \<Rightarrow>
     (case clientSet namespace
             [(''owner'', ''helm''), (''name'', releaseName), (''version'', Itoa revision)] of
        Inl err \<Rightarrow> (Err (Wrap err ''list secrets''), s)
      | Inr items \<Rightarrow>
          if length items \<noteq> 1 then
            (Err (New (''found '' @ Itoa (int (length items)) @ '' matching releases'')), s)
          else
     (case helmReleaseFromReleaseData e (secret_data (items ! 0) ''release'') of
        Inl err \<Rightarrow> (Err (Wrap err ''parse release info from secret''), s)
      | Inr helmRelease \<Rightarrow>
     (case TempDir (fault e) (TMPDIR e) (rand e) s [] ''helm-release-'' of
        Inl err \<Rightarrow> (Err (Wrap err ''create temp dir''), s)
      | Inr (releaseDir, s1) \<Rightarrow>
          (case convert_in_dir e s1 helmRelease releaseDir ''.'' of
             (res, s2) \<Rightarrow> (res, RemoveAll s2 releaseDir))))))"

subsection \<open>pkg/cli: the command\<close>

text \<open>
  \<^verbatim>\<open>RunE\<close> gets the positional arguments and the values of the flags \<^verbatim>\<open>namespace\<close> and
  \<^verbatim>\<open>revision\<close>; it returns its outcome, the file system and the lines it printed.
  \<^verbatim>\<open>InitAndExecute\<close> gives the exit status of the process: 1 when the command returns an
  error, 0 when it returns normally, 2 when the Go runtime ends it after a panic.
\<close>

fun join_words :: "string list \<Rightarrow> string" where
  "join_words [] = []"
| "join_words [w] = w"
| "join_words (w # v # ws) = w @ CHR '' '' # join_words (v # ws)"

definition RunE ::
  "('m, 'v) env \<Rightarrow> fs \<Rightarrow> string list \<Rightarrow> string \<Rightarrow> string \<Rightarrow> unit outcome \<times> fs \<times> string list" where
  "RunE e s args namespace revisionFlag =
     (if length args = 0 then (Err (New ''release name is required''), s, [])
      else
     (case (if revisionFlag \<noteq> [] then
              (case Atoi revisionFlag of
                 Inl err \<Rightarrow> Inl (Wrap err ''parse revision'')
               | Inr r \<Rightarrow> Inr r)
            else
              (case FindLatestReleaseVersion e namespace (args ! 0) of
                 Inl err \<Rightarrow> Inl (Wrap err ''find latest revision'')
               | Inr r \<Rightarrow> Inr r)) of
        Inl err \<Rightarrow> (Err err, s, [])
      | Inr revision \<Rightarrow>
     (case ConvertReleaseVersion e s namespace (args ! 0) revision of
        (Panic, s1) \<Rightarrow> (Panic, s1, [])
      | (Err err, s1) \<Rightarrow> (Err (Wrap err ''convert release''), s1, [])
      | (Ok (chartFile, valuesFile), s1) \<Rightarrow>
          (Ok (), s1,
           [''Chart has been saved to '' @ chartFile,
            ''To install the chart, run the following command:'',
            [],
            join_words
              ([''helm'', ''install'', args ! 0, chartFile] @
               (if valuesFile \<noteq> [] then [''--values'', valuesFile] else []) @
               [''--namespace'', namespace]),
            []]))))"

definition InitAndExecute ::
  "('m, 'v) env \<Rightarrow> fs \<Rightarrow> string list \<Rightarrow> string \<Rightarrow> string \<Rightarrow> nat \<times> fs \<times> string list" where
  "InitAndExecute e s args namespace revisionFlag =
     (case RunE e s args namespace revisionFlag of
        (Err err, s1, out) \<Rightarrow> (1, s1, out)
      | (Ok u, s1, out) \<Rightarrow> (0, s1, out)
      | (Panic, s1, out) \<Rightarrow> (2, s1, out))"

subsection \<open>Observations used in the statements\<close>

text \<open>The integers found among the \<^verbatim>\<open>version\<close> labels of a list of secrets, in order.\<close>

definition revisions :: "secret list \<Rightarrow> int list" where
  "revisions items =
     concat (map (\<lambda>s. case Atoi (label s ''version'') of Inl err \<Rightarrow> [] | Inr r \<Rightarrow> [r]) items)"

text \<open>
  The names \<^verbatim>\<open>saveReleaseToFiles\<close> writes for a chart, in the order of its writes, and
  whether each of them, joined to a directory, stays inside that directory.
\<close>

definition written_names :: "('m, 'v) chart \<Rightarrow> string list" where
  "written_names c =
     concat (map (\<lambda>f. case f of None \<Rightarrow> [] | Some x \<Rightarrow> [Name x]) (Files c @ Templates c)) @
     [''Chart.yaml'', ''values.yaml'', ''values.schema.json'']"

definition names_inside :: "string \<Rightarrow> ('m, 'v) chart \<Rightarrow> bool" where
  "names_inside d c = list_all (\<lambda>n. inside d (Join d n)) (written_names c)"

text \<open>
  The same with the directories that \<^verbatim>\<open>saveReleaseToFiles\<close> makes sure of: each written
  path is inside the directory, and the directory part of each written path is the
  directory itself or inside it.
\<close>

definition written_inside :: "string \<Rightarrow> ('m, 'v) chart \<Rightarrow> bool" where
  "written_inside d c =
     list_all (\<lambda>n. inside d (Join d n) \<and> (Dir (Join d n) = d \<or> inside d (Dir (Join d n))))
       (written_names c)"

subsection \<open>A concrete world\<close>

text \<open>
  A cluster with one release secret, codecs that stand in for gzip, JSON and YAML, and a
  packaging action that writes one archive into the destination. The release, the
  faults of the operating system and the secrets of the cluster are parameters.
\<close>

definition demo_chart :: "string option \<Rightarrow> File option list \<Rightarrow> (string, string) chart" where
  "demo_chart schema fls =
     \<lparr>Metadata = Some ''name: demo'',
      Templates = [Some \<lparr>Name = ''templates/cm.yaml'', Data = ''kind: ConfigMap''\<rparr>],
      Values = [(''replicas'', ''1'')],
      Schema = schema,
      Files = fls\<rparr>"

definition demo_release ::
  "string option \<Rightarrow> File option list \<Rightarrow> (string \<times> string) list \<Rightarrow> (string, string) release" where
  "demo_release schema fls cfg = \<lparr>Chart = Some (demo_chart schema fls), Config = cfg\<rparr>"

definition demo_secret :: "string \<Rightarrow> secret" where
  "demo_secret version =
     \<lparr>Labels = [''owner'' \<mapsto> ''helm'', ''name'' \<mapsto> ''demo'', ''version'' \<mapsto> version],
      SecretData = [''release'' \<mapsto> EncodeToString ''demo-release'']\<rparr>"

definition demo_clientset :: "secret list \<Rightarrow> clientset" where
  "demo_clientset secrets namespace selector =
     (if namespace = ''default''
      then Inr (filter (\<lambda>s. list_all (\<lambda>kv. Labels s (fst kv) = Some (snd kv)) selector) secrets)
      else Inr [])"

definition demo_env ::
  "error + clientset \<Rightarrow> (string, string) release option \<Rightarrow> (syscall \<Rightarrow> error option) \<Rightarrow>
   (string, string) env" where
  "demo_env cs rel flt =
     \<lparr>GetClientset = cs,
      gunzip = (\<lambda>rd. case snd rd of
                        Some err \<Rightarrow> ReadError err
                      | None \<Rightarrow> if fst rd = [] then HeaderError (New ''EOF'') else Inflated (fst rd)),
      json_Unmarshal = (\<lambda>js. if js = ''demo-release'' then Inr rel
                              else Inl (New ''invalid character'')),
      yaml_Marshal_metadata = (\<lambda>m. Inr (case m of None \<Rightarrow> ''null'' | Some t \<Rightarrow> t)),
      yaml_Marshal_values = (\<lambda>vs. Inr (concat (map (\<lambda>kv. fst kv @ '': '' @ snd kv @ '';'') vs))),
      package_Run = (\<lambda>s d dst.
         (Inr (Join dst ''demo-0.1.0.tgz''),
          s\<lparr>files := (files s)(Join dst ''demo-0.1.0.tgz'' \<mapsto> ''archive of '' @ d)\<rparr>)),
      fault = flt,
      TMPDIR = ''/tmp'',
      rand = [''001'', ''002'']\<rparr>"

definition demo_fs :: fs where
  "demo_fs = \<lparr>files = Map.empty, dirs = {''/tmp''}\<rparr>"

definition no_fault :: "syscall \<Rightarrow> error option" where
  "no_fault c = None"

text \<open>The operating system refuses to write one path.\<close>

definition deny_write :: "string \<Rightarrow> syscall \<Rightarrow> error option" where
  "deny_write p c = (if c = SysWriteFile p then Some (New ''permission denied'') else None)"

subsection \<open>A second concrete world: a release through gzip and encoding/json\<close>

text \<open>
  The override values of a release are a \<^verbatim>\<open>map[string]interface{}\<close>. Three kinds of values
  are enough here: an \<^verbatim>\<open>int\<close>, a \<^verbatim>\<open>float64\<close> whose value is an integer, and a string. A map
  is the list of its entries in the order of their keys, which is the order in which
  \<^verbatim>\<open>json.Marshal\<close> writes them. \<^verbatim>\<open>json.Marshal\<close> writes an \<^verbatim>\<open>int\<close> in decimal, a \<^verbatim>\<open>float64\<close> with
  an integer value below \<open>10^21\<close> in magnitude in the same way, and a string between double
  quotes; the strings of this fragment are those it writes as they are (printable ASCII
  without the double quote, the backslash and the three characters it escapes for HTML).
  Of the fields of \<^verbatim>\<open>release.Release\<close> the record has \<^verbatim>\<open>Chart\<close> and \<^verbatim>\<open>Config\<close>; both are tagged
  \<^verbatim>\<open>omitempty\<close>, as every other field that is serialized, so a release with no chart and
  nothing in the other fields is the object of its \<^verbatim>\<open>config\<close> member, or the empty object.
  The functions give \<open>None\<close> for what is outside this fragment.
\<close>

datatype go_value = GoInt int | GoFloat64 int | GoString string

definition quoted :: "string \<Rightarrow> string" where
  "quoted s = CHR 0x22 # s @ [CHR 0x22]"

definition plain :: "string \<Rightarrow> bool" where
  "plain s =
     list_all (\<lambda>c. 32 \<le> (of_char c :: nat) \<and> (of_char c :: nat) < 127 \<and>
                    c \<notin> set [CHR 0x22, CHR 0x5C, CHR ''<'', CHR ''>'', CHR ''&'']) s"

fun json_Marshal_value :: "go_value \<Rightarrow> string option" where
  "json_Marshal_value (GoInt n) = Some (Itoa n)"
| "json_Marshal_value (GoFloat64 n) = (if \<bar>n\<bar> < 10 ^ 21 then Some (Itoa n) else None)"
| "json_Marshal_value (GoString s) = (if plain s then Some (quoted s) else None)"

fun json_Marshal_members :: "(string \<times> go_value) list \<Rightarrow> string option" where
  "json_Marshal_members [] = Some []"
| "json_Marshal_members (kv # rest) =
     (case (json_Marshal_value (snd kv), json_Marshal_members rest) of
        (Some v, Some m) \<Rightarrow>
          if plain (fst kv)
          then Some (quoted (fst kv) @ '':'' @ v @ (if rest = [] then [] else '','' @ m))
          else None
      | _ \<Rightarrow> None)"

definition json_Marshal_release :: "(string, go_value) release \<Rightarrow> string option" where
  "json_Marshal_release r =
     (case Chart r of
        Some c \<Rightarrow> None
      | None \<Rightarrow>
          (case json_Marshal_members (Config r) of
             None \<Rightarrow> None
           | Some m \<Rightarrow>
               Some (''{'' @
                     (if Config r = [] then [] else quoted ''config'' @ '':{'' @ m @ ''}'') @
                     ''}'')))"

text \<open>
  \<^verbatim>\<open>json.Unmarshal\<close> on the texts of this fragment: no white space, strings without
  escapes, numbers in the decimal notation of a 64-bit integer, an object with the one
  member \<^verbatim>\<open>config\<close>, itself an object of numbers and strings. Into an \<^verbatim>\<open>interface{}\<close> it
  stores every JSON number as a \<^verbatim>\<open>float64\<close> and every JSON string as a string.
  \<open>split_at c s\<close> is the part of \<open>s\<close> before the first \<open>c\<close> and the part after it. The
  members of an object are read up to its closing brace; the first argument of
  \<open>json_members\<close> bounds their number. The text \<^verbatim>\<open>null\<close> sets the pointer to nil. A text
  outside the fragment is reported as an error, which is what the real decoder does
  only if the text is not JSON.
\<close>

fun split_at :: "char \<Rightarrow> string \<Rightarrow> (string \<times> string) option" where
  "split_at c [] = None"
| "split_at c (x # xs) =
     (if x = c then Some ([], xs)
      else (case split_at c xs of None \<Rightarrow> None | Some (a, b) \<Rightarrow> Some (x # a, b)))"

definition json_value :: "string \<Rightarrow> (go_value \<times> string) option" where
  "json_value cs =
     (case cs of
        [] \<Rightarrow> None
      | c # rest \<Rightarrow>
          if c = CHR 0x22 then
            (case split_at (CHR 0x22) rest of
               None \<Rightarrow> None
             | Some (s, r) \<Rightarrow> if plain s then Some (GoString s, r) else None)
          else
            (case Atoi (takeWhile (\<lambda>x. is_digit x \<or> x = CHR ''-'') cs) of
               Inl err \<Rightarrow> None
             | Inr n \<Rightarrow>
                 if Itoa n = takeWhile (\<lambda>x. is_digit x \<or> x = CHR ''-'') cs
                 then Some (GoFloat64 n, dropWhile (\<lambda>x. is_digit x \<or> x = CHR ''-'') cs)
                 else None))"

fun json_members :: "nat \<Rightarrow> string \<Rightarrow> ((string \<times> go_value) list \<times> string) option" where
  "json_members 0 cs = None"
| "json_members (Suc n) cs =
     (case cs of
        [] \<Rightarrow> None
      | c # rest \<Rightarrow>
          if c \<noteq> CHR 0x22 then None
          else
            (case split_at (CHR 0x22) rest of
               None \<Rightarrow> None
             | Some (k, r1) \<Rightarrow>
                 (case r1 of
                    [] \<Rightarrow> None
                  | c1 # r2 \<Rightarrow>
                      if c1 \<noteq> CHR '':'' \<or> \<not> plain k then None
                      else
                        (case json_value r2 of
                           None \<Rightarrow> None
                         | Some (v, r3) \<Rightarrow>
                             (case r3 of
                                [] \<Rightarrow> None
                              | c3 # r4 \<Rightarrow>
                                  if c3 = CHR ''}'' then Some ([(k, v)], r4)
                                  else if c3 = CHR '','' then
                                    (case json_members n r4 of
                                       None \<Rightarrow> None
                                     | Some (m, r5) \<Rightarrow> Some ((k, v) # m, r5))
                                  else None)))))"

definition json_Unmarshal_release :: "string \<Rightarrow> error + (string, go_value) release option" where
  "json_Unmarshal_release js =
     (if js = ''null'' then Inr None
      else if js = ''{}'' then Inr (Some \<lparr>Chart = None, Config = []\<rparr>)
      else if take 11 js = ''{'' @ quoted ''config'' @ '':{'' then
        (case json_members (length js) (drop 11 js) of
           Some (m, rest) \<Rightarrow>
             if rest = ''}'' then Inr (Some \<lparr>Chart = None, Config = m\<rparr>)
             else Inl (New ''invalid character'')
         | None \<Rightarrow> Inl (New ''invalid character''))
      else Inl (New ''invalid character''))"

text \<open>
  Two JSON texts and, for each, the gzip stream that a compressor at level 9 gives for it
  (ten bytes of header, the deflated text, the CRC-32 and the length of the text). The
  gzip reader of this world knows these two streams; it passes on an error of the reader
  below and reports an invalid header for any other bytes. The base64 text of the first
  stream is
  \<^verbatim>\<open>H4sIAAAAAAAC/6tWSs7PS8tMV7KqVipKLcjJTE4sVrIyqq0FAPOsAi4ZAAAA\<close>,
  that of the second
  \<^verbatim>\<open>H4sIAAAAAAAC/6tWSs7PS8tMV7KqVsrMTUxPVbJSykvPzKtQqq0FAHC8ZDgcAAAA\<close>.
\<close>

definition replicas_json :: string where
  "replicas_json = ''{'' @ quoted ''config'' @ '':{'' @ quoted ''replicas'' @ '':2}}''"

definition replicas_gzip :: string where
  "replicas_gzip =
     [CHR 0x1F, CHR 0x8B, CHR 0x08, CHR 0x00, CHR 0x00, CHR 0x00, CHR 0x00, CHR 0x00,
      CHR 0x02, CHR 0xFF, CHR 0xAB, CHR 0x56, CHR 0x4A, CHR 0xCE, CHR 0xCF, CHR 0x4B,
      CHR 0xCB, CHR 0x4C, CHR 0x57, CHR 0xB2, CHR 0xAA, CHR 0x56, CHR 0x2A, CHR 0x4A,
      CHR 0x2D, CHR 0xC8, CHR 0xC9, CHR 0x4C, CHR 0x4E, CHR 0x2C, CHR 0x56, CHR 0xB2,
      CHR 0x32, CHR 0xAA, CHR 0xAD, CHR 0x05, CHR 0x00, CHR 0xF3, CHR 0xAC, CHR 0x02,
      CHR 0x2E, CHR 0x19, CHR 0x00, CHR 0x00, CHR 0x00]"

definition image_json :: string where
  "image_json = ''{'' @ quoted ''config'' @ '':{'' @ quoted ''image'' @ '':'' @ quoted ''nginx'' @ ''}}''"

definition image_gzip :: string where
  "image_gzip =
     [CHR 0x1F, CHR 0x8B, CHR 0x08, CHR 0x00, CHR 0x00, CHR 0x00, CHR 0x00, CHR 0x00,
      CHR 0x02, CHR 0xFF, CHR 0xAB, CHR 0x56, CHR 0x4A, CHR 0xCE, CHR 0xCF, CHR 0x4B,
      CHR 0xCB, CHR 0x4C, CHR 0x57, CHR 0xB2, CHR 0xAA, CHR 0x56, CHR 0xCA, CHR 0xCC,
      CHR 0x4D, CHR 0x4C, CHR 0x4F, CHR 0x55, CHR 0xB2, CHR 0x52, CHR 0xCA, CHR 0x4B,
      CHR 0xCF, CHR 0xCC, CHR 0xAB, CHR 0x50, CHR 0xAA, CHR 0xAD, CHR 0x05, CHR 0x00,
      CHR 0x70, CHR 0xBC, CHR 0x64, CHR 0x38, CHR 0x1C, CHR 0x00, CHR 0x00, CHR 0x00]"

definition codec_env :: "(string, go_value) env" where
  "codec_env =
     \<lparr>GetClientset = Inl (New ''no cluster''),
      gunzip = (\<lambda>rd. case snd rd of
                        Some err \<Rightarrow> ReadError err
                      | None \<Rightarrow>
                          if fst rd = replicas_gzip then Inflated replicas_json
                          else if fst rd = image_gzip then Inflated image_json
                          else HeaderError (New ''gzip: invalid header'')),
      json_Unmarshal = json_Unmarshal_release,
      yaml_Marshal_metadata = (\<lambda>m. Inl (New ''no encoder'')),
      yaml_Marshal_values = (\<lambda>vs. Inl (New ''no encoder'')),
      package_Run = (\<lambda>s d dst. (Inl (New ''no packager''), s)),
      fault = no_fault,
      TMPDIR = ''/tmp'',
      rand = []\<rparr>"

section \<open>Properties\<close>

subsection \<open>Definitions to unfold when the model is run\<close>

lemmas demo_defs = demo_env_def demo_clientset_def demo_secret_def demo_release_def
  demo_chart_def demo_fs_def no_fault_def

lemmas path_defs = Join_def Dir_def Base_def Clean_def clean_step_def is_rooted_def

lemmas atoi_defs = Atoi_def Let_def is_digit_def digit_val_def

subsection \<open>The latest revision\<close>

lemma revisions_Cons:
  "revisions (s # rest) =
     (case Atoi (label s ''version'') of Inl err \<Rightarrow> [] | Inr r \<Rightarrow> [r]) @ revisions rest"
  by (simp add: revisions_def)

lemma Max_insert_shift:
  fixes a r :: int
  assumes "finite S"
  shows "Max (insert (if r > a then r else a) S) = Max (insert a (insert r S))"
proof (cases "S = {}")
  case True
  then show ?thesis by (simp add: max_def)
next
  case False
  with assms show ?thesis by (simp add: max_def)
qed

lemma scan_latest_Max:
  "scan_latest a items = Max (insert a (set (revisions items)))"
proof (induction items arbitrary: a)
  case Nil
  then show ?case by (simp add: revisions_def)
next
  case (Cons s rest)
  show ?case
  proof (cases "Atoi (label s ''version'')")
    case (Inl err)
    then show ?thesis using Cons by (simp add: revisions_Cons)
  next
    case (Inr r)
    have "scan_latest a (s # rest) = scan_latest (if r > a then r else a) rest"
      using Inr by simp
    also have "\<dots> = Max (insert (if r > a then r else a) (set (revisions rest)))"
      by (rule Cons)
    also have "\<dots> = Max (insert a (insert r (set (revisions rest))))"
      by (rule Max_insert_shift) simp
    also have "insert a (insert r (set (revisions rest))) = insert a (set (revisions (s # rest)))"
      using Inr by (simp add: revisions_Cons)
    finally show ?thesis .
  qed
qed

lemma scan_latest_filter:
  "scan_latest a (filter (\<lambda>s. case Atoi (label s ''version'') of Inl err \<Rightarrow> False | Inr r \<Rightarrow> True) items) = scan_latest a items"
  by (induction items arbitrary: a) (auto split: sum.splits)

text \<open>
  C3 (as amended). When the clientset and the listing succeed, \<^verbatim>\<open>FindLatestReleaseVersion\<close>
  returns the maximum of 0 and the integers found among the \<^verbatim>\<open>version\<close> labels of the listed
  secrets: the scan starts at 0. So it is the maximum label value whenever some label is a
  non-negative integer, and 0 otherwise.
\<close>

theorem latest_is_max_with_floor:
  assumes "GetClientset e = Inr cs"
    and "cs ns [(''owner'', ''helm''), (''name'', rn)] = Inr items"
  shows "FindLatestReleaseVersion e ns rn = Inr (Max (insert 0 (set (revisions items)))) \<and>
         ((\<exists>r \<in> set (revisions items). 0 \<le> r) \<longrightarrow>
            FindLatestReleaseVersion e ns rn = Inr (Max (set (revisions items))))"
proof -
  have eq: "FindLatestReleaseVersion e ns rn = Inr (Max (insert 0 (set (revisions items))))"
    using assms by (simp add: FindLatestReleaseVersion_def scan_latest_Max)
  have "Max (insert 0 (set (revisions items))) = Max (set (revisions items))"
    if "\<exists>r \<in> set (revisions items). 0 \<le> r"
  proof -
    from that obtain r where r: "r \<in> set (revisions items)" "0 \<le> r" by blast
    then have ne: "set (revisions items) \<noteq> {}" by auto
    have "r \<le> Max (set (revisions items))" using r by simp
    then have "0 \<le> Max (set (revisions items))" using r by linarith
    then show ?thesis using ne by (simp add: max_def)
  qed
  with eq show ?thesis by simp
qed

lemma demo_list_three:
  "demo_clientset [demo_secret ''2'', demo_secret ''x'', demo_secret ''7''] ''default'' [(''owner'', ''helm''), (''name'', ''demo'')] = Inr [demo_secret ''2'', demo_secret ''x'', demo_secret ''7'']"
  by (simp add: demo_defs)

text \<open>Three secrets with the labels 2, x and 7: the scan gives 7.\<close>

theorem latest_is_max_with_floor_witness:
  "FindLatestReleaseVersion
     (demo_env (Inr (demo_clientset [demo_secret ''2'', demo_secret ''x'', demo_secret ''7'']))
        None no_fault) ''default'' ''demo'' = Inr 7 \<and>
   revisions [demo_secret ''2'', demo_secret ''x'', demo_secret ''7''] = [2, 7]"
proof -
  let ?items = "[demo_secret ''2'', demo_secret ''x'', demo_secret ''7'']"
  let ?e = "demo_env (Inr (demo_clientset ?items)) None no_fault"
  have c: "GetClientset ?e = Inr (demo_clientset ?items)" by (simp add: demo_env_def)
  have r: "revisions ?items = [2, 7]"
    by (simp add: revisions_def label_def demo_secret_def atoi_defs)
  from latest_is_max_with_floor [OF c demo_list_three] r show ?thesis by simp
qed

text \<open>
  C3 as stated fails. For one listed secret whose label is \<^verbatim>\<open>x\<close> no integer is found among
  the labels, and the function returns 0; for one listed secret whose label is the
  integer -3 it returns 0 as well, which is not the maximum (-3) of the integers found.
\<close>

theorem latest_not_max_of_labels:
  "demo_clientset [demo_secret ''x''] ''default'' [(''owner'', ''helm''), (''name'', ''demo'')] =
     Inr [demo_secret ''x''] \<and>
   revisions [demo_secret ''x''] = [] \<and>
   FindLatestReleaseVersion (demo_env (Inr (demo_clientset [demo_secret ''x''])) None no_fault)
     ''default'' ''demo'' = Inr 0 \<and>
   demo_clientset [demo_secret ''-3''] ''default'' [(''owner'', ''helm''), (''name'', ''demo'')] =
     Inr [demo_secret ''-3''] \<and>
   revisions [demo_secret ''-3''] = [- 3] \<and>
   FindLatestReleaseVersion (demo_env (Inr (demo_clientset [demo_secret ''-3''])) None no_fault)
     ''default'' ''demo'' = Inr 0"
  by (simp add: FindLatestReleaseVersion_def revisions_def label_def demo_defs atoi_defs)

subsection \<open>Malformed revisions\<close>

lemma scan_latest_nonpos:
  "list_all (\<lambda>r. r \<le> 0) (revisions items) \<Longrightarrow> scan_latest 0 items = 0"
  by (induction items) (auto simp: revisions_Cons split: sum.splits)

text \<open>
  C9. Once the secrets are listed, \<^verbatim>\<open>FindLatestReleaseVersion\<close> returns a revision and no
  error, whatever the labels are; the result is that of the scan over the secrets whose
  \<^verbatim>\<open>version\<close> label parses, the others being skipped; and it is 0 when no label parses to a
  positive integer.
\<close>

theorem malformed_revisions_skipped:
  assumes "GetClientset e = Inr cs"
    and "cs ns [(''owner'', ''helm''), (''name'', rn)] = Inr items"
  shows "(\<exists>r. FindLatestReleaseVersion e ns rn = Inr r) \<and>
         FindLatestReleaseVersion e ns rn =
           Inr (scan_latest 0
                 (filter (\<lambda>s. case Atoi (label s ''version'') of Inl err \<Rightarrow> False | Inr r \<Rightarrow> True)
                    items)) \<and>
         ((\<forall>r \<in> set (revisions items). r \<le> 0) \<longrightarrow>
            FindLatestReleaseVersion e ns rn = Inr 0)"
proof -
  have eq: "FindLatestReleaseVersion e ns rn = Inr (scan_latest 0 items)"
    using assms by (simp add: FindLatestReleaseVersion_def)
  have "scan_latest 0 items = 0" if "\<forall>r \<in> set (revisions items). r \<le> 0"
    using that by (intro scan_latest_nonpos) (simp add: list_all_iff)
  with eq show ?thesis by (simp add: scan_latest_filter)
qed

lemma demo_list_malformed:
  "demo_clientset [demo_secret ''x1'', demo_secret [], demo_secret ''0''] ''default''
     [(''owner'', ''helm''), (''name'', ''demo'')] =
   Inr [demo_secret ''x1'', demo_secret [], demo_secret ''0'']"
  by (simp add: demo_defs)

text \<open>Labels \<^verbatim>\<open>x1\<close>, empty and \<^verbatim>\<open>0\<close>: only the last parses, and the result is 0.\<close>

theorem malformed_revisions_skipped_witness:
  "revisions [demo_secret ''x1'', demo_secret [], demo_secret ''0''] = [0] \<and>
   FindLatestReleaseVersion
     (demo_env (Inr (demo_clientset [demo_secret ''x1'', demo_secret [], demo_secret ''0'']))
        None no_fault) ''default'' ''demo'' = Inr 0"
proof -
  let ?items = "[demo_secret ''x1'', demo_secret [], demo_secret ''0'']"
  let ?e = "demo_env (Inr (demo_clientset ?items)) None no_fault"
  have c: "GetClientset ?e = Inr (demo_clientset ?items)" by (simp add: demo_env_def)
  have r: "revisions ?items = [0]"
    by (simp add: revisions_def label_def demo_secret_def atoi_defs)
  note malformed_revisions_skipped [OF c demo_list_malformed, THEN conjunct2, THEN conjunct2]
  then have "FindLatestReleaseVersion ?e ''default'' ''demo'' = Inr 0" unfolding r by simp
  with r show ?thesis by (rule_tac conjI)
qed

subsection \<open>The number of matching secrets\<close>

text \<open>
  C2. When the listing for the owner, name and version selector returns a number of
  secrets other than one, \<^verbatim>\<open>ConvertReleaseVersion\<close> returns the error that reports this
  number and leaves the file system as it was; no secret is picked.
\<close>

theorem match_count_not_one_fails:
  assumes "GetClientset e = Inr cs"
    and "cs ns [(''owner'', ''helm''), (''name'', rn), (''version'', Itoa revision)] = Inr items"
    and "length items \<noteq> 1"
  shows "ConvertReleaseVersion e s ns rn revision =
           (Err (New (''found '' @ Itoa (int (length items)) @ '' matching releases'')), s)"
  using assms by (simp add: ConvertReleaseVersion_def)

lemma demo_list_two:
  "demo_clientset [demo_secret ''1'', demo_secret ''1''] ''default''
     [(''owner'', ''helm''), (''name'', ''demo''), (''version'', Itoa 1)] =
   Inr [demo_secret ''1'', demo_secret ''1'']"
  by (simp add: demo_defs Itoa_def digit_char_def)

text \<open>Two secrets carry revision 1: the call fails with the count 2.\<close>

theorem match_count_not_one_fails_witness:
  "ConvertReleaseVersion
     (demo_env (Inr (demo_clientset [demo_secret ''1'', demo_secret ''1'']))
        (Some (demo_release None [] [])) no_fault) demo_fs ''default'' ''demo'' 1 =
   (Err (New ''found 2 matching releases''), demo_fs)"
proof -
  let ?items = "[demo_secret ''1'', demo_secret ''1'']"
  let ?e = "demo_env (Inr (demo_clientset ?items)) (Some (demo_release None [] [])) no_fault"
  have c: "GetClientset ?e = Inr (demo_clientset ?items)" by (simp add: demo_env_def)
  have n: "length ?items \<noteq> 1" by simp
  from match_count_not_one_fails [OF c demo_list_two n, of demo_fs]
  show ?thesis by (simp add: Itoa_def digit_char_def)
qed

subsection \<open>Base64: decoding inverts encoding\<close>

lemma b64_alphabet_all:
  "list_all (\<lambda>i. b64_val (b64_char i) = Some i \<and> b64_char i \<noteq> CHR ''='' \<and>
              (of_char (b64_char i) :: nat) \<noteq> 10 \<and> (of_char (b64_char i) :: nat) \<noteq> 13)
     [0..<64]"
  by (simp add: upt_rec b64_char_def b64_val_def)

lemma b64_alphabet:
  assumes "i < 64"
  shows "b64_val (b64_char i) = Some i" and "b64_char i \<noteq> CHR ''=''"
    and "(of_char (b64_char i) :: nat) \<noteq> 10" and "(of_char (b64_char i) :: nat) \<noteq> 13"
  using b64_alphabet_all assms by (simp_all add: list_all_iff)

lemma byte_of_char: "byte (of_char c) = c"
  by (simp add: byte_def)

lemma regroup:
  fixes x y z :: nat
  assumes "y < 256" "z < 256"
  shows "(x div 4) * 4 + ((x mod 4) * 16 + y div 16) div 16 = x"
    and "(((x mod 4) * 16 + y div 16) mod 16) * 16 + ((y mod 16) * 4 + z div 64) div 4 = y"
    and "(((y mod 16) * 4 + z div 64) mod 4) * 64 + z mod 64 = z"
    and "(x div 4) * 4 + ((x mod 4) * 16) div 16 = x"
    and "(((x mod 4) * 16 + y div 16) mod 16) * 16 + ((y mod 16) * 4) div 4 = y"
proof -
  have a: "y div 16 < 16" using assms(1) by (simp add: less_mult_imp_div_less)
  have c: "z div 64 < 4" using assms(2) by (simp add: less_mult_imp_div_less)
  show "(x div 4) * 4 + ((x mod 4) * 16 + y div 16) div 16 = x" using a by simp
  show "(((x mod 4) * 16 + y div 16) mod 16) * 16 + ((y mod 16) * 4 + z div 64) div 4 = y"
    using a c by simp
  show "(((y mod 16) * 4 + z div 64) mod 4) * 64 + z mod 64 = z" using c by simp
  show "(x div 4) * 4 + ((x mod 4) * 16) div 16 = x" by simp
  show "(((x mod 4) * 16 + y div 16) mod 16) * 16 + ((y mod 16) * 4) div 4 = y" using a by simp
qed
lemma sextet_bounds: fixes x y z :: nat assumes "x < 256" "y < 256" "z < 256"
  shows "x div 4 < 64" "(x mod 4) * 16 + y div 16 < 64" "(y mod 16) * 4 + z div 64 < 64" "z mod 64 < 64"
   "(x mod 4) * 16 < 64" "(y mod 16) * 4 < 64"
  using assms by arith+

lemma quantum3:
  fixes x y z :: nat
  assumes "x < 256" "y < 256" "z < 256"
  shows "decode_quanta
           (b64_char (x div 4) # b64_char ((x mod 4) * 16 + y div 16) #
            b64_char ((y mod 16) * 4 + z div 64) # b64_char (z mod 64) # rest) =
         (byte x # byte y # byte z # fst (decode_quanta rest), snd (decode_quanta rest))"
proof -
  define s0 s1 s2 s3 where "s0 = x div 4" and "s1 = (x mod 4) * 16 + y div 16"
    and "s2 = (y mod 16) * 4 + z div 64" and "s3 = z mod 64"
  have b: "s0 < 64" "s1 < 64" "s2 < 64" "s3 < 64"
    unfolding s0_def s1_def s2_def s3_def by (rule sextet_bounds(1-4) [OF assms])+
  have e: "s0 * 4 + s1 div 16 = x" "(s1 mod 16) * 16 + s2 div 4 = y" "(s2 mod 4) * 64 + s3 = z"
    unfolding s0_def s1_def s2_def s3_def by (rule regroup(1-3) [OF assms(2,3)])+
  have "decode_quanta (b64_char s0 # b64_char s1 # b64_char s2 # b64_char s3 # rest) =
        (byte (s0 * 4 + s1 div 16) # byte ((s1 mod 16) * 16 + s2 div 4) #
         byte ((s2 mod 4) * 64 + s3) # fst (decode_quanta rest), snd (decode_quanta rest))"
    using b by (simp add: b64_alphabet)
  then show ?thesis unfolding e unfolding s0_def s1_def s2_def s3_def .
qed

lemma quantum2:
  fixes x y :: nat
  assumes "x < 256" "y < 256"
  shows "decode_quanta
           [b64_char (x div 4), b64_char ((x mod 4) * 16 + y div 16),
            b64_char ((y mod 16) * 4), CHR ''=''] = ([byte x, byte y], None)"
proof -
  define s0 s1 s2 where "s0 = x div 4" and "s1 = (x mod 4) * 16 + y div 16"
    and "s2 = (y mod 16) * 4"
  have b: "s0 < 64" "s1 < 64" "s2 < 64"
    unfolding s0_def s1_def s2_def
    by (rule sextet_bounds(1,2,6) [OF assms(1) assms(2) assms(2)])+
  have e: "s0 * 4 + s1 div 16 = x" "(s1 mod 16) * 16 + s2 div 4 = y"
    unfolding s0_def s1_def s2_def by (rule regroup(1,5) [OF assms(2) assms(2)])+
  have "decode_quanta [b64_char s0, b64_char s1, b64_char s2, CHR ''=''] =
        ([byte (s0 * 4 + s1 div 16), byte ((s1 mod 16) * 16 + s2 div 4)], None)"
    using b by (simp add: b64_alphabet)
  then show ?thesis unfolding e unfolding s0_def s1_def s2_def .
qed

lemma quantum1:
  fixes x :: nat
  assumes "x < 256"
  shows "decode_quanta [b64_char (x div 4), b64_char ((x mod 4) * 16), CHR ''='', CHR ''=''] =
         ([byte x], None)"
proof -
  define s0 s1 where "s0 = x div 4" and "s1 = (x mod 4) * 16"
  have b: "s0 < 64" "s1 < 64"
    unfolding s0_def s1_def by (rule sextet_bounds(1,5) [OF assms assms assms])+
  have e: "s0 * 4 + s1 div 16 = x"
    unfolding s0_def s1_def by (rule regroup(4) [OF assms assms])
  have "decode_quanta [b64_char s0, b64_char s1, CHR ''='', CHR ''=''] =
        ([byte (s0 * 4 + s1 div 16)], None)"
    using b by (simp add: b64_alphabet)
  then show ?thesis unfolding e unfolding s0_def s1_def .
qed

lemma decode_quanta_encode: "decode_quanta (EncodeToString bs) = (bs, None)"
proof (induction bs rule: EncodeToString.induct)
  case 1
  show ?case by simp
next
  case (2 a)
  show ?case
    unfolding EncodeToString.simps Let_def
    by (subst quantum1) (simp_all add: byte_of_char)
next
  case (3 a b)
  show ?case
    unfolding EncodeToString.simps Let_def
    by (subst quantum2) (simp_all add: byte_of_char)
next
  case (4 a b c rest)
  have ih: "decode_quanta (EncodeToString rest) = (rest, None)"
    by (rule 4) (rule refl)+
  show ?case
    unfolding EncodeToString.simps Let_def
    by (subst quantum3) (simp_all add: byte_of_char ih)
qed

lemma char_sextets:
  "(of_char a :: nat) div 4 < 64"
  "((of_char a :: nat) mod 4) * 16 + (of_char b :: nat) div 16 < 64"
  "((of_char b :: nat) mod 16) * 4 + (of_char c :: nat) div 64 < 64"
  "(of_char c :: nat) mod 64 < 64"
  "((of_char a :: nat) mod 4) * 16 < 64"
  "((of_char b :: nat) mod 16) * 4 < 64"
  by (rule sextet_bounds [OF nat_of_char_less_256 nat_of_char_less_256 nat_of_char_less_256])+

lemma encode_no_newline:
  "filter (\<lambda>c. (of_char c :: nat) \<noteq> 10 \<and> (of_char c :: nat) \<noteq> 13) (EncodeToString bs) =
   EncodeToString bs"
proof (induction bs rule: EncodeToString.induct)
  case 1
  show ?case by simp
next
  case (2 a)
  show ?case
    unfolding EncodeToString.simps Let_def
    by (simp add: b64_alphabet(3,4) [OF char_sextets(1)] b64_alphabet(3,4) [OF char_sextets(5)])
next
  case (3 a b)
  show ?case
    unfolding EncodeToString.simps Let_def
    by (simp add: b64_alphabet(3,4) [OF char_sextets(1)] b64_alphabet(3,4) [OF char_sextets(2)]
        b64_alphabet(3,4) [OF char_sextets(6)])
next
  case (4 a b c rest)
  have ih: "filter (\<lambda>c. (of_char c :: nat) \<noteq> 10 \<and> (of_char c :: nat) \<noteq> 13)
              (EncodeToString rest) = EncodeToString rest"
    by (rule 4) (rule refl)+
  show ?case
    unfolding EncodeToString.simps Let_def
    by (simp add: ih b64_alphabet(3,4) [OF char_sextets(1)] b64_alphabet(3,4) [OF char_sextets(2)]
        b64_alphabet(3,4) [OF char_sextets(3)] b64_alphabet(3,4) [OF char_sextets(4)])
qed

lemma EncodeToString_append:
  "length xs mod 3 = 0 \<Longrightarrow> EncodeToString (xs @ ys) = EncodeToString xs @ EncodeToString ys"
proof (induction xs rule: EncodeToString.induct)
  case 1
  show ?case by simp
next
  case (2 a)
  then show ?case by simp
next
  case (3 a b)
  then show ?case by simp
next
  case (4 a b c rest)
  have m: "length rest mod 3 = 0" using 4(2) by simp
  have ih: "EncodeToString (rest @ ys) = EncodeToString rest @ EncodeToString ys"
    by (rule 4(1) [OF refl refl refl m])
  show ?case by (simp add: Let_def ih)
qed

lemma length_EncodeToString: "length (EncodeToString bs) = 4 * ((length bs + 2) div 3)"
proof (induction bs rule: EncodeToString.induct)
  case (4 a b c rest)
  have ih: "length (EncodeToString rest) = 4 * ((length rest + 2) div 3)"
    by (rule 4) (rule refl)+
  have d: "(length rest + 2 + 3) div 3 = (length rest + 2) div 3 + 1"
    by (rule div_add_self2) simp
  show ?case using d by (simp add: Let_def ih)
qed (simp_all add: Let_def)

lemma encode_chunk:
  "take 1024 (EncodeToString bs) = EncodeToString (take 768 bs)"
  "drop 1024 (EncodeToString bs) = EncodeToString (drop 768 bs)"
proof -
  have "take 1024 (EncodeToString bs) = EncodeToString (take 768 bs) \<and>
        drop 1024 (EncodeToString bs) = EncodeToString (drop 768 bs)"
  proof (cases "768 \<le> length bs")
    case True
    then have l: "length (take 768 bs) = 768" by simp
    have e: "EncodeToString bs = EncodeToString (take 768 bs) @ EncodeToString (drop 768 bs)"
      using EncodeToString_append [of "take 768 bs" "drop 768 bs"] l by simp
    have n: "length (EncodeToString (take 768 bs)) = 1024"
      by (simp only: length_EncodeToString l) simp
    show ?thesis by (subst (1 2) e) (simp add: n)
  next
    case False
    then have "length (EncodeToString bs) \<le> 1024"
      by (simp add: length_EncodeToString)
    with False show ?thesis by simp
  qed
  then show "take 1024 (EncodeToString bs) = EncodeToString (take 768 bs)"
    "drop 1024 (EncodeToString bs) = EncodeToString (drop 768 bs)" by simp_all
qed

lemma quanta_nonempty: "0 < (n::nat) \<Longrightarrow> \<not> 4 * ((n + 2) div 3) < 4"
  by arith

lemma b64_read_encode: "b64_read [] (EncodeToString bs) = (bs, None)"
proof (induction bs rule: length_induct)
  case (1 bs)
  show ?case
  proof (cases "bs = []")
    case True
    then show ?thesis by (simp add: b64_read.simps)
  next
    case False
    let ?c = "EncodeToString (take 768 bs)"
    have ne: "EncodeToString bs \<noteq> []" using False by (cases bs rule: EncodeToString.cases) (simp_all add: Let_def)
    have tk: "take 768 bs \<noteq> []" using False by simp
    have len: "length ?c = 4 * ((length (take 768 bs) + 2) div 3)" by (rule length_EncodeToString)
    have pos: "0 < length (take 768 bs)" using False by simp
    have ge: "\<not> length ?c < 4" unfolding len using pos by (rule quanta_nonempty)
    have whole: "length ?c div 4 * 4 = length ?c" unfolding len by simp
    have ih: "b64_read [] (EncodeToString (drop 768 bs)) = (drop 768 bs, None)"
      using 1 False by simp
    have "b64_read [] (EncodeToString bs) = b64_read ?c (EncodeToString (drop 768 bs))"
      by (subst b64_read.simps) (simp add: ne encode_no_newline encode_chunk)
    also have "\<dots> = (take 768 bs @ drop 768 bs, None)"
      by (subst b64_read.simps) (simp only: ge whole if_False take_all order_refl drop_all decode_quanta_encode ih fst_conv snd_conv option.case)
    finally show ?thesis by simp
  qed
qed

lemma NewDecoder_EncodeToString: "NewDecoder (EncodeToString bs) = (bs, None)"
  by (simp add: NewDecoder_def b64_read_encode)

text \<open>
  Two runs of the reader: line breaks inside the text are dropped, and a padded group
  followed by more text delivers its byte before the error.
\<close>

lemma NewDecoder_line_break:
  "NewDecoder (''QUJD'' @ [CHR 0x0D, CHR 0x0A] @ ''RUY='') = (''ABCEF'', None)"
  by (simp add: NewDecoder_def b64_read.simps b64_val_def byte_def) code_simp

lemma NewDecoder_padding_inside:
  "NewDecoder ''QQ==QUJD'' = (''A'', Some CorruptInputError)"
  by (simp add: NewDecoder_def b64_read.simps b64_val_def byte_def) code_simp

subsection \<open>Decoding the release\<close>

lemmas json_defs = json_Unmarshal_release_def json_value_def quoted_def plain_def Itoa_def
  digit_char_def

lemma replicas_unmarshal:
  "json_Unmarshal_release replicas_json =
   Inr (Some \<lparr>Chart = None, Config = [(''replicas'', GoFloat64 2)]\<rparr>)"
  by (simp add: json_defs replicas_json_def atoi_defs)

lemma image_unmarshal:
  "json_Unmarshal_release image_json =
   Inr (Some \<lparr>Chart = None, Config = [(''image'', GoString ''nginx'')]\<rparr>)"
  by (simp add: json_defs image_json_def atoi_defs)

lemma replicas_base64:
  "EncodeToString replicas_gzip = ''H4sIAAAAAAAC/6tWSs7PS8tMV7KqVipKLcjJTE4sVrIyqq0FAPOsAi4ZAAAA''"
  by (simp add: replicas_gzip_def b64_char_def)

lemma image_base64:
  "EncodeToString image_gzip = ''H4sIAAAAAAAC/6tWSs7PS8tMV7KqVsrMTUxPVbJSykvPzKtQqq0FAHC8ZDgcAAAA''"
  by (simp add: image_gzip_def b64_char_def)

lemma codec_gunzip:
  "gunzip codec_env (replicas_gzip, None) = Inflated replicas_json"
  "gunzip codec_env (image_gzip, None) = Inflated image_json"
  by (simp_all add: codec_env_def replicas_gzip_def image_gzip_def)

text \<open>
  C4 (as amended). Let \<open>gz\<close> be a gzip stream that the gzip reader inflates to the text
  \<open>js\<close>. For the standard base64 text of \<open>gz\<close>, \<^verbatim>\<open>helmReleaseFromReleaseData\<close> is what the JSON
  decoder makes of \<open>js\<close>: the error of the decoder, wrapped, or the release it decodes. So
  the function returns a release \<open>r\<close> exactly when the JSON decoder gives \<open>r\<close> for \<open>js\<close>. The
  stages come in this order: when gzip fails on what the base64 reader delivers, that
  error is returned whatever the JSON decoder is, and the JSON decoder gets what gzip
  delivers.
\<close>

theorem decode_is_base64_gzip_json:
  assumes "gunzip e (gz, None) = Inflated js"
  shows "helmReleaseFromReleaseData e (EncodeToString gz) =
           (case json_Unmarshal e js of
              Inl err \<Rightarrow> Inl (Wrap err ''unmarshal release data'')
            | Inr release \<Rightarrow> Inr release) \<and>
         (helmReleaseFromReleaseData e (EncodeToString gz) = Inr (Some r) \<longleftrightarrow>
            json_Unmarshal e js = Inr (Some r)) \<and>
         (\<forall>d x j. gunzip e (NewDecoder d) = HeaderError x \<longrightarrow>
            helmReleaseFromReleaseData (e\<lparr>json_Unmarshal := j\<rparr>) d =
              Inl (Wrap x ''create gzip reader'')) \<and>
         (\<forall>d x j. gunzip e (NewDecoder d) = ReadError x \<longrightarrow>
            helmReleaseFromReleaseData (e\<lparr>json_Unmarshal := j\<rparr>) d =
              Inl (Wrap x ''read from gzip reader'')) \<and>
         (\<forall>d t j. gunzip e (NewDecoder d) = Inflated t \<longrightarrow>
            helmReleaseFromReleaseData (e\<lparr>json_Unmarshal := j\<rparr>) d =
              (case j t of
                 Inl err \<Rightarrow> Inl (Wrap err ''unmarshal release data'')
               | Inr release \<Rightarrow> Inr release))"
proof -
  have 1: "helmReleaseFromReleaseData e (EncodeToString gz) =
           (case json_Unmarshal e js of
              Inl err \<Rightarrow> Inl (Wrap err ''unmarshal release data'')
            | Inr release \<Rightarrow> Inr release)"
    using assms by (simp add: helmReleaseFromReleaseData_def NewDecoder_EncodeToString)
  have 2: "helmReleaseFromReleaseData e (EncodeToString gz) = Inr (Some r) \<longleftrightarrow>
           json_Unmarshal e js = Inr (Some r)"
    unfolding 1 by (cases "json_Unmarshal e js") simp_all
  show ?thesis
    by (rule conjI [OF 1 conjI [OF 2]]) (simp add: helmReleaseFromReleaseData_def)
qed

text \<open>
  A release whose only override value is a string: the function returns it from the
  base64 text of the gzip stream of its JSON text.
\<close>

theorem decode_is_base64_gzip_json_witness:
  "json_Marshal_release \<lparr>Chart = None, Config = [(''image'', GoString ''nginx'')]\<rparr> = Some image_json \<and>
   helmReleaseFromReleaseData codec_env (EncodeToString image_gzip) =
     Inr (Some \<lparr>Chart = None, Config = [(''image'', GoString ''nginx'')]\<rparr>)"
proof -
  have m: "json_Marshal_release \<lparr>Chart = None, Config = [(''image'', GoString ''nginx'')]\<rparr> =
           Some image_json"
    by (simp add: json_Marshal_release_def image_json_def quoted_def plain_def)
  have j: "json_Unmarshal codec_env image_json =
           Inr (Some \<lparr>Chart = None, Config = [(''image'', GoString ''nginx'')]\<rparr>)"
    by (simp add: codec_env_def image_unmarshal)
  note inst = decode_is_base64_gzip_json [OF codec_gunzip(2), THEN conjunct2, THEN conjunct1]
  from inst j m show ?thesis by simp
qed

text \<open>
  C4 as stated fails. The release whose only override value is the \<^verbatim>\<open>int\<close> 2 under the key
  \<^verbatim>\<open>replicas\<close> has the JSON text \<^verbatim>\<open>{"config":{"replicas":2}}\<close>. From the base64 text of the
  gzip stream of that text the function returns a release whose value under \<^verbatim>\<open>replicas\<close>
  is the \<^verbatim>\<open>float64\<close> 2: not the release that was serialized.
\<close>

theorem integer_override_comes_back_as_float64:
  "json_Marshal_release \<lparr>Chart = None, Config = [(''replicas'', GoInt 2)]\<rparr> = Some replicas_json \<and>
   gunzip codec_env (replicas_gzip, None) = Inflated replicas_json \<and>
   EncodeToString replicas_gzip =
     ''H4sIAAAAAAAC/6tWSs7PS8tMV7KqVipKLcjJTE4sVrIyqq0FAPOsAi4ZAAAA'' \<and>
   helmReleaseFromReleaseData codec_env
     ''H4sIAAAAAAAC/6tWSs7PS8tMV7KqVipKLcjJTE4sVrIyqq0FAPOsAi4ZAAAA'' =
     Inr (Some \<lparr>Chart = None, Config = [(''replicas'', GoFloat64 2)]\<rparr>) \<and>
   helmReleaseFromReleaseData codec_env
     ''H4sIAAAAAAAC/6tWSs7PS8tMV7KqVipKLcjJTE4sVrIyqq0FAPOsAi4ZAAAA'' \<noteq>
     Inr (Some \<lparr>Chart = None, Config = [(''replicas'', GoInt 2)]\<rparr>)"
proof -
  have m: "json_Marshal_release \<lparr>Chart = None, Config = [(''replicas'', GoInt 2)]\<rparr> =
           Some replicas_json"
    by (simp add: json_Marshal_release_def replicas_json_def quoted_def plain_def Itoa_def
        digit_char_def)
  have d: "helmReleaseFromReleaseData codec_env (EncodeToString replicas_gzip) =
           Inr (Some \<lparr>Chart = None, Config = [(''replicas'', GoFloat64 2)]\<rparr>)"
    by (simp add: helmReleaseFromReleaseData_def NewDecoder_EncodeToString codec_gunzip(1))
       (simp add: codec_env_def replicas_unmarshal)
  from m d codec_gunzip(1) show ?thesis unfolding replicas_base64 by simp
qed

subsection \<open>What the file operations change\<close>

lemma MkdirAll_files: "MkdirAll flt s p = Inr s' \<Longrightarrow> files s' = files s"
  by (auto simp: MkdirAll_def split: option.splits if_splits)

lemma WriteFile_files: "WriteFile flt s p content = Inr s' \<Longrightarrow> files s' = (files s)(p \<mapsto> content)"
  by (auto simp: WriteFile_def split: option.splits if_splits)

lemma write_files_frame:
  "write_files flt s d cfs = (res, s') \<Longrightarrow> p \<notin> (\<lambda>cf. Join d (Name cf)) ` set cfs \<Longrightarrow>
   files s' p = files s p"
proof (induction cfs arbitrary: s)
  case Nil
  then show ?case by simp
next
  case (Cons cf rest)
  show ?case
  proof (cases "MkdirAll flt s (Dir (Join d (Name cf)))")
    case (Inl err)
    with Cons.prems show ?thesis by simp
  next
    case mk: (Inr s1)
    show ?thesis
    proof (cases "WriteFile flt s1 (Join d (Name cf)) (Data cf)")
      case (Inl err)
      with mk Cons.prems show ?thesis by (simp add: MkdirAll_files)
    next
      case wr: (Inr s2)
      from mk wr Cons.prems have "write_files flt s2 d rest = (res, s')" by simp
      moreover from Cons.prems have "p \<notin> (\<lambda>cf. Join d (Name cf)) ` set rest" by simp
      ultimately have "files s' p = files s2 p" by (rule Cons.IH)
      moreover from Cons.prems have "p \<noteq> Join d (Name cf)" by auto
      ultimately show ?thesis
        using MkdirAll_files [OF mk] WriteFile_files [OF wr] by simp
    qed
  qed
qed

lemma write_files_last_wins:
  "write_files flt s d (xs @ cf # ys) = (Ok (), s') \<Longrightarrow>
   Join d (Name cf) \<notin> (\<lambda>c. Join d (Name c)) ` set ys \<Longrightarrow>
   files s' (Join d (Name cf)) = Some (Data cf)"
proof (induction xs arbitrary: s)
  case Nil
  then obtain s1 s2 where mk: "MkdirAll flt s (Dir (Join d (Name cf))) = Inr s1"
    and wr: "WriteFile flt s1 (Join d (Name cf)) (Data cf) = Inr s2"
    and rest: "write_files flt s2 d ys = (Ok (), s')"
    by (auto split: sum.splits)
  from write_files_frame [OF rest Nil.prems(2)] WriteFile_files [OF wr]
  show ?case by simp
next
  case (Cons x xs)
  then obtain s1 s2 where "write_files flt s2 d (xs @ cf # ys) = (Ok (), s')"
    by (auto split: sum.splits)
  then show ?case using Cons.prems(2) by (rule Cons.IH)
qed

subsection \<open>Joining a plain name to a directory\<close>

lemma split_sep_nonempty: "split_sep p \<noteq> []"
  by (induction p) (auto split: list.splits)

lemma split_sep_append: "split_sep (a @ CHR ''/'' # b) = split_sep a @ split_sep b"
proof (induction a)
  case Nil
  show ?case by simp
next
  case (Cons c a)
  obtain x xs where "split_sep a = x # xs"
    using split_sep_nonempty [of a] by (cases "split_sep a") auto
  with Cons show ?case by simp
qed

lemma split_sep_plain: "CHR ''/'' \<notin> set n \<Longrightarrow> split_sep n = [n]"
  by (induction n) auto

lemma join_sep_snoc:
  "join_sep (ys @ [n]) = (if ys = [] then n else join_sep ys @ CHR ''/'' # n)"
  by (induction ys rule: join_sep.induct) auto

lemma Clean_plain:
  assumes "n \<noteq> []" "CHR ''/'' \<notin> set n" "n \<noteq> ''.''" "n \<noteq> ''..''"
  shows "Clean n = n"
proof -
  have "\<not> is_rooted n" using assms(2) by (cases n) (auto simp: is_rooted_def)
  then show ?thesis
    using assms by (simp add: Clean_def split_sep_plain clean_step_def)
qed

lemma Clean_snoc_plain:
  assumes "d \<noteq> []" "n \<noteq> []" "CHR ''/'' \<notin> set n" "n \<noteq> ''.''" "n \<noteq> ''..''"
  shows "Clean (d @ CHR ''/'' # n) =
         ((if is_rooted d then ''/'' else []) @
          (if foldl (clean_step (is_rooted d)) [] (split_sep d) = [] then []
           else join_sep (rev (foldl (clean_step (is_rooted d)) [] (split_sep d))) @ ''/'')) @ n"
proof -
  have r: "is_rooted (d @ CHR ''/'' # n) = is_rooted d"
    using assms(1) by (cases d) (auto simp: is_rooted_def)
  have f: "foldl (clean_step (is_rooted d)) [] (split_sep (d @ CHR ''/'' # n)) =
           n # foldl (clean_step (is_rooted d)) [] (split_sep d)"
    using assms by (simp add: split_sep_append split_sep_plain clean_step_def)
  show ?thesis
    using assms(2) by (simp add: Clean_def r f join_sep_snoc)
qed

lemma Join_plain:
  "\<exists>pre. \<forall>n. n \<noteq> [] \<and> CHR ''/'' \<notin> set n \<and> n \<noteq> ''.'' \<and> n \<noteq> ''..'' \<longrightarrow> Join d n = pre @ n"
proof (cases "d = []")
  case True
  then have "\<forall>n. n \<noteq> [] \<and> CHR ''/'' \<notin> set n \<and> n \<noteq> ''.'' \<and> n \<noteq> ''..'' \<longrightarrow> Join d n = [] @ n"
    by (simp add: Join_def Clean_plain)
  then show ?thesis by blast
next
  case False
  then have "\<forall>n. n \<noteq> [] \<and> CHR ''/'' \<notin> set n \<and> n \<noteq> ''.'' \<and> n \<noteq> ''..'' \<longrightarrow>
    Join d n = ((if is_rooted d then ''/'' else []) @
          (if foldl (clean_step (is_rooted d)) [] (split_sep d) = [] then []
           else join_sep (rev (foldl (clean_step (is_rooted d)) [] (split_sep d))) @ ''/'')) @ n"
    using Clean_snoc_plain [of d] by (simp only: Join_def) simp
  then show ?thesis by blast
qed

lemma Join_fixed_names_distinct:
  "Join d ''Chart.yaml'' \<noteq> Join d ''values.yaml''"
  "Join d ''Chart.yaml'' \<noteq> Join d ''values.schema.json''"
  "Join d ''values.yaml'' \<noteq> Join d ''values.schema.json''"
proof -
  obtain pre where
    pre: "\<And>n. n \<noteq> [] \<and> CHR ''/'' \<notin> set n \<and> n \<noteq> ''.'' \<and> n \<noteq> ''..'' \<Longrightarrow> Join d n = pre @ n"
    using Join_plain [of d] by blast
  have c: "Join d ''Chart.yaml'' = pre @ ''Chart.yaml''" by (rule pre) simp
  have v: "Join d ''values.yaml'' = pre @ ''values.yaml''" by (rule pre) simp
  have j: "Join d ''values.schema.json'' = pre @ ''values.schema.json''" by (rule pre) simp
  show "Join d ''Chart.yaml'' \<noteq> Join d ''values.yaml''" unfolding c v by simp
  show "Join d ''Chart.yaml'' \<noteq> Join d ''values.schema.json''" unfolding c j by simp
  show "Join d ''values.yaml'' \<noteq> Join d ''values.schema.json''" unfolding v j by simp
qed

subsection \<open>The files of the chart\<close>

lemma those_append:
  "those xs = Some as \<Longrightarrow> those ys = Some bs \<Longrightarrow> those (xs @ ys) = Some (as @ bs)"
  by (induction xs arbitrary: as) (auto split: option.splits)

lemma save_Ok:
  assumes "saveReleaseToFiles e s (Some r) d = (Ok (), s')" and "Chart r = Some c"
  obtains fl tl md vs where "those (Files c) = Some fl" and "those (Templates c) = Some tl"
    and "yaml_Marshal_metadata e (Metadata c) = Inr md"
    and "yaml_Marshal_values e (Values c) = Inr vs"
    and "write_files (fault e) s d
           (fl @ tl @
            [\<lparr>Name = ''Chart.yaml'', Data = md\<rparr>,
             \<lparr>Name = ''values.yaml'', Data = vs\<rparr>,
             \<lparr>Name = ''values.schema.json'',
              Data = (case Schema c of None \<Rightarrow> ''null''
                      | Some bs \<Rightarrow> CHR 0x22 # EncodeToString bs @ [CHR 0x22])\<rparr>]) = (Ok (), s')"
  using assms
  by (auto simp: saveReleaseToFiles_def json_Marshal_bytes_def split: option.splits sum.splits)

text \<open>
  C10. Whenever \<^verbatim>\<open>saveReleaseToFiles\<close> succeeds, \<^verbatim>\<open>values.schema.json\<close> exists in the
  destination directory and holds the JSON encoding of the \<^verbatim>\<open>Schema\<close> byte slice; for a
  chart without a schema (a nil slice) these are the four bytes \<^verbatim>\<open>null\<close>. No branch of the
  function leaves the file out.
\<close>

theorem schema_file_always_written:
  assumes "saveReleaseToFiles e s (Some r) d = (Ok (), s')" and "Chart r = Some c"
  shows "files s' (Join d ''values.schema.json'') =
           Some (case Schema c of None \<Rightarrow> ''null''
                 | Some bs \<Rightarrow> CHR 0x22 # EncodeToString bs @ [CHR 0x22]) \<and>
         (Schema c = None \<longrightarrow> files s' (Join d ''values.schema.json'') = Some ''null'')"
proof -
  from assms obtain fl tl md vs where
    w: "write_files (fault e) s d
          (fl @ tl @
           [\<lparr>Name = ''Chart.yaml'', Data = md\<rparr>,
            \<lparr>Name = ''values.yaml'', Data = vs\<rparr>,
            \<lparr>Name = ''values.schema.json'',
             Data = (case Schema c of None \<Rightarrow> ''null''
                     | Some bs \<Rightarrow> CHR 0x22 # EncodeToString bs @ [CHR 0x22])\<rparr>]) = (Ok (), s')"
    by (rule save_Ok)
  let ?sch = "\<lparr>Name = ''values.schema.json'',
             Data = (case Schema c of None \<Rightarrow> ''null''
                     | Some bs \<Rightarrow> CHR 0x22 # EncodeToString bs @ [CHR 0x22])\<rparr>"
  have "write_files (fault e) s d
          ((fl @ tl @ [\<lparr>Name = ''Chart.yaml'', Data = md\<rparr>, \<lparr>Name = ''values.yaml'', Data = vs\<rparr>]) @
           ?sch # []) = (Ok (), s')"
    using w by simp
  then have "files s' (Join d (Name ?sch)) = Some (Data ?sch)"
    by (rule write_files_last_wins) simp
  then show ?thesis by (auto split: option.splits)
qed

lemma demo_save_plain:
  "fst (saveReleaseToFiles (demo_env (Inr (demo_clientset [])) None no_fault) demo_fs
          (Some (demo_release None [] [])) ''/tmp/helm-release-001'') = Ok ()"
  by (simp add: saveReleaseToFiles_def json_Marshal_bytes_def MkdirAll_def WriteFile_def
      demo_defs path_defs)

text \<open>The chart of the concrete world has no schema: the file holds \<^verbatim>\<open>null\<close>.\<close>

theorem schema_file_always_written_witness:
  "files (snd (saveReleaseToFiles (demo_env (Inr (demo_clientset [])) None no_fault) demo_fs
                 (Some (demo_release None [] [])) ''/tmp/helm-release-001''))
     ''/tmp/helm-release-001/values.schema.json'' = Some ''null''"
proof -
  let ?e = "demo_env (Inr (demo_clientset [])) None no_fault"
  let ?run = "saveReleaseToFiles ?e demo_fs (Some (demo_release None [] [])) ''/tmp/helm-release-001''"
  have ok: "?run = (Ok (), snd ?run)"
    using demo_save_plain by (simp add: prod_eq_iff)
  have c: "Chart (demo_release None [] []) = Some (demo_chart None [])"
    by (simp add: demo_release_def)
  have j: "Join ''/tmp/helm-release-001'' ''values.schema.json'' =
           ''/tmp/helm-release-001/values.schema.json''"
    by (simp add: path_defs)
  from schema_file_always_written [OF ok c] show ?thesis
    by (simp add: j demo_chart_def)
qed

text \<open>
  The other files of the chart. After \<^verbatim>\<open>saveReleaseToFiles\<close> has succeeded, \<^verbatim>\<open>Chart.yaml\<close> holds
  the YAML encoding of the chart's metadata, \<^verbatim>\<open>values.yaml\<close> the YAML encoding of its default
  values, and every entry of the file and template lists holds exactly its \<^verbatim>\<open>Data\<close> bytes
  at the path of its name, unless an entry written later (a later file or template, or
  one of the three synthesized files) has the same path.
\<close>

lemma chart_files_written:
  assumes "saveReleaseToFiles e s (Some r) d = (Ok (), s')" and "Chart r = Some c"
  shows "(\<exists>md. yaml_Marshal_metadata e (Metadata c) = Inr md \<and>
               files s' (Join d ''Chart.yaml'') = Some md) \<and>
         (\<exists>vs. yaml_Marshal_values e (Values c) = Inr vs \<and>
               files s' (Join d ''values.yaml'') = Some vs) \<and>
         (\<exists>fl. those (Files c @ Templates c) = Some fl \<and>
               (\<forall>pre f post.
                  fl = pre @ f # post \<and>
                  Join d (Name f) \<notin> (\<lambda>g. Join d (Name g)) ` set post \<and>
                  Join d (Name f) \<notin>
                    {Join d ''Chart.yaml'', Join d ''values.yaml'', Join d ''values.schema.json''} \<longrightarrow>
                  files s' (Join d (Name f)) = Some (Data f)))"
proof -
  from assms obtain fl tl md vs where fl: "those (Files c) = Some fl"
    and tl: "those (Templates c) = Some tl"
    and md: "yaml_Marshal_metadata e (Metadata c) = Inr md"
    and vs: "yaml_Marshal_values e (Values c) = Inr vs"
    and w: "write_files (fault e) s d
          (fl @ tl @
           [\<lparr>Name = ''Chart.yaml'', Data = md\<rparr>,
            \<lparr>Name = ''values.yaml'', Data = vs\<rparr>,
            \<lparr>Name = ''values.schema.json'',
             Data = (case Schema c of None \<Rightarrow> ''null''
                     | Some bs \<Rightarrow> CHR 0x22 # EncodeToString bs @ [CHR 0x22])\<rparr>]) = (Ok (), s')"
    by (rule save_Ok)
  let ?ch = "\<lparr>Name = ''Chart.yaml'', Data = md\<rparr>"
  let ?va = "\<lparr>Name = ''values.yaml'', Data = vs\<rparr>"
  let ?sch = "\<lparr>Name = ''values.schema.json'',
             Data = (case Schema c of None \<Rightarrow> ''null''
                     | Some bs \<Rightarrow> CHR 0x22 # EncodeToString bs @ [CHR 0x22])\<rparr>"
  have "write_files (fault e) s d ((fl @ tl) @ ?ch # [?va, ?sch]) = (Ok (), s')"
    using w by simp
  then have "files s' (Join d (Name ?ch)) = Some (Data ?ch)"
    by (rule write_files_last_wins) (simp add: Join_fixed_names_distinct)
  then have 1: "files s' (Join d ''Chart.yaml'') = Some md" by simp
  have "write_files (fault e) s d ((fl @ tl @ [?ch]) @ ?va # [?sch]) = (Ok (), s')"
    using w by simp
  then have "files s' (Join d (Name ?va)) = Some (Data ?va)"
    by (rule write_files_last_wins) (simp add: Join_fixed_names_distinct)
  then have 2: "files s' (Join d ''values.yaml'') = Some vs" by simp
  have 3: "files s' (Join d (Name f)) = Some (Data f)"
    if "fl @ tl = pre @ f # post"
      and "Join d (Name f) \<notin> (\<lambda>g. Join d (Name g)) ` set post"
      and "Join d (Name f) \<notin>
             {Join d ''Chart.yaml'', Join d ''values.yaml'', Join d ''values.schema.json''}"
    for pre f post
  proof -
    have "write_files (fault e) s d (pre @ f # (post @ [?ch, ?va, ?sch])) = (Ok (), s')"
      using w that(1) by (metis append.assoc append_Cons)
    then show ?thesis
      by (rule write_files_last_wins) (use that(2,3) in auto)
  qed
  from 1 2 3 md vs those_append [OF fl tl] show ?thesis by blast
qed

text \<open>
  The chart of the concrete world, saved into a fresh directory: the metadata text in
  \<^verbatim>\<open>Chart.yaml\<close>, the encoded values in \<^verbatim>\<open>values.yaml\<close>, the template under its name.
\<close>

lemma chart_files_written_demo:
  "files (snd (saveReleaseToFiles (demo_env (Inr (demo_clientset [])) None no_fault) demo_fs
                 (Some (demo_release None [] [])) ''/tmp/helm-release-001''))
     ''/tmp/helm-release-001/Chart.yaml'' = Some ''name: demo'' \<and>
   files (snd (saveReleaseToFiles (demo_env (Inr (demo_clientset [])) None no_fault) demo_fs
                 (Some (demo_release None [] [])) ''/tmp/helm-release-001''))
     ''/tmp/helm-release-001/values.yaml'' = Some ''replicas: 1;'' \<and>
   files (snd (saveReleaseToFiles (demo_env (Inr (demo_clientset [])) None no_fault) demo_fs
                 (Some (demo_release None [] [])) ''/tmp/helm-release-001''))
     ''/tmp/helm-release-001/templates/cm.yaml'' = Some ''kind: ConfigMap''"
proof -
  let ?e = "demo_env (Inr (demo_clientset [])) None no_fault"
  let ?d = "''/tmp/helm-release-001''"
  let ?run = "saveReleaseToFiles ?e demo_fs (Some (demo_release None [] [])) ?d"
  let ?t = "\<lparr>Name = ''templates/cm.yaml'', Data = ''kind: ConfigMap''\<rparr>"
  have ok: "?run = (Ok (), snd ?run)"
    using demo_save_plain by (simp add: prod_eq_iff)
  have c: "Chart (demo_release None [] []) = Some (demo_chart None [])"
    by (simp add: demo_release_def)
  have j: "Join ?d ''Chart.yaml'' = ''/tmp/helm-release-001/Chart.yaml''"
    "Join ?d ''values.yaml'' = ''/tmp/helm-release-001/values.yaml''"
    "Join ?d ''values.schema.json'' = ''/tmp/helm-release-001/values.schema.json''"
    "Join ?d ''templates/cm.yaml'' = ''/tmp/helm-release-001/templates/cm.yaml''"
    by (simp_all add: path_defs)
  note inst = chart_files_written [OF ok c, unfolded j]
  from inst have 1: "files (snd ?run) ''/tmp/helm-release-001/Chart.yaml'' = Some ''name: demo''"
    by (simp add: demo_env_def demo_chart_def)
  from inst have 2: "files (snd ?run) ''/tmp/helm-release-001/values.yaml'' = Some ''replicas: 1;''"
    by (simp add: demo_env_def demo_chart_def)
  from inst obtain fl where fl: "those (Files (demo_chart None []) @ Templates (demo_chart None [])) = Some fl"
    and all: "\<And>pre f post.
       fl = pre @ f # post \<and> Join ?d (Name f) \<notin> (\<lambda>g. Join ?d (Name g)) ` set post \<and>
       Join ?d (Name f) \<notin> {''/tmp/helm-release-001/Chart.yaml'', ''/tmp/helm-release-001/values.yaml'',
         ''/tmp/helm-release-001/values.schema.json''} \<Longrightarrow>
       files (snd ?run) (Join ?d (Name f)) = Some (Data f)"
    by blast
  from fl have "fl = [] @ ?t # []" by (simp add: demo_chart_def)
  then have "files (snd ?run) (Join ?d (Name ?t)) = Some (Data ?t)"
    by (intro all [of "[]" ?t "[]"]) (simp add: j)
  then have 3: "files (snd ?run) ''/tmp/helm-release-001/templates/cm.yaml'' = Some ''kind: ConfigMap''"
    by (simp add: j)
  from 1 2 3 show ?thesis by simp
qed

lemma EncodeToString_not_shorter: "length bs \<le> length (EncodeToString bs)"
  unfolding length_EncodeToString by arith

text \<open>
  C1, what the code does. For a chart that has a schema, with the bytes \<open>bs\<close> of its
  \<^verbatim>\<open>values.schema.json\<close> in \<^verbatim>\<open>Schema\<close>, the file \<^verbatim>\<open>values.schema.json\<close> that a successful
  \<^verbatim>\<open>saveReleaseToFiles\<close> leaves holds the base64 text of \<open>bs\<close> between double quotes (what
  \<^verbatim>\<open>json.Marshal\<close> makes of a byte slice). That is never \<open>bs\<close> itself: the file does not
  match the original byte for byte.
\<close>

theorem schema_file_is_not_the_schema:
  assumes "saveReleaseToFiles e s (Some r) d = (Ok (), s')" and "Chart r = Some c"
    and "Schema c = Some bs"
  shows "files s' (Join d ''values.schema.json'') = Some (CHR 0x22 # EncodeToString bs @ [CHR 0x22]) \<and>
         files s' (Join d ''values.schema.json'') \<noteq> Some bs"
proof -
  from assms(1,2) obtain fl tl md vs where
    w: "write_files (fault e) s d
          (fl @ tl @
           [\<lparr>Name = ''Chart.yaml'', Data = md\<rparr>,
            \<lparr>Name = ''values.yaml'', Data = vs\<rparr>,
            \<lparr>Name = ''values.schema.json'',
             Data = (case Schema c of None \<Rightarrow> ''null''
                     | Some bs \<Rightarrow> CHR 0x22 # EncodeToString bs @ [CHR 0x22])\<rparr>]) = (Ok (), s')"
    by (rule save_Ok)
  let ?sch = "\<lparr>Name = ''values.schema.json'', Data = CHR 0x22 # EncodeToString bs @ [CHR 0x22]\<rparr>"
  have "write_files (fault e) s d
          ((fl @ tl @ [\<lparr>Name = ''Chart.yaml'', Data = md\<rparr>, \<lparr>Name = ''values.yaml'', Data = vs\<rparr>]) @
           ?sch # []) = (Ok (), s')"
    using w assms(3) by simp
  then have "files s' (Join d (Name ?sch)) = Some (Data ?sch)"
    by (rule write_files_last_wins) simp
  then have 1: "files s' (Join d ''values.schema.json'') = Some (CHR 0x22 # EncodeToString bs @ [CHR 0x22])"
    by simp
  have "length (CHR 0x22 # EncodeToString bs @ [CHR 0x22]) \<noteq> length bs"
    using EncodeToString_not_shorter [of bs] by simp
  then have "CHR 0x22 # EncodeToString bs @ [CHR 0x22] \<noteq> bs" by metis
  with 1 show ?thesis by simp
qed

text \<open>
  A chart whose \<^verbatim>\<open>values.schema.json\<close> was the two bytes \<^verbatim>\<open>{}\<close> carries them in \<^verbatim>\<open>Schema\<close>; the
  file that \<^verbatim>\<open>saveReleaseToFiles\<close> writes holds the six bytes \<^verbatim>\<open>"e30="\<close>, not the original two.
\<close>

theorem schema_file_is_not_the_schema_witness:
  "fst (saveReleaseToFiles (demo_env (Inr (demo_clientset [])) None no_fault) demo_fs
          (Some (demo_release (Some ''{}'') [] [])) ''/tmp/helm-release-001'') = Ok () \<and>
   Schema (demo_chart (Some ''{}'') []) = Some ''{}'' \<and>
   files (snd (saveReleaseToFiles (demo_env (Inr (demo_clientset [])) None no_fault) demo_fs
                 (Some (demo_release (Some ''{}'') [] [])) ''/tmp/helm-release-001''))
     ''/tmp/helm-release-001/values.schema.json'' =
     Some [CHR 0x22, CHR ''e'', CHR ''3'', CHR ''0'', CHR ''='', CHR 0x22] \<and>
   files (snd (saveReleaseToFiles (demo_env (Inr (demo_clientset [])) None no_fault) demo_fs
                 (Some (demo_release (Some ''{}'') [] [])) ''/tmp/helm-release-001''))
     ''/tmp/helm-release-001/values.schema.json'' \<noteq> Some ''{}''"
proof -
  let ?e = "demo_env (Inr (demo_clientset [])) None no_fault"
  let ?run = "saveReleaseToFiles ?e demo_fs (Some (demo_release (Some ''{}'') [] [])) ''/tmp/helm-release-001''"
  have f: "fst ?run = Ok ()"
    by (simp add: saveReleaseToFiles_def json_Marshal_bytes_def MkdirAll_def WriteFile_def
        demo_defs path_defs)
  then have ok: "?run = (Ok (), snd ?run)" by (simp add: prod_eq_iff)
  have c: "Chart (demo_release (Some ''{}'') [] []) = Some (demo_chart (Some ''{}'') [])"
    by (simp add: demo_release_def)
  have sc: "Schema (demo_chart (Some ''{}'') []) = Some ''{}''"
    by (simp add: demo_chart_def)
  have j: "Join ''/tmp/helm-release-001'' ''values.schema.json'' =
           ''/tmp/helm-release-001/values.schema.json''"
    by (simp add: path_defs)
  have enc: "EncodeToString ''{}'' = ''e30=''"
    by (simp add: b64_char_def)
  note inst = schema_file_is_not_the_schema [OF ok c sc, unfolded j enc]
  from inst f sc show ?thesis by simp
qed

subsection \<open>Running the concrete world\<close>

lemma demo_list_one:
  "demo_clientset [demo_secret ''1''] ''default''
     [(''owner'', ''helm''), (''name'', ''demo''), (''version'', Itoa 1)] = Inr [demo_secret ''1'']"
  by (simp add: demo_defs Itoa_def digit_char_def)

lemma demo_decode:
  "helmReleaseFromReleaseData (demo_env cs rel flt) (secret_data (demo_secret v) ''release'') =
   Inr rel"
  by (simp add: helmReleaseFromReleaseData_def secret_data_def demo_secret_def
      NewDecoder_EncodeToString demo_env_def del: EncodeToString.simps)

lemma demo_tempdir:
  "flt SysTempDir = None \<Longrightarrow>
   TempDir flt ''/tmp'' [''001'', ''002''] demo_fs [] ''helm-release-'' =
   Inr (''/tmp/helm-release-001'', demo_fs\<lparr>dirs := insert ''/tmp/helm-release-001'' (dirs demo_fs)\<rparr>)"
  by (simp add: TempDir_def demo_fs_def path_defs)

lemma Convert_reached:
  assumes "GetClientset e = Inr cs"
    and "cs ns [(''owner'', ''helm''), (''name'', rn), (''version'', Itoa revision)] = Inr [sec]"
    and "helmReleaseFromReleaseData e (secret_data sec ''release'') = Inr rel"
    and "TempDir (fault e) (TMPDIR e) (rand e) s [] ''helm-release-'' = Inr (d, s1)"
  shows "ConvertReleaseVersion e s ns rn revision =
           (fst (convert_in_dir e s1 rel d ''.''), RemoveAll (snd (convert_in_dir e s1 rel d ''.'')) d)"
  using assms by (simp add: ConvertReleaseVersion_def split: prod.splits)

lemma demo_Convert:
  assumes "flt SysTempDir = None"
  shows "ConvertReleaseVersion (demo_env (Inr (demo_clientset [demo_secret ''1''])) rel flt)
           demo_fs ''default'' ''demo'' 1 =
         (fst (convert_in_dir (demo_env (Inr (demo_clientset [demo_secret ''1''])) rel flt)
                 (demo_fs\<lparr>dirs := insert ''/tmp/helm-release-001'' (dirs demo_fs)\<rparr>)
                 rel ''/tmp/helm-release-001'' ''.''),
          RemoveAll
            (snd (convert_in_dir (demo_env (Inr (demo_clientset [demo_secret ''1''])) rel flt)
                 (demo_fs\<lparr>dirs := insert ''/tmp/helm-release-001'' (dirs demo_fs)\<rparr>)
                 rel ''/tmp/helm-release-001'' ''.''))
            ''/tmp/helm-release-001'')"
proof (rule Convert_reached)
  show "GetClientset (demo_env (Inr (demo_clientset [demo_secret ''1''])) rel flt) =
        Inr (demo_clientset [demo_secret ''1''])"
    by (simp add: demo_env_def)
  show "demo_clientset [demo_secret ''1''] ''default''
     [(''owner'', ''helm''), (''name'', ''demo''), (''version'', Itoa 1)] = Inr [demo_secret ''1'']"
    by (rule demo_list_one)
  show "helmReleaseFromReleaseData (demo_env (Inr (demo_clientset [demo_secret ''1''])) rel flt)
          (secret_data (demo_secret ''1'') ''release'') = Inr rel"
    by (rule demo_decode)
  show "TempDir (fault (demo_env (Inr (demo_clientset [demo_secret ''1''])) rel flt))
          (TMPDIR (demo_env (Inr (demo_clientset [demo_secret ''1''])) rel flt))
          (rand (demo_env (Inr (demo_clientset [demo_secret ''1''])) rel flt)) demo_fs []
          ''helm-release-'' =
        Inr (''/tmp/helm-release-001'',
             demo_fs\<lparr>dirs := insert ''/tmp/helm-release-001'' (dirs demo_fs)\<rparr>)"
    using demo_tempdir [of flt, OF assms] by (simp add: demo_env_def)
qed

lemmas run_defs = convert_in_dir_def saveReleaseToFiles_def json_Marshal_bytes_def MkdirAll_def
  WriteFile_def RemoveAll_def inside_def

subsection \<open>The name of the values file\<close>

text \<open>\<^verbatim>\<open>strings.Join\<close> keeps the separator before an empty last word.\<close>

lemma join_words_empty_last: "join_words [''--namespace'', []] = ''--namespace ''"
  by simp

text \<open>
  C5, what the code does. Whenever \<^verbatim>\<open>ConvertReleaseVersion\<close> succeeds for a decoded release
  \<open>r\<close>, the values-file name it returns is \<^verbatim>\<open>values.yaml\<close> if \<open>r\<close> has override values and
  \<^verbatim>\<open>.\<close> (the base name of the empty path) if it has none: it is never the empty string.
\<close>

theorem values_name_on_success:
  assumes cs: "GetClientset e = Inr cs"
    and ls: "cs ns [(''owner'', ''helm''), (''name'', rn), (''version'', Itoa revision)] = Inr [sec]"
    and dec: "helmReleaseFromReleaseData e (secret_data sec ''release'') = Inr (Some r)"
    and run: "ConvertReleaseVersion e s ns rn revision = (Ok (chartFile, valuesFile), s')"
  shows "valuesFile = (if Config r = [] then ''.'' else ''values.yaml'') \<and> valuesFile \<noteq> []"
proof (cases "TempDir (fault e) (TMPDIR e) (rand e) s [] ''helm-release-''")
  case (Inl x)
  with cs ls dec run show ?thesis by (simp add: ConvertReleaseVersion_def)
next
  case (Inr ds)
  then obtain d s1 where
    tmp: "TempDir (fault e) (TMPDIR e) (rand e) s [] ''helm-release-'' = Inr (d, s1)"
    by (cases ds) auto
  from Convert_reached [OF cs ls dec tmp] run
  have ok: "fst (convert_in_dir e s1 (Some r) d ''.'') = Ok (chartFile, valuesFile)" by simp
  obtain r1 s2 where sv: "saveReleaseToFiles e s1 (Some r) d = (r1, s2)"
    by (cases "saveReleaseToFiles e s1 (Some r) d")
  obtain r2 s3 where pk: "package_Run e s2 d ''.'' = (r2, s3)"
    by (cases "package_Run e s2 d ''.''")
  have b: "Base [] = ''.''" "Base (Join ''.'' ''values.yaml'') = ''values.yaml''"
    by (simp_all add: path_defs)
  from ok sv pk show ?thesis
    by (auto simp: convert_in_dir_def b split: outcome.splits sum.splits if_splits)
qed

text \<open>
  The release of the concrete world without override values: the conversion succeeds,
  writes the archive and no values file, and returns the values-file name \<^verbatim>\<open>.\<close>; the
  command then prints \<^verbatim>\<open>--values .\<close> in the install line.
\<close>

theorem values_name_on_success_witness:
  "fst (ConvertReleaseVersion
          (demo_env (Inr (demo_clientset [demo_secret ''1''])) (Some (demo_release None [] []))
             no_fault) demo_fs ''default'' ''demo'' 1) = Ok (''demo-0.1.0.tgz'', ''.'') \<and>
   Config (demo_release None [] []) = [] \<and>
   files (snd (ConvertReleaseVersion
          (demo_env (Inr (demo_clientset [demo_secret ''1''])) (Some (demo_release None [] []))
             no_fault) demo_fs ''default'' ''demo'' 1)) ''demo-0.1.0.tgz'' =
     Some ''archive of /tmp/helm-release-001'' \<and>
   files (snd (ConvertReleaseVersion
          (demo_env (Inr (demo_clientset [demo_secret ''1''])) (Some (demo_release None [] []))
             no_fault) demo_fs ''default'' ''demo'' 1)) ''values.yaml'' = None \<and>
   snd (snd (RunE
          (demo_env (Inr (demo_clientset [demo_secret ''1''])) (Some (demo_release None [] []))
             no_fault) demo_fs [''demo''] ''default'' ''1'')) ! 3 =
     ''helm install demo demo-0.1.0.tgz --values . --namespace default''"
proof -
  let ?rel = "demo_release None [] []"
  let ?e = "demo_env (Inr (demo_clientset [demo_secret ''1''])) (Some ?rel) no_fault"
  let ?run = "ConvertReleaseVersion ?e demo_fs ''default'' ''demo'' 1"
  have nf: "no_fault SysTempDir = None" by (simp add: no_fault_def)
  have "\<exists>vf. fst ?run = Ok (''demo-0.1.0.tgz'', vf)"
    unfolding demo_Convert [of no_fault, OF nf]
    by (simp add: run_defs demo_defs path_defs)
  then obtain vf where ok: "?run = (Ok (''demo-0.1.0.tgz'', vf), snd ?run)"
    by (auto simp: prod_eq_iff)
  have cs: "GetClientset ?e = Inr (demo_clientset [demo_secret ''1''])"
    by (simp add: demo_env_def)
  have dec: "helmReleaseFromReleaseData ?e (secret_data (demo_secret ''1'') ''release'') =
             Inr (Some ?rel)"
    by (rule demo_decode)
  have 0: "Config ?rel = []" by (simp add: demo_release_def)
  from values_name_on_success [OF cs demo_list_one dec ok] 0 have vf: "vf = ''.''" by simp
  have 1: "fst ?run = Ok (''demo-0.1.0.tgz'', ''.'')"
    using ok vf by (simp add: prod_eq_iff)
  have 2: "files (snd ?run) ''demo-0.1.0.tgz'' = Some ''archive of /tmp/helm-release-001''"
    unfolding demo_Convert [of no_fault, OF nf]
    by (simp add: run_defs demo_defs path_defs)
  have 3: "files (snd ?run) ''values.yaml'' = None"
    unfolding demo_Convert [of no_fault, OF nf]
    by (simp add: run_defs demo_defs path_defs)
  obtain s1 where c: "?run = (Ok (''demo-0.1.0.tgz'', ''.''), s1)"
    using 1 by (cases ?run) auto
  have 4: "snd (snd (RunE ?e demo_fs [''demo''] ''default'' ''1'')) ! 3 =
           ''helm install demo demo-0.1.0.tgz --values . --namespace default''"
    by (simp add: RunE_def atoi_defs c join_words.simps)
  from 0 1 2 3 4 show ?thesis by simp
qed

subsection \<open>What a conversion changes\<close>

lemma those_names:
  "those xs = Some fl \<Longrightarrow>
   concat (map (\<lambda>f. case f of None \<Rightarrow> [] | Some x \<Rightarrow> [Name x]) xs) = map Name fl"
  by (induction xs arbitrary: fl) (auto split: option.splits)

lemma save_frame:
  assumes "saveReleaseToFiles e s rel d = (res, s')" and "files s' p \<noteq> files s p"
  shows "\<exists>r c. rel = Some r \<and> Chart r = Some c \<and> p \<in> Join d ` set (written_names c)"
proof -
  from assms obtain r c fl tl md vs sch where rel: "rel = Some r" and c: "Chart r = Some c"
    and fl: "those (Files c) = Some fl" and tl: "those (Templates c) = Some tl"
    and w: "write_files (fault e) s d
          (fl @ tl @
           [\<lparr>Name = ''Chart.yaml'', Data = md\<rparr>,
            \<lparr>Name = ''values.yaml'', Data = vs\<rparr>,
            \<lparr>Name = ''values.schema.json'', Data = sch\<rparr>]) = (res, s')"
    by (auto simp: saveReleaseToFiles_def json_Marshal_bytes_def split: option.splits sum.splits)
  have "p \<in> (\<lambda>cf. Join d (Name cf)) ` set (fl @ tl @
           [\<lparr>Name = ''Chart.yaml'', Data = md\<rparr>,
            \<lparr>Name = ''values.yaml'', Data = vs\<rparr>,
            \<lparr>Name = ''values.schema.json'', Data = sch\<rparr>])"
    using write_files_frame [OF w, of p] assms(2) by blast
  moreover have "written_names c = map Name (fl @ tl @
           [\<lparr>Name = ''Chart.yaml'', Data = md\<rparr>,
            \<lparr>Name = ''values.yaml'', Data = vs\<rparr>,
            \<lparr>Name = ''values.schema.json'', Data = sch\<rparr>])"
    by (simp add: written_names_def those_names [OF fl] those_names [OF tl])
  ultimately have "p \<in> Join d ` set (written_names c)" by auto
  with rel c show ?thesis by blast
qed

lemma save_frame_inside:
  assumes "saveReleaseToFiles e s rel d = (res, s')"
    and "\<And>r c. rel = Some r \<Longrightarrow> Chart r = Some c \<Longrightarrow> names_inside d c"
    and "\<not> inside d p"
  shows "files s' p = files s p"
proof (rule ccontr)
  assume "files s' p \<noteq> files s p"
  from save_frame [OF assms(1) this] obtain r c where "rel = Some r" "Chart r = Some c"
    and p: "p \<in> Join d ` set (written_names c)" by blast
  then have "names_inside d c" by (intro assms(2))
  with p have "inside d p" by (auto simp: names_inside_def list_all_iff)
  with assms(3) show False by simp
qed

lemma TempDir_files:
  "TempDir flt tmpdir rnd s dir pattern = Inr (d, s1) \<Longrightarrow> files s1 = files s"
  by (auto simp: TempDir_def split: option.splits if_splits)

lemma RemoveAll_files:
  "files (RemoveAll s d) p = (if p = d \<or> inside d p then None else files s p)"
  by (simp add: RemoveAll_def)

lemma RemoveAll_dirs: "p \<in> dirs (RemoveAll s d) \<longleftrightarrow> p \<in> dirs s \<and> p \<noteq> d \<and> \<not> inside d p"
  by (auto simp: RemoveAll_def)

lemma convert_in_dir_Err:
  assumes "convert_in_dir e s rel d dst = (Err err, s')"
  shows "(\<exists>x. err = Wrap x ''save release to files'' \<and>
              saveReleaseToFiles e s rel d = (Err x, s')) \<or>
         (\<exists>x. err = Wrap x ''package client run'') \<or>
         (\<exists>x. err = Wrap x ''marshal config data'') \<or>
         (\<exists>x. err = Wrap x ''write values file'')"
proof -
  obtain r1 s1 where sv: "saveReleaseToFiles e s rel d = (r1, s1)"
    by (cases "saveReleaseToFiles e s rel d")
  obtain r2 s2 where pk: "package_Run e s1 d dst = (r2, s2)"
    by (cases "package_Run e s1 d dst")
  from assms sv pk show ?thesis
    by (auto simp: convert_in_dir_def split: outcome.splits sum.splits option.splits if_splits)
qed

subsection \<open>The temporary directory\<close>

lemma demo_env_fields:
  "GetClientset (demo_env cs rel flt) = cs"
  "fault (demo_env cs rel flt) = flt"
  "TMPDIR (demo_env cs rel flt) = ''/tmp''"
  "rand (demo_env cs rel flt) = [''001'', ''002'']"
  by (simp_all add: demo_env_def)

lemma demo_names_inside: "names_inside ''/tmp/helm-release-001'' (demo_chart schema [])"
  by (simp add: names_inside_def written_names_def demo_chart_def inside_def path_defs)

lemma dir_chain_prefix: "q \<in> set (dir_chain pre cs) \<Longrightarrow> prefix pre q"
proof (induction cs arbitrary: pre)
  case Nil
  then show ?case by (simp split: if_splits)
next
  case (Cons c cs)
  have "prefix pre q" if "q \<in> set (dir_chain (pre @ [c]) cs)"
    using Cons.IH [OF that] by (rule append_prefixD)
  with Cons.prems show ?case by (auto split: if_splits)
qed

lemma dir_chain_append:
  "dir_chain pre (xs @ CHR ''/'' # ys) = dir_chain pre xs @ dir_chain (pre @ xs @ ''/'') ys"
  by (induction xs arbitrary: pre) simp_all

lemma dir_chain_nonempty: "pre \<noteq> [] \<Longrightarrow> dir_chain pre cs \<noteq> []"
  by (induction cs arbitrary: pre) simp_all

lemma dir_chain_last:
  "q \<in> set (dir_chain pre cs) \<Longrightarrow> q = pre @ cs \<or> q \<in> set (butlast (dir_chain pre cs))"
proof (induction cs arbitrary: pre)
  case Nil
  then show ?case by (simp split: if_splits)
next
  case (Cons c cs)
  let ?rest = "dir_chain (pre @ [c]) cs"
  have ne: "?rest \<noteq> []" by (rule dir_chain_nonempty) simp
  have in_rest: "q = pre @ c # cs \<or> q \<in> set (butlast ?rest)" if "q \<in> set ?rest"
    using Cons.IH [OF that] by simp
  show ?case
  proof (cases "c = CHR ''/'' \<and> pre \<noteq> []")
    case True
    then have dc: "dir_chain pre (c # cs) = pre # ?rest" by simp
    from Cons.prems dc have "q = pre \<or> q \<in> set ?rest" by simp
    then show ?thesis using in_rest ne unfolding dc by auto
  next
    case False
    then have dc: "dir_chain pre (c # cs) = ?rest" by auto
    from Cons.prems dc have "q \<in> set ?rest" by simp
    then show ?thesis using in_rest unfolding dc by simp
  qed
qed

lemma dir_chain_inside:
  assumes "p = d \<or> inside d p" and "q \<in> set (dir_chain [] p)"
  shows "q = d \<or> inside d q \<or> q \<in> set (butlast (dir_chain [] d))"
  using assms(1)
proof
  assume "p = d"
  with assms(2) dir_chain_last [of q "[]" d] show ?thesis by auto
next
  assume "inside d p"
  then obtain ys where p: "p = d @ CHR ''/'' # ys"
    by (auto simp: inside_def prefix_def)
  from assms(2) have "q \<in> set (dir_chain [] d) \<or> q \<in> set (dir_chain (d @ ''/'') ys)"
    unfolding p dir_chain_append by simp
  then show ?thesis
  proof
    assume "q \<in> set (dir_chain [] d)"
    with dir_chain_last [of q "[]" d] show ?thesis by auto
  next
    assume "q \<in> set (dir_chain (d @ ''/'') ys)"
    then have "inside d q" unfolding inside_def by (rule dir_chain_prefix)
    then show ?thesis by simp
  qed
qed

lemma MkdirAll_dirs:
  assumes "MkdirAll flt s p = Inr s'" and "p = d \<or> inside d p"
    and "set (butlast (dir_chain [] d)) \<subseteq> dirs s"
  shows "dirs s \<subseteq> dirs s'" and "q \<noteq> d \<Longrightarrow> \<not> inside d q \<Longrightarrow> q \<in> dirs s' \<longleftrightarrow> q \<in> dirs s"
proof -
  from assms(1) have d': "dirs s' = dirs s \<union> set (dir_chain [] p)"
    by (auto simp: MkdirAll_def split: option.splits if_splits)
  then show "dirs s \<subseteq> dirs s'" by simp
  show "q \<in> dirs s' \<longleftrightarrow> q \<in> dirs s" if "q \<noteq> d" "\<not> inside d q"
    using dir_chain_inside [OF assms(2), of q] that assms(3) unfolding d' by auto
qed

lemma WriteFile_dirs: "WriteFile flt s p content = Inr s' \<Longrightarrow> dirs s' = dirs s"
  by (auto simp: WriteFile_def split: option.splits if_splits)

lemma write_files_dirs:
  assumes "write_files flt s d cfs = (res, s')"
    and "\<forall>cf \<in> set cfs. Dir (Join d (Name cf)) = d \<or> inside d (Dir (Join d (Name cf)))"
    and "set (butlast (dir_chain [] d)) \<subseteq> dirs s"
    and "q \<noteq> d" and "\<not> inside d q"
  shows "q \<in> dirs s' \<longleftrightarrow> q \<in> dirs s"
  using assms(1-3)
proof (induction cfs arbitrary: s)
  case Nil
  then show ?case by simp
next
  case (Cons cf cfs)
  let ?p = "Dir (Join d (Name cf))"
  have pd: "?p = d \<or> inside d ?p" using Cons.prems(2) by simp
  show ?case
  proof (cases "MkdirAll flt s ?p")
    case (Inl err)
    with Cons.prems(1) show ?thesis by simp
  next
    case (Inr s1)
    note mk = MkdirAll_dirs [OF Inr pd Cons.prems(3)]
    have q1: "q \<in> dirs s1 \<longleftrightarrow> q \<in> dirs s" using mk(2) assms(4,5) by simp
    show ?thesis
    proof (cases "WriteFile flt s1 (Join d (Name cf)) (Data cf)")
      case (Inl err)
      with Inr Cons.prems(1) have "s' = s1" by simp
      with q1 show ?thesis by simp
    next
      case wr: (Inr s2)
      have d2: "dirs s2 = dirs s1" using wr by (rule WriteFile_dirs)
      from Inr wr Cons.prems(1) have rest: "write_files flt s2 d cfs = (res, s')" by simp
      have "q \<in> dirs s' \<longleftrightarrow> q \<in> dirs s2"
        using rest Cons.prems(2,3) mk(1) d2 by (intro Cons.IH) auto
      with d2 q1 show ?thesis by simp
    qed
  qed
qed

lemma written_inside_names: "written_inside d c \<Longrightarrow> names_inside d c"
  by (simp add: written_inside_def names_inside_def list_all_iff)

lemma save_dirs:
  assumes "saveReleaseToFiles e s rel d = (res, s')"
    and "\<forall>r c. rel = Some r \<and> Chart r = Some c \<longrightarrow> written_inside d c"
    and "set (butlast (dir_chain [] d)) \<subseteq> dirs s"
    and "q \<noteq> d" and "\<not> inside d q"
  shows "q \<in> dirs s' \<longleftrightarrow> q \<in> dirs s"
proof (cases "s' = s")
  case True
  then show ?thesis by simp
next
  case False
  with assms(1) obtain r c fls tpl md vs sch where rel: "rel = Some r" and c: "Chart r = Some c"
    and fl: "those (Files c) = Some fls" and tl: "those (Templates c) = Some tpl"
    and w: "write_files (fault e) s d
          (fls @ tpl @
           [\<lparr>Name = ''Chart.yaml'', Data = md\<rparr>,
            \<lparr>Name = ''values.yaml'', Data = vs\<rparr>,
            \<lparr>Name = ''values.schema.json'', Data = sch\<rparr>]) = (res, s')"
    by (auto simp: saveReleaseToFiles_def json_Marshal_bytes_def split: option.splits sum.splits)
  let ?all = "fls @ tpl @
           [\<lparr>Name = ''Chart.yaml'', Data = md\<rparr>,
            \<lparr>Name = ''values.yaml'', Data = vs\<rparr>,
            \<lparr>Name = ''values.schema.json'', Data = sch\<rparr>]"
  have wn: "written_names c = map Name ?all"
    by (simp add: written_names_def those_names [OF fl] those_names [OF tl])
  from assms(2) rel c have "written_inside d c" by simp
  then have "\<forall>cf \<in> set ?all. Dir (Join d (Name cf)) = d \<or> inside d (Dir (Join d (Name cf)))"
    unfolding written_inside_def wn list_all_iff by auto
  with w show ?thesis using assms(3-5) by (rule write_files_dirs)
qed

lemma TempDir_dirs:
  assumes "TempDir flt tmpdir rnd s dir pattern = Inr (d, s1)"
  shows "dirs s1 = insert d (dirs s)" and "set (butlast (dir_chain [] d)) \<subseteq> dirs s"
  using assms by (auto simp: TempDir_def list_all_iff split: option.splits if_splits)

lemma convert_in_dir_run:
  assumes "saveReleaseToFiles e s1 rel d = (r1, s2)"
    and "package_Run e s2 d dst = (r2, s3)"
    and "convert_in_dir e s1 rel d dst = (res, sf)"
  shows "(r1 \<noteq> Ok () \<and> sf = s2) \<or>
         (r1 = Ok () \<and>
          (sf = s3 \<or>
           (\<exists>cf configData. r2 = Inr cf \<and> res = Ok (Base cf, Base (Join dst ''values.yaml'')) \<and>
              WriteFile (fault e) s3 (Join dst ''values.yaml'') configData = Inr sf)))"
  using assms
  by (auto simp: convert_in_dir_def split: outcome.splits sum.splits option.splits if_splits)


lemma Join_dot_values: "Join ''.'' ''values.yaml'' = ''values.yaml''"
  "Base (Join ''.'' ''values.yaml'') = ''values.yaml''"
  "Base ''values.yaml'' = ''values.yaml''"
  by (simp_all add: path_defs)

text \<open>
  C8 (as amended). Take a call of \<^verbatim>\<open>ConvertReleaseVersion\<close> that creates its temporary
  directory \<open>d\<close>; let \<open>r1\<close> be the result of its save step and \<open>r2\<close> the result the packaging
  action gives (or would give) on the state after the save step. Whatever the outcome
  (success, any later error, a panic), \<open>d\<close> and everything below it are gone when the call
  returns. Suppose moreover that every path the save step writes, and its directory
  part, stay inside \<open>d\<close>, and that outside \<open>d\<close> this run of the packaging action creates and
  removes no directory and changes no file but the archive it reports. Then outside \<open>d\<close>
  the directories after the call are those before it, and a regular file that differs
  from before the call is the archive reported by the packaging action, after a save
  step that succeeded, or it is \<^verbatim>\<open>values.yaml\<close> and the call has succeeded with that name
  for the values file.
\<close>

theorem temp_dir_removed:
  assumes cs: "GetClientset e = Inr cs"
    and ls: "cs ns [(''owner'', ''helm''), (''name'', rn), (''version'', Itoa revision)] = Inr [sec]"
    and dec: "helmReleaseFromReleaseData e (secret_data sec ''release'') = Inr rel"
    and tmp: "TempDir (fault e) (TMPDIR e) (rand e) s [] ''helm-release-'' = Inr (d, s1)"
    and sv: "saveReleaseToFiles e s1 rel d = (r1, s2)"
    and pk: "package_Run e s2 d ''.'' = (r2, s3)"
    and run: "ConvertReleaseVersion e s ns rn revision = (res, s')"
  shows "d \<notin> dirs s' \<and> files s' d = None \<and>
         (\<forall>p. inside d p \<longrightarrow> p \<notin> dirs s' \<and> files s' p = None) \<and>
         ((\<forall>r c. rel = Some r \<and> Chart r = Some c \<longrightarrow> written_inside d c) \<and>
          (\<forall>q. q \<noteq> d \<and> \<not> inside d q \<longrightarrow>
             (q \<in> dirs s3 \<longleftrightarrow> q \<in> dirs s2) \<and> (files s3 q \<noteq> files s2 q \<longrightarrow> r2 = Inr q)) \<longrightarrow>
          (\<forall>p. p \<noteq> d \<and> \<not> inside d p \<longrightarrow>
             (p \<in> dirs s' \<longleftrightarrow> p \<in> dirs s) \<and>
             (files s' p \<noteq> files s p \<longrightarrow>
                r1 = Ok () \<and>
                (r2 = Inr p \<or>
                 (p = ''values.yaml'' \<and> (\<exists>cf. r2 = Inr cf \<and> res = Ok (Base cf, ''values.yaml'')))))))"
proof -
  obtain rc sf where cid: "convert_in_dir e s1 rel d ''.'' = (rc, sf)"
    by (cases "convert_in_dir e s1 rel d ''.''")
  from Convert_reached [OF cs ls dec tmp] run cid have s': "s' = RemoveAll sf d" and res: "res = rc"
    by simp_all
  have gone: "d \<notin> dirs s' \<and> files s' d = None \<and>
         (\<forall>p. inside d p \<longrightarrow> p \<notin> dirs s' \<and> files s' p = None)"
    by (simp add: s' RemoveAll_files RemoveAll_dirs)
  have frame: "(p \<in> dirs s' \<longleftrightarrow> p \<in> dirs s) \<and>
             (files s' p \<noteq> files s p \<longrightarrow>
                r1 = Ok () \<and>
                (r2 = Inr p \<or>
                 (p = ''values.yaml'' \<and> (\<exists>cf. r2 = Inr cf \<and> res = Ok (Base cf, ''values.yaml'')))))"
    if names: "\<forall>r c. rel = Some r \<and> Chart r = Some c \<longrightarrow> written_inside d c"
      and pack: "\<forall>q. q \<noteq> d \<and> \<not> inside d q \<longrightarrow>
             (q \<in> dirs s3 \<longleftrightarrow> q \<in> dirs s2) \<and> (files s3 q \<noteq> files s2 q \<longrightarrow> r2 = Inr q)"
      and out: "p \<noteq> d" "\<not> inside d p" for p
  proof -
    have d1: "p \<in> dirs s1 \<longleftrightarrow> p \<in> dirs s" using TempDir_dirs(1) [OF tmp] out(1) by simp
    have f1: "files s1 p = files s p" using TempDir_files [OF tmp] by simp
    have d2: "p \<in> dirs s2 \<longleftrightarrow> p \<in> dirs s1"
      using sv names TempDir_dirs(2) [OF tmp] out
      by (intro save_dirs [of e s1 rel d r1 s2]) (simp_all add: TempDir_dirs(1) [OF tmp] subset_insertI2)
    have f2: "files s2 p = files s1 p"
      using sv _ out(2)
    proof (rule save_frame_inside)
      fix r c assume "rel = Some r" "Chart r = Some c"
      with names show "names_inside d c" by (simp add: written_inside_names)
    qed
    have d3: "p \<in> dirs s3 \<longleftrightarrow> p \<in> dirs s2" using pack out by simp
    have f3: "files s3 p \<noteq> files s2 p \<longrightarrow> r2 = Inr p" using pack out by simp
    have df: "p \<in> dirs s' \<longleftrightarrow> p \<in> dirs sf" and ff: "files s' p = files sf p"
      using out by (simp_all add: s' RemoveAll_dirs RemoveAll_files)
    from convert_in_dir_run [OF sv pk cid]
    consider (a) "r1 \<noteq> Ok ()" "sf = s2" | (b) "r1 = Ok ()" "sf = s3"
      | (c) cf configData where "r1 = Ok ()" "r2 = Inr cf"
          "rc = Ok (Base cf, Base (Join ''.'' ''values.yaml''))"
          "WriteFile (fault e) s3 (Join ''.'' ''values.yaml'') configData = Inr sf"
      by blast
    then show ?thesis
    proof cases
      case a
      with d1 d2 f1 f2 df ff show ?thesis by simp
    next
      case b
      with d1 d2 d3 f1 f2 f3 df ff show ?thesis by simp
    next
      case c
      have dw: "dirs sf = dirs s3" using c(4) by (rule WriteFile_dirs)
      have fw: "files sf p = files s3 p" if "p \<noteq> ''values.yaml''"
        using WriteFile_files [OF c(4)] that by (simp add: Join_dot_values)
      have "p \<in> dirs s' \<longleftrightarrow> p \<in> dirs s" using d1 d2 d3 df dw by simp
      moreover have "r1 = Ok () \<and>
                (r2 = Inr p \<or>
                 (p = ''values.yaml'' \<and> (\<exists>cf. r2 = Inr cf \<and> res = Ok (Base cf, ''values.yaml''))))"
        if "files s' p \<noteq> files s p"
      proof (cases "p = ''values.yaml''")
        case True
        with c(1,2,3) res show ?thesis by (simp add: Join_dot_values)
      next
        case False
        with that fw ff f1 f2 have "files s3 p \<noteq> files s2 p" by simp
        with f3 c(1) show ?thesis by simp
      qed
      ultimately show ?thesis by simp
    qed
  qed
  from gone frame show ?thesis by blast
qed

lemma demo_written_inside: "written_inside ''/tmp/helm-release-001'' (demo_chart schema [])"
  by (simp add: written_inside_def written_names_def demo_chart_def inside_def path_defs)

text \<open>
  The concrete world with override values: after the conversion the temporary directory
  and the chart files in it are gone; elsewhere a file is as before, and so are the
  directories.
\<close>

theorem temp_dir_removed_witness:
  "''/tmp/helm-release-001'' \<notin>
     dirs (snd (ConvertReleaseVersion
       (demo_env (Inr (demo_clientset [demo_secret ''1'']))
          (Some (demo_release None [] [(''replicas'', ''2'')])) no_fault)
       demo_fs ''default'' ''demo'' 1)) \<and>
   files (snd (ConvertReleaseVersion
       (demo_env (Inr (demo_clientset [demo_secret ''1'']))
          (Some (demo_release None [] [(''replicas'', ''2'')])) no_fault)
       demo_fs ''default'' ''demo'' 1)) ''/tmp/helm-release-001/Chart.yaml'' = None \<and>
   files (snd (ConvertReleaseVersion
       (demo_env (Inr (demo_clientset [demo_secret ''1'']))
          (Some (demo_release None [] [(''replicas'', ''2'')])) no_fault)
       demo_fs ''default'' ''demo'' 1)) ''/etc/hosts'' = files demo_fs ''/etc/hosts'' \<and>
   (''/tmp'' \<in> dirs (snd (ConvertReleaseVersion
       (demo_env (Inr (demo_clientset [demo_secret ''1'']))
          (Some (demo_release None [] [(''replicas'', ''2'')])) no_fault)
       demo_fs ''default'' ''demo'' 1))) \<and>
   (''/tmp/helm-release-002'' \<notin> dirs (snd (ConvertReleaseVersion
       (demo_env (Inr (demo_clientset [demo_secret ''1'']))
          (Some (demo_release None [] [(''replicas'', ''2'')])) no_fault)
       demo_fs ''default'' ''demo'' 1)))"
proof -
  let ?rel = "Some (demo_release None [] [(''replicas'', ''2'')])"
  let ?e = "demo_env (Inr (demo_clientset [demo_secret ''1''])) ?rel no_fault"
  let ?d = "''/tmp/helm-release-001''"
  let ?s1 = "demo_fs\<lparr>dirs := insert ?d (dirs demo_fs)\<rparr>"
  let ?run = "ConvertReleaseVersion ?e demo_fs ''default'' ''demo'' 1"
  let ?sv = "saveReleaseToFiles ?e ?s1 ?rel ?d"
  let ?pk = "package_Run ?e (snd ?sv) ?d ''.''"
  have cs: "GetClientset ?e = Inr (demo_clientset [demo_secret ''1''])"
    by (simp add: demo_env_fields)
  have dec: "helmReleaseFromReleaseData ?e (secret_data (demo_secret ''1'') ''release'') = Inr ?rel"
    by (rule demo_decode)
  have tmp: "TempDir (fault ?e) (TMPDIR ?e) (rand ?e) demo_fs [] ''helm-release-'' = Inr (?d, ?s1)"
    unfolding demo_env_fields by (rule demo_tempdir) (simp add: no_fault_def)
  have sv: "?sv = (fst ?sv, snd ?sv)" by simp
  have pk: "?pk = (fst ?pk, snd ?pk)" by simp
  have run: "?run = (fst ?run, snd ?run)" by simp
  note inst = temp_dir_removed [OF cs demo_list_one dec tmp sv pk run]
  from inst have 1: "?d \<notin> dirs (snd ?run)" by (rule conjunct1)
  have "inside ?d ''/tmp/helm-release-001/Chart.yaml''" by (simp add: inside_def)
  with inst [THEN conjunct2, THEN conjunct2, THEN conjunct1]
  have 2: "files (snd ?run) ''/tmp/helm-release-001/Chart.yaml'' = None" by simp
  have n: "\<forall>r c. ?rel = Some r \<and> Chart r = Some c \<longrightarrow> written_inside ?d c"
    by (auto simp: demo_release_def demo_written_inside)
  have p: "\<forall>q. q \<noteq> ?d \<and> \<not> inside ?d q \<longrightarrow>
             (q \<in> dirs (snd ?pk) \<longleftrightarrow> q \<in> dirs (snd ?sv)) \<and>
             (files (snd ?pk) q \<noteq> files (snd ?sv) q \<longrightarrow> fst ?pk = Inr q)"
    by (simp add: demo_env_def)
  note frame = inst [THEN conjunct2, THEN conjunct2, THEN conjunct2, rule_format, OF conjI [OF n p]]
  have r2: "fst ?pk = Inr ''demo-0.1.0.tgz''" by (simp add: demo_env_def path_defs)
  have 3: "files (snd ?run) ''/etc/hosts'' = files demo_fs ''/etc/hosts''"
    using frame [of "''/etc/hosts''"] r2 by (auto simp: inside_def)
  have 4: "''/tmp'' \<in> dirs (snd ?run)"
    using frame [of "''/tmp''"] by (simp add: inside_def demo_fs_def)
  have 5: "''/tmp/helm-release-002'' \<notin> dirs (snd ?run)"
    using frame [of "''/tmp/helm-release-002''"] by (simp add: inside_def demo_fs_def)
  from 1 2 3 4 5 show ?thesis by simp
qed

text \<open>
  C8 as stated fails. A release whose chart has a file named \<^verbatim>\<open>../escaped\<close> is converted
  with success; the file is written to \<^verbatim>\<open>/tmp/escaped\<close>, outside the temporary directory
  \<^verbatim>\<open>/tmp/helm-release-001\<close>, and is still there after the call, although it is neither
  the archive nor the values file.
\<close>

theorem file_left_outside_temp_dir:
  "fst (ConvertReleaseVersion
       (demo_env (Inr (demo_clientset [demo_secret ''1'']))
          (Some (demo_release None [Some \<lparr>Name = ''../escaped'', Data = ''x''\<rparr>] [])) no_fault)
       demo_fs ''default'' ''demo'' 1) = Ok (''demo-0.1.0.tgz'', ''.'') \<and>
   ''/tmp/helm-release-001'' \<notin> dirs (snd (ConvertReleaseVersion
       (demo_env (Inr (demo_clientset [demo_secret ''1'']))
          (Some (demo_release None [Some \<lparr>Name = ''../escaped'', Data = ''x''\<rparr>] [])) no_fault)
       demo_fs ''default'' ''demo'' 1)) \<and>
   \<not> inside ''/tmp/helm-release-001'' ''/tmp/escaped'' \<and>
   files demo_fs ''/tmp/escaped'' = None \<and>
   files (snd (ConvertReleaseVersion
       (demo_env (Inr (demo_clientset [demo_secret ''1'']))
          (Some (demo_release None [Some \<lparr>Name = ''../escaped'', Data = ''x''\<rparr>] [])) no_fault)
       demo_fs ''default'' ''demo'' 1)) ''/tmp/escaped'' = Some ''x''"
proof -
  have nf: "no_fault SysTempDir = None" by (simp add: no_fault_def)
  show ?thesis
    unfolding demo_Convert [of no_fault, OF nf]
    by (simp add: run_defs demo_defs path_defs)
qed

subsection \<open>Outputs after an error\<close>

text \<open>
  C6 (as amended). Whenever \<^verbatim>\<open>ConvertReleaseVersion\<close> returns an error of a step before
  packaging (the clientset, the listing, the match count, decoding, the temporary
  directory, saving the files), and the names the save step writes stay inside the
  temporary directory, every regular file outside the temporary directory is as it was
  before the call: no archive and no values file is left. For the steps before the
  temporary directory the file system is exactly as before.
\<close>

theorem error_before_packaging_leaves_no_output:
  assumes run: "ConvertReleaseVersion e s ns rn revision = (Err err, s')"
    and stage: "\<forall>x. err \<noteq> Wrap x ''package client run'' \<and> err \<noteq> Wrap x ''marshal config data'' \<and>
                    err \<noteq> Wrap x ''write values file''"
    and names: "\<forall>cs sec r c d s1.
       GetClientset e = Inr cs \<and>
       cs ns [(''owner'', ''helm''), (''name'', rn), (''version'', Itoa revision)] = Inr [sec] \<and>
       helmReleaseFromReleaseData e (secret_data sec ''release'') = Inr (Some r) \<and>
       Chart r = Some c \<and>
       TempDir (fault e) (TMPDIR e) (rand e) s [] ''helm-release-'' = Inr (d, s1) \<longrightarrow>
       names_inside d c"
  shows "(\<forall>p. (\<forall>d s1. TempDir (fault e) (TMPDIR e) (rand e) s [] ''helm-release-'' = Inr (d, s1) \<longrightarrow>
                   p \<noteq> d \<and> \<not> inside d p) \<longrightarrow>
              files s' p = files s p) \<and>
         ((\<forall>x. err \<noteq> Wrap x ''save release to files'') \<longrightarrow> s' = s)"
proof (cases "GetClientset e")
  case (Inl x)
  with run show ?thesis by (simp add: ConvertReleaseVersion_def)
next
  case cs: (Inr cs)
  show ?thesis
  proof (cases "cs ns [(''owner'', ''helm''), (''name'', rn), (''version'', Itoa revision)]")
    case (Inl x)
    with run cs show ?thesis by (simp add: ConvertReleaseVersion_def)
  next
    case ls: (Inr items)
    show ?thesis
    proof (cases "length items = 1")
      case False
      with run cs ls show ?thesis by (simp add: ConvertReleaseVersion_def)
    next
      case True
      then obtain sec where items: "items = [sec]"
        by (cases items) auto
      note ls = ls [unfolded items]
      show ?thesis
      proof (cases "helmReleaseFromReleaseData e (secret_data sec ''release'')")
        case (Inl x)
        with run cs ls show ?thesis by (simp add: ConvertReleaseVersion_def)
      next
        case dec: (Inr rel)
        show ?thesis
        proof (cases "TempDir (fault e) (TMPDIR e) (rand e) s [] ''helm-release-''")
          case (Inl x)
          with run cs ls dec show ?thesis by (simp add: ConvertReleaseVersion_def)
        next
          case (Inr ds)
          then obtain d s1 where
            tmp: "TempDir (fault e) (TMPDIR e) (rand e) s [] ''helm-release-'' = Inr (d, s1)"
            by (cases ds) auto
          obtain r2 s2 where cid: "convert_in_dir e s1 rel d ''.'' = (r2, s2)"
            by (cases "convert_in_dir e s1 rel d ''.''")
          from Convert_reached [OF cs ls dec tmp] run cid
          have r2: "r2 = Err err" and s': "s' = RemoveAll s2 d" by simp_all
          have st: "err \<noteq> Wrap x ''package client run''" "err \<noteq> Wrap x ''marshal config data''"
            "err \<noteq> Wrap x ''write values file''" for x
            using stage by simp_all
          from convert_in_dir_Err [OF cid [unfolded r2]] obtain x where
            err: "err = Wrap x ''save release to files''"
            and sv: "saveReleaseToFiles e s1 rel d = (Err x, s2)"
            using st by auto
          have ni: "names_inside d c" if "rel = Some r" "Chart r = Some c" for r c
            using names [rule_format, of cs sec r c d s1] cs ls dec tmp that by simp
          have fr: "files s' p = files s p" if "p \<noteq> d" "\<not> inside d p" for p
          proof -
            have "files s2 p = files s1 p"
              using sv ni that(2) by (rule save_frame_inside)
            with that show ?thesis by (simp add: s' RemoveAll_files TempDir_files [OF tmp])
          qed
          show ?thesis
          proof (intro conjI allI impI)
            fix p
            assume "\<forall>d s1. TempDir (fault e) (TMPDIR e) (rand e) s [] ''helm-release-'' = Inr (d, s1) \<longrightarrow>
                   p \<noteq> d \<and> \<not> inside d p"
            with tmp have "p \<noteq> d" "\<not> inside d p" by simp_all
            then show "files s' p = files s p" by (rule fr)
          next
            assume "\<forall>x. err \<noteq> Wrap x ''save release to files''"
            with err show "s' = s" by simp
          qed
        qed
      qed
    qed
  qed
qed

text \<open>
  Writing \<^verbatim>\<open>Chart.yaml\<close> into the temporary directory is refused: the conversion fails in
  the save step, and neither an archive nor a values file exists afterwards.
\<close>

theorem error_before_packaging_leaves_no_output_witness:
  "fst (ConvertReleaseVersion
       (demo_env (Inr (demo_clientset [demo_secret ''1'']))
          (Some (demo_release None [] [(''replicas'', ''2'')]))
          (deny_write ''/tmp/helm-release-001/Chart.yaml''))
       demo_fs ''default'' ''demo'' 1) =
     Err (Wrap (Wrap (New ''permission denied'') ''write file /tmp/helm-release-001/Chart.yaml'')
            ''save release to files'') \<and>
   files (snd (ConvertReleaseVersion
       (demo_env (Inr (demo_clientset [demo_secret ''1'']))
          (Some (demo_release None [] [(''replicas'', ''2'')]))
          (deny_write ''/tmp/helm-release-001/Chart.yaml''))
       demo_fs ''default'' ''demo'' 1)) ''demo-0.1.0.tgz'' = None \<and>
   files (snd (ConvertReleaseVersion
       (demo_env (Inr (demo_clientset [demo_secret ''1'']))
          (Some (demo_release None [] [(''replicas'', ''2'')]))
          (deny_write ''/tmp/helm-release-001/Chart.yaml''))
       demo_fs ''default'' ''demo'' 1)) ''values.yaml'' = None"
proof -
  let ?rel = "Some (demo_release None [] [(''replicas'', ''2'')])"
  let ?flt = "deny_write ''/tmp/helm-release-001/Chart.yaml''"
  let ?e = "demo_env (Inr (demo_clientset [demo_secret ''1''])) ?rel ?flt"
  let ?d = "''/tmp/helm-release-001''"
  let ?run = "ConvertReleaseVersion ?e demo_fs ''default'' ''demo'' 1"
  let ?err = "Wrap (Wrap (New ''permission denied'') ''write file /tmp/helm-release-001/Chart.yaml'')
            ''save release to files''"
  have nf: "?flt SysTempDir = None" by (simp add: deny_write_def)
  have 1: "fst ?run = Err ?err"
    unfolding demo_Convert [of ?flt, OF nf]
    by (simp add: run_defs demo_defs path_defs deny_write_def)
  then have run: "?run = (Err ?err, snd ?run)" by (simp add: prod_eq_iff)
  have stage: "\<forall>x. ?err \<noteq> Wrap x ''package client run'' \<and> ?err \<noteq> Wrap x ''marshal config data'' \<and>
                    ?err \<noteq> Wrap x ''write values file''"
    by simp
  have tmp: "TempDir (fault ?e) (TMPDIR ?e) (rand ?e) demo_fs [] ''helm-release-'' =
             Inr (?d, demo_fs\<lparr>dirs := insert ?d (dirs demo_fs)\<rparr>)"
    unfolding demo_env_fields by (rule demo_tempdir) (rule nf)
  have names: "\<forall>cs sec r c d s1.
       GetClientset ?e = Inr cs \<and>
       cs ''default'' [(''owner'', ''helm''), (''name'', ''demo''), (''version'', Itoa 1)] = Inr [sec] \<and>
       helmReleaseFromReleaseData ?e (secret_data sec ''release'') = Inr (Some r) \<and>
       Chart r = Some c \<and>
       TempDir (fault ?e) (TMPDIR ?e) (rand ?e) demo_fs [] ''helm-release-'' = Inr (d, s1) \<longrightarrow>
       names_inside d c"
    unfolding tmp
    by (auto simp: demo_env_fields demo_list_one demo_decode demo_release_def demo_names_inside)
  note inst = error_before_packaging_leaves_no_output [OF run stage names, THEN conjunct1,
      unfolded tmp]
  have 2: "files (snd ?run) ''demo-0.1.0.tgz'' = files demo_fs ''demo-0.1.0.tgz''"
    by (rule inst [rule_format]) (simp add: inside_def)
  have 3: "files (snd ?run) ''values.yaml'' = files demo_fs ''values.yaml''"
    by (rule inst [rule_format]) (simp add: inside_def)
  from 1 2 3 show ?thesis by (simp add: demo_fs_def)
qed

text \<open>
  C6 as stated fails. Packaging succeeds and writes the archive; then writing
  \<^verbatim>\<open>values.yaml\<close> is refused. The conversion returns the error, and the archive, which did
  not exist before, is left in the working directory.
\<close>

theorem archive_left_after_values_error:
  "fst (ConvertReleaseVersion
       (demo_env (Inr (demo_clientset [demo_secret ''1'']))
          (Some (demo_release None [] [(''replicas'', ''2'')])) (deny_write ''values.yaml''))
       demo_fs ''default'' ''demo'' 1) =
     Err (Wrap (New ''permission denied'') ''write values file'') \<and>
   files demo_fs ''demo-0.1.0.tgz'' = None \<and>
   files (snd (ConvertReleaseVersion
       (demo_env (Inr (demo_clientset [demo_secret ''1'']))
          (Some (demo_release None [] [(''replicas'', ''2'')])) (deny_write ''values.yaml''))
       demo_fs ''default'' ''demo'' 1)) ''demo-0.1.0.tgz'' =
     Some ''archive of /tmp/helm-release-001''"
proof -
  have nf: "deny_write ''values.yaml'' SysTempDir = None" by (simp add: deny_write_def)
  show ?thesis
    unfolding demo_Convert [of "deny_write ''values.yaml''", OF nf]
    by (simp add: run_defs demo_defs path_defs deny_write_def)
qed

subsection \<open>Failures of external calls\<close>

lemma Convert_early_errors:
  "GetClientset e = Inl x \<Longrightarrow>
     ConvertReleaseVersion e s ns rn revision = (Err (Wrap x ''get clientset''), s)"
  "GetClientset e = Inr cs \<Longrightarrow>
   cs ns [(''owner'', ''helm''), (''name'', rn), (''version'', Itoa revision)] = Inl x \<Longrightarrow>
     ConvertReleaseVersion e s ns rn revision = (Err (Wrap x ''list secrets''), s)"
  "GetClientset e = Inr cs \<Longrightarrow>
   cs ns [(''owner'', ''helm''), (''name'', rn), (''version'', Itoa revision)] = Inr [sec] \<Longrightarrow>
   helmReleaseFromReleaseData e (secret_data sec ''release'') = Inl x \<Longrightarrow>
     ConvertReleaseVersion e s ns rn revision =
       (Err (Wrap x ''parse release info from secret''), s)"
  "GetClientset e = Inr cs \<Longrightarrow>
   cs ns [(''owner'', ''helm''), (''name'', rn), (''version'', Itoa revision)] = Inr [sec] \<Longrightarrow>
   helmReleaseFromReleaseData e (secret_data sec ''release'') = Inr rel \<Longrightarrow>
   TempDir (fault e) (TMPDIR e) (rand e) s [] ''helm-release-'' = Inl x \<Longrightarrow>
     ConvertReleaseVersion e s ns rn revision = (Err (Wrap x ''create temp dir''), s)"
  by (simp_all add: ConvertReleaseVersion_def)

lemma convert_in_dir_errors:
  "saveReleaseToFiles e s1 rel d = (Err x, s2) \<Longrightarrow>
     fst (convert_in_dir e s1 rel d dst) = Err (Wrap x ''save release to files'')"
  "saveReleaseToFiles e s1 rel d = (Ok (), s2) \<Longrightarrow> package_Run e s2 d dst = (Inl x, s3) \<Longrightarrow>
     fst (convert_in_dir e s1 rel d dst) = Err (Wrap x ''package client run'')"
  "saveReleaseToFiles e s1 rel d = (Ok (), s2) \<Longrightarrow> package_Run e s2 d dst = (Inr cf, s3) \<Longrightarrow>
   rel = Some r \<Longrightarrow> Config r \<noteq> [] \<Longrightarrow> yaml_Marshal_values e (Config r) = Inl x \<Longrightarrow>
     fst (convert_in_dir e s1 rel d dst) = Err (Wrap x ''marshal config data'')"
  "saveReleaseToFiles e s1 rel d = (Ok (), s2) \<Longrightarrow> package_Run e s2 d dst = (Inr cf, s3) \<Longrightarrow>
   rel = Some r \<Longrightarrow> Config r \<noteq> [] \<Longrightarrow> yaml_Marshal_values e (Config r) = Inr configData \<Longrightarrow>
   WriteFile (fault e) s3 (Join dst ''values.yaml'') configData = Inl x \<Longrightarrow>
     fst (convert_in_dir e s1 rel d dst) = Err (Wrap x ''write values file'')"
  by (simp_all add: convert_in_dir_def)

lemma RunE_errors:
  "args \<noteq> [] \<Longrightarrow> flag = [] \<Longrightarrow> FindLatestReleaseVersion e ns (args ! 0) = Inl err \<Longrightarrow>
     fst (RunE e s args ns flag) = Err (Wrap err ''find latest revision'')"
  "args \<noteq> [] \<Longrightarrow>
   (flag \<noteq> [] \<and> Atoi flag = Inr rv) \<or> (flag = [] \<and> FindLatestReleaseVersion e ns (args ! 0) = Inr rv) \<Longrightarrow>
   fst (ConvertReleaseVersion e s ns (args ! 0) rv) = Err err \<Longrightarrow>
     fst (RunE e s args ns flag) = Err (Wrap err ''convert release'')"
  by (auto simp: RunE_def split: prod.splits)

lemma exit_status:
  "fst (RunE e s args ns flag) = Err topErr \<Longrightarrow> fst (InitAndExecute e s args ns flag) = 1"
  by (auto simp: InitAndExecute_def split: prod.splits outcome.splits)

lemma FindLatest_error_wrapped:
  "FindLatestReleaseVersion e ns rn = Inl err \<Longrightarrow> \<exists>x c. err = Wrap x c"
  by (auto simp: FindLatestReleaseVersion_def split: sum.splits)

lemma convert_in_dir_error_wrapped:
  "convert_in_dir e s rel d dst = (Err err, s') \<Longrightarrow> \<exists>x c. err = Wrap x c"
  using convert_in_dir_Err [of e s rel d dst err s'] by auto

lemma Convert_error_wrapped:
  assumes "ConvertReleaseVersion e s ns rn revision = (Err err, s')"
  shows "(\<exists>x c. err = Wrap x c) \<or>
         (\<exists>n. err = New (''found '' @ Itoa (int n) @ '' matching releases''))"
  using assms
  by (auto simp: ConvertReleaseVersion_def split: sum.splits if_splits prod.splits
      dest: convert_in_dir_error_wrapped)

lemma decode_failures:
  "gunzip e (NewDecoder d) = HeaderError x \<Longrightarrow>
     helmReleaseFromReleaseData e d = Inl (Wrap x ''create gzip reader'')"
  "gunzip e (NewDecoder d) = ReadError x \<Longrightarrow>
     helmReleaseFromReleaseData e d = Inl (Wrap x ''read from gzip reader'')"
  "gunzip e (NewDecoder d) = Inflated js \<Longrightarrow> json_Unmarshal e js = Inl x \<Longrightarrow>
     helmReleaseFromReleaseData e d = Inl (Wrap x ''unmarshal release data'')"
  "gunzip e (NewDecoder d) = Inflated js \<Longrightarrow> json_Unmarshal e js = Inr rel \<Longrightarrow>
     helmReleaseFromReleaseData e d = Inr rel"
  by (simp_all add: helmReleaseFromReleaseData_def)

lemma write_files_append:
  "write_files flt s d pre = (Ok (), sk) \<Longrightarrow>
   write_files flt s d (pre @ rest) = write_files flt sk d rest"
  by (induction pre arbitrary: s) (auto split: sum.splits)

lemma write_files_failures:
  assumes "write_files flt s d pre = (Ok (), sk)"
  shows "MkdirAll flt sk (Dir (Join d (Name cf))) = Inl x \<Longrightarrow>
           fst (write_files flt s d (pre @ cf # post)) =
             Err (Wrap x (''create dir '' @ Dir (Join d (Name cf))))"
    and "MkdirAll flt sk (Dir (Join d (Name cf))) = Inr sk' \<Longrightarrow>
         WriteFile flt sk' (Join d (Name cf)) (Data cf) = Inl x \<Longrightarrow>
           fst (write_files flt s d (pre @ cf # post)) =
             Err (Wrap x (''write file '' @ Join d (Name cf)))"
  by (simp_all add: write_files_append [OF assms])

lemma save_failures:
  assumes "Chart r = Some c" and "those (Files c) = Some fl" and "those (Templates c) = Some tpl"
  shows "yaml_Marshal_metadata e (Metadata c) = Inl x \<Longrightarrow>
           fst (saveReleaseToFiles e s (Some r) d) = Err (Wrap x ''marshal chart metadata'')"
    and "yaml_Marshal_metadata e (Metadata c) = Inr md \<Longrightarrow>
         yaml_Marshal_values e (Values c) = Inl x \<Longrightarrow>
           fst (saveReleaseToFiles e s (Some r) d) = Err (Wrap x ''marshal chart values'')"
    and "yaml_Marshal_metadata e (Metadata c) = Inr md \<Longrightarrow>
         yaml_Marshal_values e (Values c) = Inr vs \<Longrightarrow>
           saveReleaseToFiles e s (Some r) d =
             write_files (fault e) s d
               (fl @ tpl @
                [\<lparr>Name = ''Chart.yaml'', Data = md\<rparr>, \<lparr>Name = ''values.yaml'', Data = vs\<rparr>,
                 \<lparr>Name = ''values.schema.json'',
                  Data = (case Schema c of None \<Rightarrow> ''null''
                          | Some bs \<Rightarrow> CHR 0x22 # EncodeToString bs @ [CHR 0x22])\<rparr>])"
  using assms by (simp_all add: saveReleaseToFiles_def json_Marshal_bytes_def)

text \<open>
  C7 (as amended). Every error that \<^verbatim>\<open>FindLatestReleaseVersion\<close> or \<^verbatim>\<open>ConvertReleaseVersion\<close>
  returns is an error inside a context message, except the report of the match count.
  Each failure of an external call makes the function return that very error inside the
  context message of the call: the clientset and the listing in both functions; in
  \<^verbatim>\<open>ConvertReleaseVersion\<close> also the gzip header, the gzip data (which is where an error of
  the base64 reader arrives), the JSON decoder, the temporary directory, the YAML
  encoder on the chart's metadata and on its values, \<^verbatim>\<open>MkdirAll\<close> and \<^verbatim>\<open>WriteFile\<close> for
  whichever chart file is the first to fail, packaging, the YAML encoder on the override
  values and writing the values file. The failures inside
  \<^verbatim>\<open>helmReleaseFromReleaseData\<close> and \<^verbatim>\<open>saveReleaseToFiles\<close> are wrapped there and once more by
  \<^verbatim>\<open>ConvertReleaseVersion\<close>. The command wraps the error it gets once more, with
  \<^verbatim>\<open>find latest revision\<close> or \<^verbatim>\<open>convert release\<close>, so the cause is kept; and whenever the
  command returns an error the process exits with status 1.
\<close>

theorem failures_wrapped_and_surfaced:
  "(\<forall>err. FindLatestReleaseVersion e ns rn = Inl err \<longrightarrow> (\<exists>x c. err = Wrap x c)) \<and>
   (\<forall>err s'. ConvertReleaseVersion e s ns rn revision = (Err err, s') \<longrightarrow>
      (\<exists>x c. err = Wrap x c) \<or>
      (\<exists>n. err = New (''found '' @ Itoa (int n) @ '' matching releases''))) \<and>
   (\<forall>x. GetClientset e = Inl x \<longrightarrow>
      FindLatestReleaseVersion e ns rn = Inl (Wrap x ''get clientset'') \<and>
      fst (ConvertReleaseVersion e s ns rn revision) = Err (Wrap x ''get clientset'')) \<and>
   (\<forall>cs x. GetClientset e = Inr cs \<and> cs ns [(''owner'', ''helm''), (''name'', rn)] = Inl x \<longrightarrow>
      FindLatestReleaseVersion e ns rn = Inl (Wrap x ''list secrets'')) \<and>
   (\<forall>cs x. GetClientset e = Inr cs \<and> cs ns [(''owner'', ''helm''), (''name'', rn), (''version'', Itoa revision)] = Inl x \<longrightarrow>
      fst (ConvertReleaseVersion e s ns rn revision) = Err (Wrap x ''list secrets'')) \<and>
   (\<forall>cs sec.
      GetClientset e = Inr cs \<and> cs ns [(''owner'', ''helm''), (''name'', rn), (''version'', Itoa revision)] = Inr [sec] \<longrightarrow>
      (\<forall>x. gunzip e (NewDecoder (secret_data sec ''release'')) = HeaderError x \<longrightarrow>
         fst (ConvertReleaseVersion e s ns rn revision) = Err (Wrap (Wrap x ''create gzip reader'') ''parse release info from secret'')) \<and>
      (\<forall>x. gunzip e (NewDecoder (secret_data sec ''release'')) = ReadError x \<longrightarrow>
         fst (ConvertReleaseVersion e s ns rn revision) = Err (Wrap (Wrap x ''read from gzip reader'') ''parse release info from secret'')) \<and>
      (\<forall>js. gunzip e (NewDecoder (secret_data sec ''release'')) = Inflated js \<longrightarrow>
         (\<forall>x. json_Unmarshal e js = Inl x \<longrightarrow>
            fst (ConvertReleaseVersion e s ns rn revision) = Err (Wrap (Wrap x ''unmarshal release data'') ''parse release info from secret'')) \<and>
         (\<forall>rel. json_Unmarshal e js = Inr rel \<longrightarrow>
            (\<forall>x. TempDir (fault e) (TMPDIR e) (rand e) s [] ''helm-release-'' = Inl x \<longrightarrow>
               fst (ConvertReleaseVersion e s ns rn revision) = Err (Wrap x ''create temp dir'')) \<and>
            (\<forall>d s1. TempDir (fault e) (TMPDIR e) (rand e) s [] ''helm-release-'' = Inr (d, s1) \<longrightarrow>
               (\<forall>r c fl tpl.
                  rel = Some r \<and> Chart r = Some c \<and> those (Files c) = Some fl \<and> those (Templates c) = Some tpl \<longrightarrow>
                  (\<forall>x. yaml_Marshal_metadata e (Metadata c) = Inl x \<longrightarrow>
                     fst (ConvertReleaseVersion e s ns rn revision) = Err (Wrap (Wrap x ''marshal chart metadata'') ''save release to files'')) \<and>
                  (\<forall>md. yaml_Marshal_metadata e (Metadata c) = Inr md \<longrightarrow>
                     (\<forall>x. yaml_Marshal_values e (Values c) = Inl x \<longrightarrow>
                        fst (ConvertReleaseVersion e s ns rn revision) = Err (Wrap (Wrap x ''marshal chart values'') ''save release to files'')) \<and>
                     (\<forall>vs pre cf post sk.
                        yaml_Marshal_values e (Values c) = Inr vs \<and>
                        fl @ tpl @ [\<lparr>Name = ''Chart.yaml'', Data = md\<rparr>, \<lparr>Name = ''values.yaml'', Data = vs\<rparr>, \<lparr>Name = ''values.schema.json'', Data = (case Schema c of None \<Rightarrow> ''null'' | Some bs \<Rightarrow> CHR 0x22 # EncodeToString bs @ [CHR 0x22])\<rparr>] = pre @ cf # post \<and>
                        write_files (fault e) s1 d pre = (Ok (), sk) \<longrightarrow>
                        (\<forall>x. MkdirAll (fault e) sk (Dir (Join d (Name cf))) = Inl x \<longrightarrow>
                           fst (ConvertReleaseVersion e s ns rn revision) =
                             Err (Wrap (Wrap x (''create dir '' @ Dir (Join d (Name cf)))) ''save release to files'')) \<and>
                        (\<forall>sk' x.
                           MkdirAll (fault e) sk (Dir (Join d (Name cf))) = Inr sk' \<and>
                           WriteFile (fault e) sk' (Join d (Name cf)) (Data cf) = Inl x \<longrightarrow>
                           fst (ConvertReleaseVersion e s ns rn revision) =
                             Err (Wrap (Wrap x (''write file '' @ Join d (Name cf))) ''save release to files''))))) \<and>
               (\<forall>s2. saveReleaseToFiles e s1 rel d = (Ok (), s2) \<longrightarrow>
                  (\<forall>x s3. package_Run e s2 d ''.'' = (Inl x, s3) \<longrightarrow>
                     fst (ConvertReleaseVersion e s ns rn revision) = Err (Wrap x ''package client run'')) \<and>
                  (\<forall>cf s3 r. package_Run e s2 d ''.'' = (Inr cf, s3) \<and> rel = Some r \<and> Config r \<noteq> [] \<longrightarrow>
                     (\<forall>x. yaml_Marshal_values e (Config r) = Inl x \<longrightarrow>
                        fst (ConvertReleaseVersion e s ns rn revision) = Err (Wrap x ''marshal config data'')) \<and>
                     (\<forall>configData x.
                        yaml_Marshal_values e (Config r) = Inr configData \<and>
                        WriteFile (fault e) s3 (Join ''.'' ''values.yaml'') configData = Inl x \<longrightarrow>
                        fst (ConvertReleaseVersion e s ns rn revision) = Err (Wrap x ''write values file'')))))))) \<and>
   (\<forall>args flag err.
      args \<noteq> [] \<and> flag = [] \<and> FindLatestReleaseVersion e ns (args ! 0) = Inl err \<longrightarrow>
      fst (RunE e s args ns flag) = Err (Wrap err ''find latest revision'') \<and>
      Cause (Wrap err ''find latest revision'') = Cause err) \<and>
   (\<forall>args flag rv err.
      args \<noteq> [] \<and>
      ((flag \<noteq> [] \<and> Atoi flag = Inr rv) \<or>
       (flag = [] \<and> FindLatestReleaseVersion e ns (args ! 0) = Inr rv)) \<and>
      fst (ConvertReleaseVersion e s ns (args ! 0) rv) = Err err \<longrightarrow>
      fst (RunE e s args ns flag) = Err (Wrap err ''convert release'') \<and>
      Cause (Wrap err ''convert release'') = Cause err) \<and>
   (\<forall>args flag topErr.
      fst (RunE e s args ns flag) = Err topErr \<longrightarrow> fst (InitAndExecute e s args ns flag) = 1)"
proof -
  have z1: "(\<forall>err. FindLatestReleaseVersion e ns rn = Inl err \<longrightarrow> (\<exists>x c. err = Wrap x c))"
    using FindLatest_error_wrapped by blast
  have z2: "(\<forall>err s'. ConvertReleaseVersion e s ns rn revision = (Err err, s') \<longrightarrow>
      (\<exists>x c. err = Wrap x c) \<or>
      (\<exists>n. err = New (''found '' @ Itoa (int n) @ '' matching releases'')))"
    using Convert_error_wrapped by blast
  have a: "(\<forall>x. GetClientset e = Inl x \<longrightarrow>
      FindLatestReleaseVersion e ns rn = Inl (Wrap x ''get clientset'') \<and>
      fst (ConvertReleaseVersion e s ns rn revision) = Err (Wrap x ''get clientset''))"
    by (simp add: FindLatestReleaseVersion_def Convert_early_errors(1))
  have b: "(\<forall>cs x. GetClientset e = Inr cs \<and> cs ns [(''owner'', ''helm''), (''name'', rn)] = Inl x \<longrightarrow>
      FindLatestReleaseVersion e ns rn = Inl (Wrap x ''list secrets''))"
    by (simp add: FindLatestReleaseVersion_def)
  have c: "(\<forall>cs x. GetClientset e = Inr cs \<and> cs ns [(''owner'', ''helm''), (''name'', rn), (''version'', Itoa revision)] = Inl x \<longrightarrow>
      fst (ConvertReleaseVersion e s ns rn revision) = Err (Wrap x ''list secrets''))"
    by (simp add: Convert_early_errors(2))
  have d: "(\<forall>cs sec.
      GetClientset e = Inr cs \<and> cs ns [(''owner'', ''helm''), (''name'', rn), (''version'', Itoa revision)] = Inr [sec] \<longrightarrow>
      (\<forall>x. gunzip e (NewDecoder (secret_data sec ''release'')) = HeaderError x \<longrightarrow>
         fst (ConvertReleaseVersion e s ns rn revision) = Err (Wrap (Wrap x ''create gzip reader'') ''parse release info from secret'')) \<and>
      (\<forall>x. gunzip e (NewDecoder (secret_data sec ''release'')) = ReadError x \<longrightarrow>
         fst (ConvertReleaseVersion e s ns rn revision) = Err (Wrap (Wrap x ''read from gzip reader'') ''parse release info from secret'')) \<and>
      (\<forall>js. gunzip e (NewDecoder (secret_data sec ''release'')) = Inflated js \<longrightarrow>
         (\<forall>x. json_Unmarshal e js = Inl x \<longrightarrow>
            fst (ConvertReleaseVersion e s ns rn revision) = Err (Wrap (Wrap x ''unmarshal release data'') ''parse release info from secret'')) \<and>
         (\<forall>rel. json_Unmarshal e js = Inr rel \<longrightarrow>
            (\<forall>x. TempDir (fault e) (TMPDIR e) (rand e) s [] ''helm-release-'' = Inl x \<longrightarrow>
               fst (ConvertReleaseVersion e s ns rn revision) = Err (Wrap x ''create temp dir'')) \<and>
            (\<forall>d s1. TempDir (fault e) (TMPDIR e) (rand e) s [] ''helm-release-'' = Inr (d, s1) \<longrightarrow>
               (\<forall>r c fl tpl.
                  rel = Some r \<and> Chart r = Some c \<and> those (Files c) = Some fl \<and> those (Templates c) = Some tpl \<longrightarrow>
                  (\<forall>x. yaml_Marshal_metadata e (Metadata c) = Inl x \<longrightarrow>
                     fst (ConvertReleaseVersion e s ns rn revision) = Err (Wrap (Wrap x ''marshal chart metadata'') ''save release to files'')) \<and>
                  (\<forall>md. yaml_Marshal_metadata e (Metadata c) = Inr md \<longrightarrow>
                     (\<forall>x. yaml_Marshal_values e (Values c) = Inl x \<longrightarrow>
                        fst (ConvertReleaseVersion e s ns rn revision) = Err (Wrap (Wrap x ''marshal chart values'') ''save release to files'')) \<and>
                     (\<forall>vs pre cf post sk.
                        yaml_Marshal_values e (Values c) = Inr vs \<and>
                        fl @ tpl @ [\<lparr>Name = ''Chart.yaml'', Data = md\<rparr>, \<lparr>Name = ''values.yaml'', Data = vs\<rparr>, \<lparr>Name = ''values.schema.json'', Data = (case Schema c of None \<Rightarrow> ''null'' | Some bs \<Rightarrow> CHR 0x22 # EncodeToString bs @ [CHR 0x22])\<rparr>] = pre @ cf # post \<and>
                        write_files (fault e) s1 d pre = (Ok (), sk) \<longrightarrow>
                        (\<forall>x. MkdirAll (fault e) sk (Dir (Join d (Name cf))) = Inl x \<longrightarrow>
                           fst (ConvertReleaseVersion e s ns rn revision) =
                             Err (Wrap (Wrap x (''create dir '' @ Dir (Join d (Name cf)))) ''save release to files'')) \<and>
                        (\<forall>sk' x.
                           MkdirAll (fault e) sk (Dir (Join d (Name cf))) = Inr sk' \<and>
                           WriteFile (fault e) sk' (Join d (Name cf)) (Data cf) = Inl x \<longrightarrow>
                           fst (ConvertReleaseVersion e s ns rn revision) =
                             Err (Wrap (Wrap x (''write file '' @ Join d (Name cf))) ''save release to files''))))) \<and>
               (\<forall>s2. saveReleaseToFiles e s1 rel d = (Ok (), s2) \<longrightarrow>
                  (\<forall>x s3. package_Run e s2 d ''.'' = (Inl x, s3) \<longrightarrow>
                     fst (ConvertReleaseVersion e s ns rn revision) = Err (Wrap x ''package client run'')) \<and>
                  (\<forall>cf s3 r. package_Run e s2 d ''.'' = (Inr cf, s3) \<and> rel = Some r \<and> Config r \<noteq> [] \<longrightarrow>
                     (\<forall>x. yaml_Marshal_values e (Config r) = Inl x \<longrightarrow>
                        fst (ConvertReleaseVersion e s ns rn revision) = Err (Wrap x ''marshal config data'')) \<and>
                     (\<forall>configData x.
                        yaml_Marshal_values e (Config r) = Inr configData \<and>
                        WriteFile (fault e) s3 (Join ''.'' ''values.yaml'') configData = Inl x \<longrightarrow>
                        fst (ConvertReleaseVersion e s ns rn revision) = Err (Wrap x ''write values file''))))))))"
  proof (intro allI impI conjI; (elim conjE)?)
    fix cs sec x
    assume cs: "GetClientset e = Inr cs"
      and ls: "cs ns [(''owner'', ''helm''), (''name'', rn), (''version'', Itoa revision)] = Inr [sec]"
      and gz: "gunzip e (NewDecoder (secret_data sec ''release'')) = HeaderError x"
    show "fst (ConvertReleaseVersion e s ns rn revision) = Err (Wrap (Wrap x ''create gzip reader'') ''parse release info from secret'')"
      using Convert_early_errors(3) [OF cs ls decode_failures(1) [OF gz]] by simp
  next
    fix cs sec x
    assume cs: "GetClientset e = Inr cs"
      and ls: "cs ns [(''owner'', ''helm''), (''name'', rn), (''version'', Itoa revision)] = Inr [sec]"
      and gz: "gunzip e (NewDecoder (secret_data sec ''release'')) = ReadError x"
    show "fst (ConvertReleaseVersion e s ns rn revision) = Err (Wrap (Wrap x ''read from gzip reader'') ''parse release info from secret'')"
      using Convert_early_errors(3) [OF cs ls decode_failures(2) [OF gz]] by simp
  next
    fix cs sec js x
    assume cs: "GetClientset e = Inr cs"
      and ls: "cs ns [(''owner'', ''helm''), (''name'', rn), (''version'', Itoa revision)] = Inr [sec]"
      and gz: "gunzip e (NewDecoder (secret_data sec ''release'')) = Inflated js"
      and js: "json_Unmarshal e js = Inl x"
    show "fst (ConvertReleaseVersion e s ns rn revision) = Err (Wrap (Wrap x ''unmarshal release data'') ''parse release info from secret'')"
      using Convert_early_errors(3) [OF cs ls decode_failures(3) [OF gz js]] by simp
  next
    fix cs sec js rel x
    assume cs: "GetClientset e = Inr cs"
      and ls: "cs ns [(''owner'', ''helm''), (''name'', rn), (''version'', Itoa revision)] = Inr [sec]"
      and gz: "gunzip e (NewDecoder (secret_data sec ''release'')) = Inflated js"
      and js: "json_Unmarshal e js = Inr rel"
      and tmp: "TempDir (fault e) (TMPDIR e) (rand e) s [] ''helm-release-'' = Inl x"
    show "fst (ConvertReleaseVersion e s ns rn revision) = Err (Wrap x ''create temp dir'')"
      using Convert_early_errors(4) [OF cs ls decode_failures(4) [OF gz js] tmp] by simp
  next
    fix cs sec js rel d s1 r c fl tpl x
    assume cs: "GetClientset e = Inr cs"
      and ls: "cs ns [(''owner'', ''helm''), (''name'', rn), (''version'', Itoa revision)] = Inr [sec]"
      and gz: "gunzip e (NewDecoder (secret_data sec ''release'')) = Inflated js"
      and js: "json_Unmarshal e js = Inr rel"
      and tmp: "TempDir (fault e) (TMPDIR e) (rand e) s [] ''helm-release-'' = Inr (d, s1)"
      and rel: "rel = Some r"
      and c: "Chart r = Some c"
      and fl: "those (Files c) = Some fl"
      and tpl: "those (Templates c) = Some tpl"
      and ym: "yaml_Marshal_metadata e (Metadata c) = Inl x"
    have reach: "fst (ConvertReleaseVersion e s ns rn revision) = fst (convert_in_dir e s1 rel d ''.'')"
      using Convert_reached [OF cs ls decode_failures(4) [OF gz js] tmp] by simp
    have "fst (saveReleaseToFiles e s1 rel d) = Err (Wrap x ''marshal chart metadata'')"
      unfolding rel by (rule save_failures(1) [OF c fl tpl ym])
    then have "saveReleaseToFiles e s1 rel d = (Err (Wrap x ''marshal chart metadata''), snd (saveReleaseToFiles e s1 rel d))"
      by (simp add: prod_eq_iff)
    then have "fst (convert_in_dir e s1 rel d ''.'') = Err (Wrap (Wrap x ''marshal chart metadata'') ''save release to files'')"
      by (rule convert_in_dir_errors(1))
    then show "fst (ConvertReleaseVersion e s ns rn revision) = Err (Wrap (Wrap x ''marshal chart metadata'') ''save release to files'')"
      using reach by simp
  next
    fix cs sec js rel d s1 r c fl tpl md x
    assume cs: "GetClientset e = Inr cs"
      and ls: "cs ns [(''owner'', ''helm''), (''name'', rn), (''version'', Itoa revision)] = Inr [sec]"
      and gz: "gunzip e (NewDecoder (secret_data sec ''release'')) = Inflated js"
      and js: "json_Unmarshal e js = Inr rel"
      and tmp: "TempDir (fault e) (TMPDIR e) (rand e) s [] ''helm-release-'' = Inr (d, s1)"
      and rel: "rel = Some r"
      and c: "Chart r = Some c"
      and fl: "those (Files c) = Some fl"
      and tpl: "those (Templates c) = Some tpl"
      and md: "yaml_Marshal_metadata e (Metadata c) = Inr md"
      and yv: "yaml_Marshal_values e (Values c) = Inl x"
    have reach: "fst (ConvertReleaseVersion e s ns rn revision) = fst (convert_in_dir e s1 rel d ''.'')"
      using Convert_reached [OF cs ls decode_failures(4) [OF gz js] tmp] by simp
    have "fst (saveReleaseToFiles e s1 rel d) = Err (Wrap x ''marshal chart values'')"
      unfolding rel by (rule save_failures(2) [OF c fl tpl md yv])
    then have "saveReleaseToFiles e s1 rel d = (Err (Wrap x ''marshal chart values''), snd (saveReleaseToFiles e s1 rel d))"
      by (simp add: prod_eq_iff)
    then have "fst (convert_in_dir e s1 rel d ''.'') = Err (Wrap (Wrap x ''marshal chart values'') ''save release to files'')"
      by (rule convert_in_dir_errors(1))
    then show "fst (ConvertReleaseVersion e s ns rn revision) = Err (Wrap (Wrap x ''marshal chart values'') ''save release to files'')"
      using reach by simp
  next
    fix cs sec js rel d s1 r c fl tpl md vs pre cf post sk x
    assume cs: "GetClientset e = Inr cs"
      and ls: "cs ns [(''owner'', ''helm''), (''name'', rn), (''version'', Itoa revision)] = Inr [sec]"
      and gz: "gunzip e (NewDecoder (secret_data sec ''release'')) = Inflated js"
      and js: "json_Unmarshal e js = Inr rel"
      and tmp: "TempDir (fault e) (TMPDIR e) (rand e) s [] ''helm-release-'' = Inr (d, s1)"
      and rel: "rel = Some r"
      and c: "Chart r = Some c"
      and fl: "those (Files c) = Some fl"
      and tpl: "those (Templates c) = Some tpl"
      and md: "yaml_Marshal_metadata e (Metadata c) = Inr md"
      and vs: "yaml_Marshal_values e (Values c) = Inr vs"
      and sp: "fl @ tpl @ [\<lparr>Name = ''Chart.yaml'', Data = md\<rparr>, \<lparr>Name = ''values.yaml'', Data = vs\<rparr>, \<lparr>Name = ''values.schema.json'', Data = (case Schema c of None \<Rightarrow> ''null'' | Some bs \<Rightarrow> CHR 0x22 # EncodeToString bs @ [CHR 0x22])\<rparr>] = pre @ cf # post"
      and pre: "write_files (fault e) s1 d pre = (Ok (), sk)"
      and mk: "MkdirAll (fault e) sk (Dir (Join d (Name cf))) = Inl x"
    have reach: "fst (ConvertReleaseVersion e s ns rn revision) = fst (convert_in_dir e s1 rel d ''.'')"
      using Convert_reached [OF cs ls decode_failures(4) [OF gz js] tmp] by simp
    have "fst (saveReleaseToFiles e s1 rel d) = Err (Wrap x (''create dir '' @ Dir (Join d (Name cf))))"
      unfolding rel save_failures(3) [OF c fl tpl md vs] sp by (rule write_files_failures(1) [OF pre mk])
    then have "saveReleaseToFiles e s1 rel d = (Err (Wrap x (''create dir '' @ Dir (Join d (Name cf)))), snd (saveReleaseToFiles e s1 rel d))"
      by (simp add: prod_eq_iff)
    then have "fst (convert_in_dir e s1 rel d ''.'') = Err (Wrap (Wrap x (''create dir '' @ Dir (Join d (Name cf)))) ''save release to files'')"
      by (rule convert_in_dir_errors(1))
    then show "fst (ConvertReleaseVersion e s ns rn revision) = Err (Wrap (Wrap x (''create dir '' @ Dir (Join d (Name cf)))) ''save release to files'')"
      using reach by simp
  next
    fix cs sec js rel d s1 r c fl tpl md vs pre cf post sk sk' x
    assume cs: "GetClientset e = Inr cs"
      and ls: "cs ns [(''owner'', ''helm''), (''name'', rn), (''version'', Itoa revision)] = Inr [sec]"
      and gz: "gunzip e (NewDecoder (secret_data sec ''release'')) = Inflated js"
      and js: "json_Unmarshal e js = Inr rel"
      and tmp: "TempDir (fault e) (TMPDIR e) (rand e) s [] ''helm-release-'' = Inr (d, s1)"
      and rel: "rel = Some r"
      and c: "Chart r = Some c"
      and fl: "those (Files c) = Some fl"
      and tpl: "those (Templates c) = Some tpl"
      and md: "yaml_Marshal_metadata e (Metadata c) = Inr md"
      and vs: "yaml_Marshal_values e (Values c) = Inr vs"
      and sp: "fl @ tpl @ [\<lparr>Name = ''Chart.yaml'', Data = md\<rparr>, \<lparr>Name = ''values.yaml'', Data = vs\<rparr>, \<lparr>Name = ''values.schema.json'', Data = (case Schema c of None \<Rightarrow> ''null'' | Some bs \<Rightarrow> CHR 0x22 # EncodeToString bs @ [CHR 0x22])\<rparr>] = pre @ cf # post"
      and pre: "write_files (fault e) s1 d pre = (Ok (), sk)"
      and mk: "MkdirAll (fault e) sk (Dir (Join d (Name cf))) = Inr sk'"
      and wr: "WriteFile (fault e) sk' (Join d (Name cf)) (Data cf) = Inl x"
    have reach: "fst (ConvertReleaseVersion e s ns rn revision) = fst (convert_in_dir e s1 rel d ''.'')"
      using Convert_reached [OF cs ls decode_failures(4) [OF gz js] tmp] by simp
    have "fst (saveReleaseToFiles e s1 rel d) = Err (Wrap x (''write file '' @ Join d (Name cf)))"
      unfolding rel save_failures(3) [OF c fl tpl md vs] sp by (rule write_files_failures(2) [OF pre mk wr])
    then have "saveReleaseToFiles e s1 rel d = (Err (Wrap x (''write file '' @ Join d (Name cf))), snd (saveReleaseToFiles e s1 rel d))"
      by (simp add: prod_eq_iff)
    then have "fst (convert_in_dir e s1 rel d ''.'') = Err (Wrap (Wrap x (''write file '' @ Join d (Name cf))) ''save release to files'')"
      by (rule convert_in_dir_errors(1))
    then show "fst (ConvertReleaseVersion e s ns rn revision) = Err (Wrap (Wrap x (''write file '' @ Join d (Name cf))) ''save release to files'')"
      using reach by simp
  next
    fix cs sec js rel d s1 s2 x s3
    assume cs: "GetClientset e = Inr cs"
      and ls: "cs ns [(''owner'', ''helm''), (''name'', rn), (''version'', Itoa revision)] = Inr [sec]"
      and gz: "gunzip e (NewDecoder (secret_data sec ''release'')) = Inflated js"
      and js: "json_Unmarshal e js = Inr rel"
      and tmp: "TempDir (fault e) (TMPDIR e) (rand e) s [] ''helm-release-'' = Inr (d, s1)"
      and sv: "saveReleaseToFiles e s1 rel d = (Ok (), s2)"
      and pk: "package_Run e s2 d ''.'' = (Inl x, s3)"
    have reach: "fst (ConvertReleaseVersion e s ns rn revision) = fst (convert_in_dir e s1 rel d ''.'')"
      using Convert_reached [OF cs ls decode_failures(4) [OF gz js] tmp] by simp
    show "fst (ConvertReleaseVersion e s ns rn revision) = Err (Wrap x ''package client run'')"
      using reach convert_in_dir_errors(2) [OF sv pk] by simp
  next
    fix cs sec js rel d s1 s2 cf s3 r x
    assume cs: "GetClientset e = Inr cs"
      and ls: "cs ns [(''owner'', ''helm''), (''name'', rn), (''version'', Itoa revision)] = Inr [sec]"
      and gz: "gunzip e (NewDecoder (secret_data sec ''release'')) = Inflated js"
      and js: "json_Unmarshal e js = Inr rel"
      and tmp: "TempDir (fault e) (TMPDIR e) (rand e) s [] ''helm-release-'' = Inr (d, s1)"
      and sv: "saveReleaseToFiles e s1 rel d = (Ok (), s2)"
      and pk: "package_Run e s2 d ''.'' = (Inr cf, s3)"
      and rel: "rel = Some r"
      and cfg: "Config r \<noteq> []"
      and ym: "yaml_Marshal_values e (Config r) = Inl x"
    have reach: "fst (ConvertReleaseVersion e s ns rn revision) = fst (convert_in_dir e s1 rel d ''.'')"
      using Convert_reached [OF cs ls decode_failures(4) [OF gz js] tmp] by simp
    show "fst (ConvertReleaseVersion e s ns rn revision) = Err (Wrap x ''marshal config data'')"
      using reach convert_in_dir_errors(3) [OF sv pk rel cfg ym] by simp
  next
    fix cs sec js rel d s1 s2 cf s3 r configData x
    assume cs: "GetClientset e = Inr cs"
      and ls: "cs ns [(''owner'', ''helm''), (''name'', rn), (''version'', Itoa revision)] = Inr [sec]"
      and gz: "gunzip e (NewDecoder (secret_data sec ''release'')) = Inflated js"
      and js: "json_Unmarshal e js = Inr rel"
      and tmp: "TempDir (fault e) (TMPDIR e) (rand e) s [] ''helm-release-'' = Inr (d, s1)"
      and sv: "saveReleaseToFiles e s1 rel d = (Ok (), s2)"
      and pk: "package_Run e s2 d ''.'' = (Inr cf, s3)"
      and rel: "rel = Some r"
      and cfg: "Config r \<noteq> []"
      and ym: "yaml_Marshal_values e (Config r) = Inr configData"
      and wr: "WriteFile (fault e) s3 (Join ''.'' ''values.yaml'') configData = Inl x"
    have reach: "fst (ConvertReleaseVersion e s ns rn revision) = fst (convert_in_dir e s1 rel d ''.'')"
      using Convert_reached [OF cs ls decode_failures(4) [OF gz js] tmp] by simp
    show "fst (ConvertReleaseVersion e s ns rn revision) = Err (Wrap x ''write values file'')"
      using reach convert_in_dir_errors(4) [OF sv pk rel cfg ym wr] by simp
  qed
  have f: "(\<forall>args flag err.
      args \<noteq> [] \<and> flag = [] \<and> FindLatestReleaseVersion e ns (args ! 0) = Inl err \<longrightarrow>
      fst (RunE e s args ns flag) = Err (Wrap err ''find latest revision'') \<and>
      Cause (Wrap err ''find latest revision'') = Cause err)"
    by (simp add: RunE_errors(1))
  have g: "(\<forall>args flag rv err.
      args \<noteq> [] \<and>
      ((flag \<noteq> [] \<and> Atoi flag = Inr rv) \<or>
       (flag = [] \<and> FindLatestReleaseVersion e ns (args ! 0) = Inr rv)) \<and>
      fst (ConvertReleaseVersion e s ns (args ! 0) rv) = Err err \<longrightarrow>
      fst (RunE e s args ns flag) = Err (Wrap err ''convert release'') \<and>
      Cause (Wrap err ''convert release'') = Cause err)"
  proof (intro allI impI conjI; (elim conjE)?)
    fix args :: "string list" and flag rv err
    assume "args \<noteq> []"
      and "(flag \<noteq> [] \<and> Atoi flag = Inr rv) \<or>
           (flag = [] \<and> FindLatestReleaseVersion e ns (args ! 0) = Inr rv)"
      and "fst (ConvertReleaseVersion e s ns (args ! 0) rv) = Err err"
    then show "fst (RunE e s args ns flag) = Err (Wrap err ''convert release'')"
      by (rule RunE_errors(2))
  qed simp
  have h: "(\<forall>args flag topErr.
      fst (RunE e s args ns flag) = Err topErr \<longrightarrow> fst (InitAndExecute e s args ns flag) = 1)"
    using exit_status by blast
  show ?thesis
    by (rule conjI [OF z1 conjI [OF z2 conjI [OF a conjI [OF b conjI [OF c conjI [OF d
          conjI [OF f conjI [OF g h]]]]]]]])
qed

text \<open>
  Three runs of the command. Without a clientset the lookup of the latest revision
  fails; with revision 1 given and the template of the chart unwritable the conversion
  fails while it saves the chart; with \<^verbatim>\<open>values.yaml\<close> unwritable it fails at its last step.
  Each error arrives inside the context messages of the calls above it, and the exit
  status is 1.
\<close>

theorem failures_wrapped_and_surfaced_witness:
  "fst (RunE (demo_env (Inl (New ''no kubeconfig'')) None no_fault) demo_fs [''demo'']
          ''default'' []) =
     Err (Wrap (Wrap (New ''no kubeconfig'') ''get clientset'') ''find latest revision'') \<and>
   fst (InitAndExecute (demo_env (Inl (New ''no kubeconfig'')) None no_fault) demo_fs [''demo'']
          ''default'' []) = 1 \<and>
   fst (RunE (demo_env (Inr (demo_clientset [demo_secret ''1'']))
               (Some (demo_release None [] []))
               (deny_write ''/tmp/helm-release-001/templates/cm.yaml''))
          demo_fs [''demo''] ''default'' ''1'') =
     Err (Wrap (Wrap (Wrap (New ''permission denied'')
                        ''write file /tmp/helm-release-001/templates/cm.yaml'')
                  ''save release to files'') ''convert release'') \<and>
   fst (RunE (demo_env (Inr (demo_clientset [demo_secret ''1'']))
               (Some (demo_release None [] [(''replicas'', ''2'')])) (deny_write ''values.yaml''))
          demo_fs [''demo''] ''default'' ''1'') =
     Err (Wrap (Wrap (New ''permission denied'') ''write values file'') ''convert release'') \<and>
   fst (InitAndExecute (demo_env (Inr (demo_clientset [demo_secret ''1'']))
               (Some (demo_release None [] [(''replicas'', ''2'')])) (deny_write ''values.yaml''))
          demo_fs [''demo''] ''default'' ''1'') = 1"
proof -
  let ?e1 = "demo_env (Inl (New ''no kubeconfig'')) None no_fault"
  let ?rel = "Some (demo_release None [] [(''replicas'', ''2'')])"
  let ?flt = "deny_write ''values.yaml''"
  let ?e2 = "demo_env (Inr (demo_clientset [demo_secret ''1''])) ?rel ?flt"
  let ?rel3 = "Some (demo_release None [] [])"
  let ?flt3 = "deny_write ''/tmp/helm-release-001/templates/cm.yaml''"
  let ?e3 = "demo_env (Inr (demo_clientset [demo_secret ''1''])) ?rel3 ?flt3"
  let ?d = "''/tmp/helm-release-001''"
  let ?s1 = "demo_fs\<lparr>dirs := insert ?d (dirs demo_fs)\<rparr>"
  note t1 = failures_wrapped_and_surfaced [of ?e1 "''default''" "''demo''" demo_fs 0,
      THEN conjunct2, THEN conjunct2]
  have g1: "GetClientset ?e1 = Inl (New ''no kubeconfig'')" by (simp add: demo_env_fields)
  from t1 g1 have fl: "FindLatestReleaseVersion ?e1 ''default'' ([''demo''] ! 0) =
     Inl (Wrap (New ''no kubeconfig'') ''get clientset'')"
    by simp
  have r1: "fst (RunE ?e1 demo_fs [''demo''] ''default'' []) =
     Err (Wrap (Wrap (New ''no kubeconfig'') ''get clientset'') ''find latest revision'')"
    using t1 [THEN conjunct2, THEN conjunct2, THEN conjunct2, THEN conjunct2, THEN conjunct1,
        rule_format, of "[''demo'']" "[]"] fl
    by simp
  have x1: "fst (InitAndExecute ?e1 demo_fs [''demo''] ''default'' []) = 1"
    using t1 [THEN conjunct2, THEN conjunct2, THEN conjunct2, THEN conjunct2, THEN conjunct2,
        THEN conjunct2, rule_format, of "[''demo'']" "[]"] r1
    by simp
  have a1: "Atoi ''1'' = Inr 1" by (simp add: atoi_defs)

  note t3 = failures_wrapped_and_surfaced [of ?e3 "''default''" "''demo''" demo_fs 1,
      THEN conjunct2, THEN conjunct2]
  have nf3: "?flt3 SysTempDir = None" by (simp add: deny_write_def)
  have cs3: "GetClientset ?e3 = Inr (demo_clientset [demo_secret ''1''])"
    by (simp add: demo_env_fields)
  have gz3: "gunzip ?e3 (NewDecoder (secret_data (demo_secret ''1'') ''release'')) =
             Inflated ''demo-release''"
    by (simp add: secret_data_def demo_secret_def NewDecoder_EncodeToString demo_env_def
        del: EncodeToString.simps)
  have js3: "json_Unmarshal ?e3 ''demo-release'' = Inr ?rel3" by (simp add: demo_env_def)
  have tmp3: "TempDir (fault ?e3) (TMPDIR ?e3) (rand ?e3) demo_fs [] ''helm-release-'' = Inr (?d, ?s1)"
    unfolding demo_env_fields by (rule demo_tempdir) (rule nf3)
  let ?cm = "\<lparr>Name = ''templates/cm.yaml'', Data = ''kind: ConfigMap''\<rparr>"
  have c3: "Chart (demo_release None [] []) = Some (demo_chart None [])"
    by (simp add: demo_release_def)
  have fl3: "those (Files (demo_chart None [])) = Some []" by (simp add: demo_chart_def)
  have tpl3: "those (Templates (demo_chart None [])) = Some [?cm]" by (simp add: demo_chart_def)
  have md3: "yaml_Marshal_metadata ?e3 (Metadata (demo_chart None [])) = Inr ''name: demo''"
    by (simp add: demo_env_def demo_chart_def)
  have vs3: "yaml_Marshal_values ?e3 (Values (demo_chart None [])) = Inr ''replicas: 1;''"
    by (simp add: demo_env_def demo_chart_def)
  let ?post = "[\<lparr>Name = ''Chart.yaml'', Data = ''name: demo''\<rparr>,
                \<lparr>Name = ''values.yaml'', Data = ''replicas: 1;''\<rparr>,
                \<lparr>Name = ''values.schema.json'',
                 Data = (case Schema (demo_chart None []) of None \<Rightarrow> ''null''
                         | Some bs \<Rightarrow> CHR 0x22 # EncodeToString bs @ [CHR 0x22])\<rparr>]"
  have sp3: "[] @ [?cm] @ ?post = [] @ ?cm # ?post" by simp
  have pre3: "write_files (fault ?e3) ?s1 ?d [] = (Ok (), ?s1)" by simp
  have "\<exists>sk'. MkdirAll (fault ?e3) ?s1 (Dir (Join ?d (Name ?cm))) = Inr sk'"
    by (simp add: MkdirAll_def demo_env_fields deny_write_def demo_fs_def path_defs)
  then obtain sk' where mk3: "MkdirAll (fault ?e3) ?s1 (Dir (Join ?d (Name ?cm))) = Inr sk'" ..
  have wr3: "WriteFile (fault ?e3) sk' (Join ?d (Name ?cm)) (Data ?cm) = Inl (New ''permission denied'')"
    by (simp add: WriteFile_def demo_env_fields deny_write_def path_defs)
  have j3: "Join ?d (Name ?cm) = ''/tmp/helm-release-001/templates/cm.yaml''"
    by (simp add: path_defs)
  have conv3: "fst (ConvertReleaseVersion ?e3 demo_fs ''default'' ''demo'' 1) =
              Err (Wrap (Wrap (New ''permission denied'')
                           ''write file /tmp/helm-release-001/templates/cm.yaml'')
                     ''save release to files'')"
    using t3 [THEN conjunct2, THEN conjunct2, THEN conjunct2, THEN conjunct1, rule_format,
        OF conjI [OF cs3 demo_list_one], THEN conjunct2, THEN conjunct2, rule_format, OF gz3,
        THEN conjunct2, rule_format, OF js3, THEN conjunct2, rule_format, OF tmp3,
        THEN conjunct1, rule_format, OF conjI [OF refl conjI [OF c3 conjI [OF fl3 tpl3]]],
        THEN conjunct2, rule_format, OF md3, THEN conjunct2, rule_format,
        OF conjI [OF vs3 conjI [OF sp3 pre3]], THEN conjunct2, rule_format,
        OF conjI [OF mk3 wr3]]
    unfolding j3 by simp
  have r3: "fst (RunE ?e3 demo_fs [''demo''] ''default'' ''1'') =
     Err (Wrap (Wrap (Wrap (New ''permission denied'')
                        ''write file /tmp/helm-release-001/templates/cm.yaml'')
                  ''save release to files'') ''convert release'')"
    using t3 [THEN conjunct2, THEN conjunct2, THEN conjunct2, THEN conjunct2, THEN conjunct2,
        THEN conjunct1, rule_format, of "[''demo'']" "''1''" 1] a1 conv3
    by simp

  note t2 = failures_wrapped_and_surfaced [of ?e2 "''default''" "''demo''" demo_fs 1,
      THEN conjunct2, THEN conjunct2]
  have nf: "?flt SysTempDir = None" by (simp add: deny_write_def)
  have cs: "GetClientset ?e2 = Inr (demo_clientset [demo_secret ''1''])"
    by (simp add: demo_env_fields)
  have gz: "gunzip ?e2 (NewDecoder (secret_data (demo_secret ''1'') ''release'')) =
            Inflated ''demo-release''"
    by (simp add: secret_data_def demo_secret_def NewDecoder_EncodeToString demo_env_def
        del: EncodeToString.simps)
  have js: "json_Unmarshal ?e2 ''demo-release'' = Inr ?rel" by (simp add: demo_env_def)
  have tmp: "TempDir (fault ?e2) (TMPDIR ?e2) (rand ?e2) demo_fs [] ''helm-release-'' = Inr (?d, ?s1)"
    unfolding demo_env_fields by (rule demo_tempdir) (rule nf)
  have "fst (saveReleaseToFiles ?e2 ?s1 ?rel ?d) = Ok ()"
    by (simp add: run_defs demo_defs path_defs deny_write_def)
  then have sv: "saveReleaseToFiles ?e2 ?s1 ?rel ?d = (Ok (), snd (saveReleaseToFiles ?e2 ?s1 ?rel ?d))"
    by (simp add: prod_eq_iff)
  let ?s2 = "snd (saveReleaseToFiles ?e2 ?s1 ?rel ?d)"
  have pk: "package_Run ?e2 ?s2 ?d ''.'' =
              (Inr ''demo-0.1.0.tgz'', snd (package_Run ?e2 ?s2 ?d ''.''))"
    by (simp add: demo_env_def path_defs)
  have cfg: "Config (demo_release None [] [(''replicas'', ''2'')]) \<noteq> []"
    by (simp add: demo_release_def)
  have ym: "yaml_Marshal_values ?e2 (Config (demo_release None [] [(''replicas'', ''2'')])) =
            Inr ''replicas: 2;''"
    by (simp add: demo_env_def demo_release_def)
  have wr: "WriteFile (fault ?e2) (snd (package_Run ?e2 ?s2 ?d ''.'')) (Join ''.'' ''values.yaml'')
              ''replicas: 2;'' = Inl (New ''permission denied'')"
    by (simp add: WriteFile_def demo_env_fields deny_write_def path_defs)
  have conv: "fst (ConvertReleaseVersion ?e2 demo_fs ''default'' ''demo'' 1) =
              Err (Wrap (New ''permission denied'') ''write values file'')"
    using t2 [THEN conjunct2, THEN conjunct2, THEN conjunct2, THEN conjunct1, rule_format,
        OF conjI [OF cs demo_list_one], THEN conjunct2, THEN conjunct2, rule_format, OF gz,
        THEN conjunct2, rule_format, OF js, THEN conjunct2, rule_format, OF tmp,
        THEN conjunct2, rule_format, OF sv, THEN conjunct2, rule_format,
        OF conjI [OF pk conjI [OF refl cfg]], THEN conjunct2, rule_format, OF conjI [OF ym wr]]
    by simp
  have r2: "fst (RunE ?e2 demo_fs [''demo''] ''default'' ''1'') =
     Err (Wrap (Wrap (New ''permission denied'') ''write values file'') ''convert release'')"
    using t2 [THEN conjunct2, THEN conjunct2, THEN conjunct2, THEN conjunct2, THEN conjunct2,
        THEN conjunct1, rule_format, of "[''demo'']" "''1''" 1] a1 conv
    by simp
  have x2: "fst (InitAndExecute ?e2 demo_fs [''demo''] ''default'' ''1'') = 1"
    using t2 [THEN conjunct2, THEN conjunct2, THEN conjunct2, THEN conjunct2, THEN conjunct2,
        THEN conjunct2, rule_format, of "[''demo'']" "''1''"] r2
    by simp
  from r1 x1 r3 r2 x2 show ?thesis by simp
qed

text \<open>
  C7 as stated fails in one point: the error does not reach the top level unchanged.
  \<^verbatim>\<open>FindLatestReleaseVersion\<close> returns \<^verbatim>\<open>get clientset: no kubeconfig\<close>; what the command
  returns to its caller is that error wrapped in \<^verbatim>\<open>find latest revision\<close>, another error.
\<close>

theorem top_level_error_is_wrapped_again:
  "FindLatestReleaseVersion (demo_env (Inl (New ''no kubeconfig'')) None no_fault)
     ''default'' ''demo'' = Inl (Wrap (New ''no kubeconfig'') ''get clientset'') \<and>
   fst (RunE (demo_env (Inl (New ''no kubeconfig'')) None no_fault) demo_fs [''demo'']
          ''default'' []) =
     Err (Wrap (Wrap (New ''no kubeconfig'') ''get clientset'') ''find latest revision'') \<and>
   fst (RunE (demo_env (Inl (New ''no kubeconfig'')) None no_fault) demo_fs [''demo'']
          ''default'' []) \<noteq>
     Err (Wrap (New ''no kubeconfig'') ''get clientset'')"
  by (simp add: RunE_def FindLatestReleaseVersion_def demo_env_fields)

end
